theory Spec2Isabelle
  imports Complex_Main "HOL-Library.AList" "HOL-Library.List_Lexorder" "HOL-Library.Char_ord"
begin

text \<open>
  A shallow embedding of the timetable system's scheduling core and the properties of it
  that the specification claims. Three classes of the repository are embedded:
  \<^item> the constraint manager (\<^verbatim>\<open>ConstraintManager\<close>): the period-overlap check of the
    feasibility validator and the soft-score calculator;
  \<^item> the timetable generator with conflict resolution (\<^verbatim>\<open>TimetableGenerator\<close>, the
    multi-attempt variant): the assignment engine, the conflict resolver, the optimisation
    passes, \<^verbatim>\<open>generate\<close> and the manual move;
  \<^item> the single-pass generator of \<^verbatim>\<open>src/js/timetable.js\<close>: its manual move and its
    morning test.

  The definitions come first, then example data, then the lemmas and the theorems of the
  claims, one subsection per claim.
\<close>

section \<open>Data model\<close>

text \<open>
  The timetable of the generator is a plain JavaScript object nested three levels deep,
  \<^verbatim>\<open>timetable[day][period_id][class_id]\<close>, whose leaves are slot objects. A plain
  object with string keys is modelled as an association list in insertion order:
  \<open>map_of\<close> is the property read (\<open>None\<close> is \<^verbatim>\<open>undefined\<close>), \<open>AList.update\<close> the
  property write and \<open>AList.map_entry\<close> the in-place mutation of the object stored
  under a key. Every address of the timetable holds an object of its own (the generator
  allocates a fresh object per slot), so an address stands for the object stored there;
  two addresses are the same object exactly when they are equal.

  Identifiers are strings; a nullable identifier is a \<open>string option\<close> with \<open>None\<close>
  for \<^verbatim>\<open>null\<close>. A test such as \<^verbatim>\<open>if (slot.subject_id)\<close> is a truthiness test: it
  fails for \<^verbatim>\<open>null\<close> and for the empty string.
\<close>

type_synonym ident = string

type_synonym 'v obj = "(string \<times> 'v) list"

record slot =
  day :: string
  period_id :: ident
  class_id :: ident
  subject_id :: "ident option"
  teacher_id :: "ident option"
  room_id :: "ident option"
  is_break :: bool

type_synonym timetable = "slot obj obj obj"

text \<open>An address \<^verbatim>\<open>{day, period_id, class_id}\<close> as passed to \<^verbatim>\<open>moveLesson\<close>.\<close>

type_synonym address = "string \<times> ident \<times> ident"

text \<open>
  Exceptions are values: \<open>TypeError\<close> is the error of reading a property of
  \<^verbatim>\<open>undefined\<close> or calling something that is not a function, \<open>Error msg\<close> is
  \<^verbatim>\<open>throw new Error(msg)\<close>.
\<close>

datatype error = TypeError | Error string

definition truthy :: "string option \<Rightarrow> bool" where
  "truthy x = (case x of None \<Rightarrow> False | Some s \<Rightarrow> s \<noteq> [])"

text \<open>
  \<^verbatim>\<open>timetable[d][p][c]\<close>: a missing day or period makes the next property read throw,
  a missing class yields \<^verbatim>\<open>undefined\<close>.
\<close>

definition get_slot :: "timetable \<Rightarrow> address \<Rightarrow> error + slot option" where
  "get_slot tt a =
     (case a of (d, p, c) \<Rightarrow>
        (case map_of tt d of
           None \<Rightarrow> Inl TypeError
         | Some dd \<Rightarrow>
             (case map_of dd p of
                None \<Rightarrow> Inl TypeError
              | Some pp \<Rightarrow> Inr (map_of pp c))))"

text \<open>Mutation of the slot object stored at an address.\<close>

definition modify_slot :: "timetable \<Rightarrow> address \<Rightarrow> (slot \<Rightarrow> slot) \<Rightarrow> timetable" where
  "modify_slot tt a f =
     (case a of (d, p, c) \<Rightarrow>
        AList.map_entry d (AList.map_entry p (AList.map_entry c f)) tt)"

section \<open>Manual move (\<^verbatim>\<open>moveLesson\<close>, \<^verbatim>\<open>isTeacherAvailableById\<close>)\<close>

text \<open>
  \<^verbatim>\<open>for (const classId in timetable[day][periodId])\<close> throws when \<^verbatim>\<open>timetable[day]\<close>
  is undefined and runs no iteration when \<^verbatim>\<open>timetable[day][periodId]\<close> is undefined.
  The loop returns \<^verbatim>\<open>false\<close> at the first key other than \<^verbatim>\<open>excludeClassId\<close> whose
  slot has the teacher, so its result does not depend on the enumeration order.
\<close>

definition isTeacherAvailableById ::
  "ident option \<Rightarrow> string \<Rightarrow> ident \<Rightarrow> timetable \<Rightarrow> ident option \<Rightarrow> error + bool" where
  "isTeacherAvailableById teacherId d periodId tt excludeClassId =
     (case map_of tt d of
        None \<Rightarrow> Inl TypeError
      | Some dd \<Rightarrow>
          (case map_of dd periodId of
             None \<Rightarrow> Inr True
           | Some pp \<Rightarrow>
               Inr (\<not> list_ex (\<lambda>classId. Some classId \<noteq> excludeClassId \<and>
                       (case map_of pp classId of
                          None \<Rightarrow> False
                        | Some s \<Rightarrow> teacher_id s = teacherId))
                     (map fst pp))))"

record move_result =
  success :: bool
  message :: string

definition rejected :: "string \<Rightarrow> move_result" where
  "rejected msg = \<lparr>success = False, message = msg\<rparr>"

definition clear_ids :: "slot \<Rightarrow> slot" where
  "clear_ids s = s\<lparr>subject_id := None, teacher_id := None, room_id := None\<rparr>"

definition copy_ids :: "slot \<Rightarrow> slot \<Rightarrow> slot" where
  "copy_ids src s =
     s\<lparr>subject_id := subject_id src, teacher_id := teacher_id src, room_id := room_id src\<rparr>"

text \<open>
  \<^verbatim>\<open>moveLesson\<close> of the generator with conflict resolution. The three writes to the
  target read the source object, the three writes to the source follow; when both
  addresses are the same object the first three writes change nothing and the last three
  clear it, which is what the two \<open>modify_slot\<close> steps do. \<^verbatim>\<open>notifyCollaborators\<close> only
  logs and is left out.
\<close>

definition moveLesson :: "timetable \<Rightarrow> address \<Rightarrow> address \<Rightarrow> error + (move_result \<times> timetable)" where
  "moveLesson tt from to =
     (case get_slot tt from of
        Inl e \<Rightarrow> Inl e
      | Inr fromSlot \<Rightarrow>
     (case get_slot tt to of
        Inl e \<Rightarrow> Inl e
      | Inr toSlot \<Rightarrow>
     (case toSlot of
        None \<Rightarrow> Inl TypeError
      | Some ts \<Rightarrow>
          if is_break ts then Inr (rejected ''Cannot move lesson to break period'', tt)
          else if truthy (subject_id ts) then Inr (rejected ''Target slot is already occupied'', tt)
          else
            (case fromSlot of
               None \<Rightarrow> Inl TypeError
             | Some fs \<Rightarrow>
                 (case isTeacherAvailableById (teacher_id fs) (fst to) (fst (snd to)) tt
                         (Some (snd (snd from))) of
                    Inl e \<Rightarrow> Inl e
                  | Inr available \<Rightarrow>
                      if \<not> available
                      then Inr (rejected ''Teacher not available in target slot'', tt)
                      else
                        let tt1 = modify_slot tt to (copy_ids fs);
                            tt2 = modify_slot tt1 from clear_ids
                        in Inr (\<lparr>success = True, message = ''Lesson moved successfully''\<rparr>, tt2))))))"

text \<open>
  The single-pass generator has a \<^verbatim>\<open>moveLesson\<close> and an
  \<^verbatim>\<open>isTeacherAvailableById\<close> of its own. Its scan skips the excluded class with
  \<^verbatim>\<open>continue\<close>, and its move rejects a break slot and an occupied slot in one test,
  with one message.
\<close>

definition simple_isTeacherAvailableById ::
  "ident option \<Rightarrow> string \<Rightarrow> ident \<Rightarrow> timetable \<Rightarrow> ident option \<Rightarrow> error + bool" where
  "simple_isTeacherAvailableById teacherId d periodId tt excludeClassId =
     (case map_of tt d of
        None \<Rightarrow> Inl TypeError
      | Some dd \<Rightarrow>
          (case map_of dd periodId of
             None \<Rightarrow> Inr True
           | Some pp \<Rightarrow>
               Inr (\<not> list_ex (\<lambda>classId.
                       if Some classId = excludeClassId then False
                       else (case map_of pp classId of
                               None \<Rightarrow> False
                             | Some s \<Rightarrow> teacher_id s = teacherId))
                     (map fst pp))))"

definition simple_moveLesson ::
  "timetable \<Rightarrow> address \<Rightarrow> address \<Rightarrow> error + (move_result \<times> timetable)" where
  "simple_moveLesson tt from to =
     (case get_slot tt from of
        Inl e \<Rightarrow> Inl e
      | Inr fromSlot \<Rightarrow>
     (case get_slot tt to of
        Inl e \<Rightarrow> Inl e
      | Inr toSlot \<Rightarrow>
     (case toSlot of
        None \<Rightarrow> Inl TypeError
      | Some ts \<Rightarrow>
          if is_break ts \<or> truthy (subject_id ts)
          then Inr (rejected ''Target slot is not available'', tt)
          else
            (case fromSlot of
               None \<Rightarrow> Inl TypeError
             | Some fs \<Rightarrow>
                 (case simple_isTeacherAvailableById (teacher_id fs) (fst to) (fst (snd to)) tt
                         (Some (snd (snd from))) of
                    Inl e \<Rightarrow> Inl e
                  | Inr available \<Rightarrow>
                      if \<not> available
                      then Inr (rejected ''Teacher not available in target slot'', tt)
                      else
                        let tt1 = modify_slot tt to (copy_ids fs);
                            tt2 = modify_slot tt1 from clear_ids
                        in Inr (\<lparr>success = True, message = ''Lesson moved successfully''\<rparr>, tt2))))))"

section \<open>Entities and application state\<close>

text \<open>
  The records of the entity store as the code reads them. \<open>p_type\<close> is the string
  \<^verbatim>\<open>period.type\<close>, tested against \<^verbatim>\<open>'lesson'\<close>; \<open>priority\<close> is the string
  \<^verbatim>\<open>subject.priority\<close>. An optional property is an \<open>option\<close>. Numbers that the store
  holds as integers are \<open>int\<close>; computed numbers are \<open>real\<close>, and a \<open>real option\<close> is a
  JavaScript number that may be \<^verbatim>\<open>NaN\<close> (\<open>None\<close>). The integers of the store, which
  the application reads with \<^verbatim>\<open>parseInt\<close>, and the counts of slots are taken to be
  below \<open>2^53\<close> in absolute value, where sums, differences and products of integers are
  exact in double precision; they are written with the exact operations. Every other
  operation is rounded to double precision, see the section on numbers.
\<close>

record period =
  p_id :: ident
  p_name :: string
  start_time :: string
  end_time :: string
  p_type :: string

record subject =
  s_id :: ident
  s_name :: string
  target_lessons_per_week :: int
  priority :: string

record school_class =
  c_id :: ident
  level :: string
  stream :: string

record teacher_preferences =
  morning_preference :: bool

record teacher =
  t_id :: ident
  t_name :: string
  subjects :: "ident list option"
  class_levels :: "string list option"
  preferences :: "teacher_preferences option"

record constraints =
  max_daily_lessons :: int
  max_weekly_lessons :: int
  prefer_morning :: bool
  balance_workload :: bool

text \<open>
  \<^verbatim>\<open>appState\<close>. The constraint manager reads \<^verbatim>\<open>appState.days\<close>, a property the
  application does not set when it builds the state, so it is optional here.
\<close>

record app_state =
  periods :: "period list"
  subjects_of :: "subject list"
  classes :: "school_class list"
  teachers :: "teacher list"
  constraints_of :: constraints
  days :: "string list option"

section \<open>Numbers\<close>

text \<open>
  A JavaScript number is a double. A finite one is modelled by the real number it
  denotes, and an operation by the exact operation followed by the rounding of IEEE 754:
  to the nearest number with a significand of 53 bits, ties to the even significand,
  with the fixed spacing \<open>2^-1074\<close> below \<open>2^-1022\<close>. Results beyond the largest double,
  which the code would turn into an infinity, do not occur for the numbers of a timetable
  and are not represented.
\<close>

fun bit_length :: "nat \<Rightarrow> nat" where
  "bit_length n = (if n = 0 then 0 else Suc (bit_length (n div 2)))"

declare bit_length.simps [simp del]

text \<open>For \<open>x > 0\<close>, the exponent \<open>e\<close> with \<open>2^e \<le> x < 2^(e + 1)\<close>.\<close>

definition binary_exponent :: "real \<Rightarrow> int" where
  "binary_exponent x =
     (if 1 \<le> x then int (bit_length (nat \<lfloor>x\<rfloor>)) - 1
      else - int (bit_length (nat (\<lceil>1 / x\<rceil> - 1))))"

definition pow2 :: "int \<Rightarrow> real" where
  "pow2 e = (if 0 \<le> e then 2 ^ nat e else 1 / 2 ^ nat (- e))"

definition round_half_even :: "real \<Rightarrow> int" where
  "round_half_even x =
     (let f = \<lfloor>x\<rfloor>; r = x - of_int f
      in if r < 1 / 2 then f else if 1 / 2 < r then f + 1 else if even f then f else f + 1)"

definition round_double :: "real \<Rightarrow> real" where
  "round_double x =
     (if x = 0 then 0
      else let ulp = pow2 (max (binary_exponent \<bar>x\<bar>) (- 1022) - 52)
           in of_int (round_half_even (x / ulp)) * ulp)"

text \<open>The operations \<^verbatim>\<open>+\<close>, \<^verbatim>\<open>-\<close>, \<^verbatim>\<open>*\<close> and \<^verbatim>\<open>/\<close> on finite numbers.\<close>

definition dadd :: "real \<Rightarrow> real \<Rightarrow> real" where
  "dadd x y = round_double (x + y)"

definition dsub :: "real \<Rightarrow> real \<Rightarrow> real" where
  "dsub x y = round_double (x - y)"

definition dmul :: "real \<Rightarrow> real \<Rightarrow> real" where
  "dmul x y = round_double (x * y)"

definition ddiv :: "real \<Rightarrow> real \<Rightarrow> real" where
  "ddiv x y = round_double (x / y)"

section \<open>Plain objects\<close>

text \<open>
  \<^verbatim>\<open>Object.keys\<close>: the keys that are array indices (canonical decimal numerals below
  \<open>2^32 - 1\<close>) in ascending numeric order, then the other keys in insertion order.
\<close>

definition digit_val :: "char \<Rightarrow> nat" where
  "digit_val c = of_char c - 48"

definition is_digit :: "char \<Rightarrow> bool" where
  "is_digit c = (48 \<le> (of_char c :: nat) \<and> (of_char c :: nat) \<le> 57)"

definition decimal_val :: "string \<Rightarrow> nat" where
  "decimal_val s = foldl (\<lambda>n c. 10 * n + digit_val c) 0 s"

definition is_array_index :: "string \<Rightarrow> bool" where
  "is_array_index s =
     (s \<noteq> [] \<and> list_all is_digit s \<and> (s = ''0'' \<or> hd s \<noteq> CHR ''0'') \<and>
      length s \<le> 10 \<and> decimal_val s < 4294967295)"

definition own_keys :: "'v obj \<Rightarrow> string list" where
  "own_keys ob =
     (let ks = map fst (AList.clearjunk ob)
      in sort_key decimal_val (filter is_array_index ks) @ filter (\<lambda>k. \<not> is_array_index k) ks)"

text \<open>\<^verbatim>\<open>Object.values\<close>: the values in the order of \<^verbatim>\<open>Object.keys\<close>.\<close>

definition own_values :: "'v obj \<Rightarrow> 'v list" where
  "own_values ob = concat (map (\<lambda>k. case map_of ob k of None \<Rightarrow> [] | Some v \<Rightarrow> [v]) (own_keys ob))"

text \<open>
  A plain object inherits from \<^verbatim>\<open>Object.prototype\<close>: a read of one of the names below
  on an object without such a key of its own yields the inherited function (for
  \<^verbatim>\<open>__proto__\<close> the prototype object), a truthy value. A write under \<^verbatim>\<open>__proto__\<close>
  of a number creates no key.
\<close>

definition object_prototype_keys :: "string list" where
  "object_prototype_keys =
     [''constructor'', ''__defineGetter__'', ''__defineSetter__'', ''hasOwnProperty'',
      ''__lookupGetter__'', ''__lookupSetter__'', ''isPrototypeOf'', ''propertyIsEnumerable'',
      ''toString'', ''valueOf'', ''__proto__'', ''toLocaleString'']"

text \<open>A \<^verbatim>\<open>forEach\<close> or \<^verbatim>\<open>for\<close> loop whose body may throw, threading its local variables.\<close>

fun efold :: "('a \<Rightarrow> 'b \<Rightarrow> error + 'b) \<Rightarrow> 'a list \<Rightarrow> 'b \<Rightarrow> error + 'b" where
  "efold f [] acc = Inr acc"
| "efold f (x # xs) acc = (case f x acc of Inl e \<Rightarrow> Inl e | Inr acc' \<Rightarrow> efold f xs acc')"

text \<open>
  The entries a \<^verbatim>\<open>for...in\<close> loop over \<^verbatim>\<open>timetable[d][p]\<close> visits, each key once with
  the value read under it. A missing day throws, a missing period gives no iteration.
\<close>

definition period_entries :: "timetable \<Rightarrow> string \<Rightarrow> ident \<Rightarrow> error + (string \<times> slot) list" where
  "period_entries tt d p =
     (case map_of tt d of
        None \<Rightarrow> Inl TypeError
      | Some dd \<Rightarrow>
          (case map_of dd p of
             None \<Rightarrow> Inr []
           | Some pp \<Rightarrow> Inr (AList.clearjunk pp)))"

section \<open>Feasibility validator: period overlap (\<^verbatim>\<open>validatePeriodConstraints\<close>)\<close>

text \<open>\<^verbatim>\<open>timeStr.split(':')\<close>.\<close>

fun split_on :: "char \<Rightarrow> string \<Rightarrow> string list" where
  "split_on c [] = [[]]"
| "split_on c (x # xs) =
     (if x = c then [] # split_on c xs
      else (case split_on c xs of [] \<Rightarrow> [[x]] | w # ws \<Rightarrow> (x # w) # ws))"

text \<open>
  \<^verbatim>\<open>timeToMinutes\<close>. The host function \<^verbatim>\<open>Number\<close> is a parameter \<open>num\<close> of the
  development; it returns a finite number or \<^verbatim>\<open>NaN\<close> (the few strings that it reads as
  an infinity are not represented). A string without a colon leaves \<^verbatim>\<open>minutes\<close>
  undefined and the sum is \<^verbatim>\<open>NaN\<close>; parts after the second are ignored.
\<close>

definition timeToMinutes :: "(string \<Rightarrow> real option) \<Rightarrow> string \<Rightarrow> real option" where
  "timeToMinutes num timeStr =
     (case map num (split_on CHR '':'' timeStr) of
        Some hours # Some minutes # _ \<Rightarrow> Some (dadd (dmul hours 60) minutes)
      | _ \<Rightarrow> None)"

text \<open>\<^verbatim>\<open>a < b\<close> on numbers: false when either is \<^verbatim>\<open>NaN\<close>.\<close>

definition js_less :: "real option \<Rightarrow> real option \<Rightarrow> bool" where
  "js_less a b = (case (a, b) of (Some x, Some y) \<Rightarrow> x < y | _ \<Rightarrow> False)"

definition doPeriodsOverlap :: "(string \<Rightarrow> real option) \<Rightarrow> period \<Rightarrow> period \<Rightarrow> bool" where
  "doPeriodsOverlap num period1 period2 =
     (if p_type period1 \<noteq> ''lesson'' \<or> p_type period2 \<noteq> ''lesson'' then False
      else
        let start1 = timeToMinutes num (start_time period1);
            end1 = timeToMinutes num (end_time period1);
            start2 = timeToMinutes num (start_time period2);
            end2 = timeToMinutes num (end_time period2)
        in js_less start1 end2 \<and> js_less start2 end1)"

text \<open>
  The index pairs \<open>(i, j)\<close>, in loop order, at which the nested loop of
  \<^verbatim>\<open>validatePeriodConstraints\<close> pushes an error, and the errors it returns.
\<close>

definition overlap_pairs :: "(string \<Rightarrow> real option) \<Rightarrow> period list \<Rightarrow> (nat \<times> nat) list" where
  "overlap_pairs num ps =
     concat (map (\<lambda>i. concat (map (\<lambda>j. if doPeriodsOverlap num (ps ! i) (ps ! j) then [(i, j)] else [])
                                   [Suc i..<length ps]))
                 [0..<length ps])"

definition validatePeriodConstraints :: "(string \<Rightarrow> real option) \<Rightarrow> app_state \<Rightarrow> string list" where
  "validatePeriodConstraints num st =
     map (\<lambda>(i, j). ''Periods '' @ p_name (periods st ! i) @ '' and '' @ p_name (periods st ! j) @
                    '' overlap'')
         (overlap_pairs num (periods st))"

section \<open>Soft-score calculator (\<^verbatim>\<open>calculateSoftConstraintScores\<close>)\<close>

definition countSubjectLessons :: "app_state \<Rightarrow> ident \<Rightarrow> ident \<Rightarrow> timetable \<Rightarrow> error + int" where
  "countSubjectLessons st classId subjectId tt =
     (case days st of
        None \<Rightarrow> Inl TypeError
      | Some ds \<Rightarrow>
          efold (\<lambda>d. efold (\<lambda>p count.
                   if p_type p = ''lesson'' then
                     (case get_slot tt (d, p_id p, classId) of
                        Inl e \<Rightarrow> Inl e
                      | Inr None \<Rightarrow> Inl TypeError
                      | Inr (Some s) \<Rightarrow>
                          Inr (if subject_id s = Some subjectId then count + 1 else count))
                   else Inr count) (periods st))
                ds 0)"

text \<open>\<^verbatim>\<open>subject.target_lessons_per_week || 0\<close> is the number itself.\<close>

definition calculateSubjectFrequencyPenalty :: "app_state \<Rightarrow> timetable \<Rightarrow> error + int" where
  "calculateSubjectFrequencyPenalty st tt =
     efold (\<lambda>cls. efold (\<lambda>subj penalty.
              (case countSubjectLessons st (c_id cls) (s_id subj) tt of
                 Inl e \<Rightarrow> Inl e
               | Inr actualLessons \<Rightarrow>
                   let targetLessons = target_lessons_per_week subj;
                       difference = \<bar>actualLessons - targetLessons\<bar>
                   in Inr (penalty + difference * (if priority subj = ''high'' then 2 else 1))))
              (subjects_of st))
           (classes st) 0"

text \<open>\<^verbatim>\<open>period.start_time >= '12:00'\<close> compares strings, character by character.\<close>

definition isAfternoonPeriod :: "period \<Rightarrow> bool" where
  "isAfternoonPeriod p = (start_time p \<ge> ''12:00'')"

definition count_teacher :: "ident \<Rightarrow> (string \<times> slot) list \<Rightarrow> int" where
  "count_teacher teacherId es = int (length (filter (\<lambda>(c, s). teacher_id s = Some teacherId) es))"

definition countAfternoonLessons :: "app_state \<Rightarrow> ident \<Rightarrow> timetable \<Rightarrow> error + int" where
  "countAfternoonLessons st teacherId tt =
     (case days st of
        None \<Rightarrow> Inl TypeError
      | Some ds \<Rightarrow>
          efold (\<lambda>d. efold (\<lambda>p count.
                   if isAfternoonPeriod p then
                     (case period_entries tt d (p_id p) of
                        Inl e \<Rightarrow> Inl e
                      | Inr es \<Rightarrow> Inr (count + count_teacher teacherId es))
                   else Inr count) (periods st))
                ds 0)"

definition countTeacherDailyLessons :: "app_state \<Rightarrow> ident \<Rightarrow> string \<Rightarrow> timetable \<Rightarrow> error + int" where
  "countTeacherDailyLessons st teacherId d tt =
     efold (\<lambda>p count.
        if p_type p = ''lesson'' then
          (case period_entries tt d (p_id p) of
             Inl e \<Rightarrow> Inl e
           | Inr es \<Rightarrow> Inr (count + count_teacher teacherId es))
        else Inr count) (periods st) 0"

definition calculateTeacherPreferencePenalty :: "app_state \<Rightarrow> timetable \<Rightarrow> error + int" where
  "calculateTeacherPreferencePenalty st tt =
     efold (\<lambda>t penalty.
        (case preferences t of
           None \<Rightarrow> Inr penalty
         | Some prefs \<Rightarrow>
             (case (if morning_preference prefs
                    then (case countAfternoonLessons st (t_id t) tt of
                            Inl e \<Rightarrow> Inl e
                          | Inr n \<Rightarrow> Inr (penalty + n))
                    else Inr penalty) of
                Inl e \<Rightarrow> Inl e
              | Inr penalty1 \<Rightarrow>
                  (case days st of
                     None \<Rightarrow> Inl TypeError
                   | Some ds \<Rightarrow>
                       efold (\<lambda>d pen.
                          (case countTeacherDailyLessons st (t_id t) d tt of
                             Inl e \<Rightarrow> Inl e
                           | Inr dailyLessons \<Rightarrow>
                               Inr (if dailyLessons > max_daily_lessons (constraints_of st)
                                    then pen + (dailyLessons - max_daily_lessons (constraints_of st)) * 5
                                    else pen)))
                         ds penalty1))))
       (teachers st) 0"

text \<open>
  \<^verbatim>\<open>loads[teacher.id] = 0\<close> and \<^verbatim>\<open>loads[teacherId]++\<close> on an object of counts.
  After the increment a key that was missing, or whose value was \<^verbatim>\<open>NaN\<close>, holds
  \<^verbatim>\<open>NaN\<close>. Neither statement creates a key \<^verbatim>\<open>__proto__\<close>.
\<close>

definition init_load :: "ident \<Rightarrow> nat option obj \<Rightarrow> nat option obj" where
  "init_load k loads = (if k = ''__proto__'' then loads else AList.update k (Some 0) loads)"

definition increment_load :: "ident \<Rightarrow> nat option obj \<Rightarrow> nat option obj" where
  "increment_load k loads =
     (case map_of loads k of
        Some (Some n) \<Rightarrow> AList.update k (Some (Suc n)) loads
      | Some None \<Rightarrow> loads
      | None \<Rightarrow> if k = ''__proto__'' then loads else AList.update k None loads)"

definition count_loads :: "(string \<times> slot) list \<Rightarrow> nat option obj \<Rightarrow> nat option obj" where
  "count_loads es loads =
     fold (\<lambda>(c, s) l. (case teacher_id s of
                          None \<Rightarrow> l
                        | Some k \<Rightarrow> if k = [] then l else increment_load k l)) es loads"

text \<open>
  \<^verbatim>\<open>calculateTeacherLoads\<close> of the constraint manager returns
  \<^verbatim>\<open>Object.values(loads)\<close>.
\<close>

definition calculateTeacherLoads :: "app_state \<Rightarrow> timetable \<Rightarrow> error + nat option list" where
  "calculateTeacherLoads st tt =
     (let loads0 = fold (\<lambda>t l. init_load (t_id t) l) (teachers st) []
      in case days st of
           None \<Rightarrow> Inl TypeError
         | Some ds \<Rightarrow>
             (case efold (\<lambda>d. efold (\<lambda>p loads.
                      if p_type p = ''lesson'' then
                        (case period_entries tt d (p_id p) of
                           Inl e \<Rightarrow> Inl e
                         | Inr es \<Rightarrow> Inr (count_loads es loads))
                      else Inr loads) (periods st))
                    ds loads0 of
                Inl e \<Rightarrow> Inl e
              | Inr loads \<Rightarrow> Inr (own_values loads)))"

text \<open>All values of a list of numbers, or \<open>None\<close> when one of them is \<^verbatim>\<open>NaN\<close>.\<close>

fun all_numbers :: "nat option list \<Rightarrow> nat list option" where
  "all_numbers [] = Some []"
| "all_numbers (None # xs) = None"
| "all_numbers (Some n # xs) = map_option ((#) n) (all_numbers xs)"

text \<open>
  The mean is \<^verbatim>\<open>NaN\<close> on an empty list (zero divided by zero) and is then never used;
  a \<^verbatim>\<open>NaN\<close> load makes the sum, the mean and the imbalance \<^verbatim>\<open>NaN\<close>. The sum of
  \<^verbatim>\<open>reduce\<close> and the imbalance of \<^verbatim>\<open>forEach\<close> are accumulated from the left, with a
  rounding at every step.
\<close>

definition calculateWorkloadImbalancePenalty :: "app_state \<Rightarrow> timetable \<Rightarrow> error + real option" where
  "calculateWorkloadImbalancePenalty st tt =
     (case calculateTeacherLoads st tt of
        Inl e \<Rightarrow> Inl e
      | Inr teacherLoads \<Rightarrow>
          if teacherLoads = [] then Inr (Some 0)
          else
            (case all_numbers teacherLoads of
               None \<Rightarrow> Inr None
             | Some ls \<Rightarrow>
                 let avgLoad = ddiv (foldl (\<lambda>sum load. dadd sum (real load)) 0 ls)
                                    (real (length ls))
                 in Inr (Some (foldl (\<lambda>imbalance load. dadd imbalance \<bar>dsub (real load) avgLoad\<bar>)
                                     0 ls))))"

definition calculateSoftConstraintScores :: "app_state \<Rightarrow> timetable \<Rightarrow> error + real option" where
  "calculateSoftConstraintScores st tt =
     (case calculateSubjectFrequencyPenalty st tt of
        Inl e \<Rightarrow> Inl e
      | Inr frequency \<Rightarrow>
     (case calculateTeacherPreferencePenalty st tt of
        Inl e \<Rightarrow> Inl e
      | Inr preference \<Rightarrow>
     (case calculateWorkloadImbalancePenalty st tt of
        Inl e \<Rightarrow> Inl e
      | Inr None \<Rightarrow> Inr None
      | Inr (Some imbalance) \<Rightarrow>
          let totalScore = dsub 1000 (dmul (real_of_int frequency) 10);
              totalScore = dsub totalScore (dmul (real_of_int preference) 5);
              totalScore = dsub totalScore (dmul imbalance 3);
              totalScore = (if totalScore > 950 then dadd totalScore 50 else totalScore)
          in Inr (Some (max 0 totalScore)))))"


section \<open>Timetable generator: scoring (\<^verbatim>\<open>calculateAssignmentScore\<close>)\<close>

text \<open>The constructor's \<^verbatim>\<open>this.days\<close>.\<close>

definition generator_days :: "string list" where
  "generator_days =
     [''Monday'', ''Tuesday'', ''Wednesday'', ''Thursday'', ''Friday'', ''Saturday'', ''Sunday'']"

text \<open>\<^verbatim>\<open>priorityWeight[subject.priority] || 0\<close>.\<close>

definition priorityWeight :: "string \<Rightarrow> real" where
  "priorityWeight p = (if p = ''high'' then 10 else if p = ''medium'' then 5 else 0)"

text \<open>
  A counter object of \<^verbatim>\<open>assignLessons\<close>: a value is a count or, after
  \<^verbatim>\<open>++\<close> on a missing key, \<^verbatim>\<open>NaN\<close> (\<open>None\<close>).
\<close>

type_synonym counter = "nat option obj"

text \<open>Reading a counter as a number: a missing key is \<^verbatim>\<open>undefined\<close> and counts as \<^verbatim>\<open>NaN\<close>.\<close>

definition read_counter :: "counter \<Rightarrow> string \<Rightarrow> nat option" where
  "read_counter c k = (case map_of c k of Some (Some n) \<Rightarrow> Some n | _ \<Rightarrow> None)"

text \<open>
  \<^verbatim>\<open>calculateAssignmentScore\<close> of the generator with conflict resolution. A counter
  that reads as \<^verbatim>\<open>NaN\<close> makes the score \<^verbatim>\<open>NaN\<close>, a missing class in
  \<^verbatim>\<open>classLoad\<close> throws. The function receives the day and not the period.
\<close>

definition calculateAssignmentScore ::
  "app_state \<Rightarrow> teacher \<Rightarrow> subject \<Rightarrow> counter \<Rightarrow> counter obj \<Rightarrow> ident \<Rightarrow> string
     \<Rightarrow> error + real option" where
  "calculateAssignmentScore st t subj teacherLoad classLoad classId d =
     (case map_of classLoad classId of
        None \<Rightarrow> Inl TypeError
      | Some dayLoad \<Rightarrow>
          (case (read_counter teacherLoad (t_id t), read_counter dayLoad d) of
             (Some tload, Some cload) \<Rightarrow>
               let score = 100 - real tload * 2 - real cload * 1.5 + priorityWeight (priority subj);
                   score = (if prefer_morning (constraints_of st) \<and> priority subj = ''high''
                            then score + 5 else score)
               in Inr (Some (max 0 score))
           | _ \<Rightarrow> Inr None))"

text \<open>
  \<^verbatim>\<open>isMorningPeriod\<close>, which only the single-pass generator has: the period starts
  before 12:00.
\<close>

definition isMorningPeriod :: "period \<Rightarrow> bool" where
  "isMorningPeriod p = (start_time p < ''12:00'')"

text \<open>
  The score as the specification words it, for a slot of period \<open>p\<close>: the morning bonus
  is added only when the period is a morning period.
\<close>

definition specified_score :: "bool \<Rightarrow> string \<Rightarrow> period \<Rightarrow> nat \<Rightarrow> nat \<Rightarrow> real" where
  "specified_score preferMorning prio p tload cload =
     max 0 (100 - 2 * real tload - 1.5 * real cload + priorityWeight prio
            + (if preferMorning \<and> prio = ''high'' \<and> isMorningPeriod p then 5 else 0))"

section \<open>Timetable generator: conflict resolver (\<^verbatim>\<open>resolveConflicts\<close>)\<close>

record conflict =
  k_teacherId :: ident
  k_day :: string
  k_periodId :: ident
  assignments :: "(ident \<times> slot) list"

text \<open>
  \<^verbatim>\<open>teacherAssignments[slot.teacher_id].push({classId, slot})\<close>, after the array has
  been created when \<^verbatim>\<open>!teacherAssignments[slot.teacher_id]\<close>. For a teacher
  identifier that names a property of \<^verbatim>\<open>Object.prototype\<close> the test reads the inherited
  value, no array is created, and the call of \<^verbatim>\<open>push\<close>, which that value does not
  have, throws.
\<close>

definition push_assignment ::
  "ident \<Rightarrow> ident \<times> slot \<Rightarrow> (ident \<times> slot) list obj \<Rightarrow> error + (ident \<times> slot) list obj" where
  "push_assignment k a ta =
     (case map_of ta k of
        None \<Rightarrow> if k \<in> set object_prototype_keys then Inl TypeError
                else Inr (AList.update k [a] ta)
      | Some l \<Rightarrow> Inr (AList.update k (l @ [a]) ta))"

text \<open>The callback of \<^verbatim>\<open>classes.forEach\<close> in \<^verbatim>\<open>findAllConflicts\<close>.\<close>

definition collect_assignment ::
  "timetable \<Rightarrow> string \<Rightarrow> ident \<Rightarrow> school_class \<Rightarrow> (ident \<times> slot) list obj
     \<Rightarrow> error + (ident \<times> slot) list obj" where
  "collect_assignment tt d pid cls ta =
     (case get_slot tt (d, pid, c_id cls) of
        Inl e \<Rightarrow> Inl e
      | Inr None \<Rightarrow> Inl TypeError
      | Inr (Some s) \<Rightarrow>
          (case teacher_id s of
             None \<Rightarrow> Inr ta
           | Some k \<Rightarrow>
               if k \<noteq> [] \<and> \<not> is_break s
               then push_assignment k (c_id cls, s) ta
               else Inr ta))"

text \<open>What \<^verbatim>\<open>findAllConflicts\<close> does for one day and one lesson period.\<close>

definition period_conflicts :: "app_state \<Rightarrow> timetable \<Rightarrow> string \<Rightarrow> period \<Rightarrow> error + conflict list" where
  "period_conflicts st tt d p =
     (case efold (collect_assignment tt d (p_id p)) (classes st) [] of
        Inl e \<Rightarrow> Inl e
      | Inr teacherAssignments \<Rightarrow>
          Inr (concat (map (\<lambda>k. case map_of teacherAssignments k of
                                  None \<Rightarrow> []
                                | Some l \<Rightarrow>
                                    if length l > 1
                                    then [\<lparr>k_teacherId = k, k_day = d, k_periodId = p_id p,
                                           assignments = l\<rparr>]
                                    else [])
                           (own_keys teacherAssignments))))"

definition findAllConflicts :: "app_state \<Rightarrow> timetable \<Rightarrow> error + conflict list" where
  "findAllConflicts st tt =
     efold (\<lambda>d. efold (\<lambda>p conflicts.
              if p_type p \<noteq> ''lesson'' then Inr conflicts
              else (case period_conflicts st tt d p of
                      Inl e \<Rightarrow> Inl e
                    | Inr cs \<Rightarrow> Inr (conflicts @ cs)))
              (periods st))
           generator_days []"

text \<open>
  The search of \<^verbatim>\<open>findAlternativeSlot\<close> over the days and periods in loop order; it
  returns at the first slot of the class that has no subject, is no break and where the
  teacher is free.
\<close>

fun alternative_search ::
  "slot \<Rightarrow> ident \<Rightarrow> timetable \<Rightarrow> (string \<times> period) list \<Rightarrow> error + (string \<times> ident) option" where
  "alternative_search originalSlot teacherId tt [] = Inr None"
| "alternative_search originalSlot teacherId tt ((d, p) # rest) =
     (if p_type p \<noteq> ''lesson'' then alternative_search originalSlot teacherId tt rest
      else if d = day originalSlot \<and> p_id p = period_id originalSlot
      then alternative_search originalSlot teacherId tt rest
      else
        (case get_slot tt (d, p_id p, class_id originalSlot) of
           Inl e \<Rightarrow> Inl e
         | Inr None \<Rightarrow> Inl TypeError
         | Inr (Some s) \<Rightarrow>
             if \<not> truthy (subject_id s) \<and> \<not> is_break s
             then (case isTeacherAvailableById (Some teacherId) d (p_id p) tt
                          (Some (class_id originalSlot)) of
                     Inl e \<Rightarrow> Inl e
                   | Inr True \<Rightarrow> Inr (Some (d, p_id p))
                   | Inr False \<Rightarrow> alternative_search originalSlot teacherId tt rest)
             else alternative_search originalSlot teacherId tt rest))"

definition findAlternativeSlot ::
  "app_state \<Rightarrow> slot \<Rightarrow> ident \<Rightarrow> timetable \<Rightarrow> error + (string \<times> ident) option" where
  "findAlternativeSlot st originalSlot teacherId tt =
     alternative_search originalSlot teacherId tt (List.product generator_days (periods st))"

text \<open>\<^verbatim>\<open>timetable[d][p][c] = v\<close>.\<close>

definition set_slot :: "timetable \<Rightarrow> address \<Rightarrow> slot \<Rightarrow> error + timetable" where
  "set_slot tt a v =
     (case a of (d, p, c) \<Rightarrow>
        (case map_of tt d of
           None \<Rightarrow> Inl TypeError
         | Some dd \<Rightarrow>
             (case map_of dd p of
                None \<Rightarrow> Inl TypeError
              | Some pp \<Rightarrow>
                  Inr (AList.map_entry d (AList.map_entry p (AList.update c v)) tt))))"

text \<open>
  The loop of \<^verbatim>\<open>resolveTeacherDoubleBooking\<close> over \<^verbatim>\<open>assignments.slice(1)\<close>. The
  conflict carries the slot objects found by the scan; the resolver replaces the objects
  stored in the timetable and never mutates one, so the conflict holds their values.
\<close>

fun relocate_first ::
  "app_state \<Rightarrow> conflict \<Rightarrow> timetable \<Rightarrow> (ident \<times> slot) list \<Rightarrow> error + (bool \<times> timetable)" where
  "relocate_first st k tt [] = Inr (False, tt)"
| "relocate_first st k tt ((classId, s) # rest) =
     (case findAlternativeSlot st s (k_teacherId k) tt of
        Inl e \<Rightarrow> Inl e
      | Inr None \<Rightarrow> relocate_first st k tt rest
      | Inr (Some (d', p')) \<Rightarrow>
          (case set_slot tt (d', p', classId) (s\<lparr>day := d', period_id := p'\<rparr>) of
             Inl e \<Rightarrow> Inl e
           | Inr tt1 \<Rightarrow>
               (case set_slot tt1 (k_day k, k_periodId k, classId)
                       \<lparr>day = k_day k, period_id = k_periodId k, class_id = classId,
                        subject_id = None, teacher_id = None, room_id = None,
                        is_break = False\<rparr> of
                  Inl e \<Rightarrow> Inl e
                | Inr tt2 \<Rightarrow> Inr (True, tt2))))"

definition resolveTeacherDoubleBooking ::
  "app_state \<Rightarrow> conflict \<Rightarrow> timetable \<Rightarrow> error + (bool \<times> timetable)" where
  "resolveTeacherDoubleBooking st k tt = relocate_first st k tt (tl (assignments k))"

text \<open>Every conflict has the type \<^verbatim>\<open>teacher_double_booking\<close>.\<close>

definition resolveSpecificConflict ::
  "app_state \<Rightarrow> conflict \<Rightarrow> timetable \<Rightarrow> error + (bool \<times> timetable)" where
  "resolveSpecificConflict st k tt = resolveTeacherDoubleBooking st k tt"

text \<open>
  The inner loop of \<^verbatim>\<open>resolveConflicts\<close> over the conflicts of one scan, returning the
  number resolved in this iteration. The cancellation flag is read at every loop head;
  the model covers a run during which it does not change.
\<close>

fun resolve_each ::
  "app_state \<Rightarrow> bool \<Rightarrow> conflict list \<Rightarrow> nat \<times> timetable \<Rightarrow> error + (nat \<times> timetable)" where
  "resolve_each st cancelled [] acc = Inr acc"
| "resolve_each st cancelled (k # ks) (n, tt) =
     (if cancelled then Inr (n, tt)
      else (case resolveSpecificConflict st k tt of
              Inl e \<Rightarrow> Inl e
            | Inr (True, tt') \<Rightarrow> resolve_each st cancelled ks (Suc n, tt')
            | Inr (False, tt') \<Rightarrow> resolve_each st cancelled ks (n, tt')))"

text \<open>The outer loop, with the number of iterations that remain of \<^verbatim>\<open>maxIterations\<close>.\<close>

fun resolve_loop ::
  "app_state \<Rightarrow> bool \<Rightarrow> nat \<Rightarrow> nat \<times> timetable \<Rightarrow> error + (nat \<times> timetable)" where
  "resolve_loop st cancelled 0 acc = Inr acc"
| "resolve_loop st cancelled (Suc fuel) (conflictsResolved, tt) =
     (if cancelled then Inr (conflictsResolved, tt)
      else (case findAllConflicts st tt of
              Inl e \<Rightarrow> Inl e
            | Inr conflicts \<Rightarrow>
                if conflicts = [] then Inr (conflictsResolved, tt)
                else (case resolve_each st cancelled conflicts (0, tt) of
                        Inl e \<Rightarrow> Inl e
                      | Inr (resolvedThisIteration, tt') \<Rightarrow>
                          if resolvedThisIteration = 0
                          then Inr (conflictsResolved + resolvedThisIteration, tt')
                          else resolve_loop st cancelled fuel
                                 (conflictsResolved + resolvedThisIteration, tt'))))"

definition resolveConflicts :: "app_state \<Rightarrow> bool \<Rightarrow> timetable \<Rightarrow> error + (nat \<times> timetable)" where
  "resolveConflicts st cancelled tt = resolve_loop st cancelled 100 (0, tt)"

section \<open>Timetable generator: the assignment engine (\<^verbatim>\<open>assignLessons\<close>)\<close>

text \<open>
  The model follows a run of \<^verbatim>\<open>generate\<close> during which nobody calls
  \<^verbatim>\<open>cancelGeneration\<close>: the flag is a parameter that stays as it is. Progress display,
  analytics, console output and the delays that yield to the user interface have no
  effect on the timetable and are left out; the notifications of \<^verbatim>\<open>ErrorHandler\<close> are
  collected as pairs of message and type (the application initialises the handler when it
  starts, so showing a notification does not throw).
\<close>

type_synonym notification = "string \<times> string"

record lesson_slot =
  l_day :: string
  l_period_id :: ident
  l_class_id :: ident
  assigned :: bool

record assignment =
  a_day :: string
  a_period_id :: ident
  a_class_id :: ident
  a_teacher_id :: ident
  a_subject_id :: ident

text \<open>A number in a template string.\<close>

fun show_nat :: "nat \<Rightarrow> string" where
  "show_nat n =
     (if n < 10 then [char_of (48 + n)]
      else show_nat (n div 10) @ [char_of (48 + n mod 10)])"

definition validateData :: "app_state \<Rightarrow> bool \<times> notification list" where
  "validateData st =
     (if periods st = [] then (False, [(''Please set up school periods first.'', ''error'')])
      else if subjects_of st = [] then (False, [(''Please add subjects first.'', ''error'')])
      else if classes st = []
      then (False, [(''Please add classes and streams first.'', ''error'')])
      else if teachers st = [] then (False, [(''Please add teachers first.'', ''error'')])
      else
        let teachersWithoutSubjects =
              filter (\<lambda>t. case subjects t of None \<Rightarrow> True | Some l \<Rightarrow> l = []) (teachers st);
            subjectsWithoutTeachers =
              filter (\<lambda>s. list_all (\<lambda>t. case subjects t of
                                           None \<Rightarrow> True
                                         | Some l \<Rightarrow> \<not> List.member l (s_id s))
                                  (teachers st))
                     (subjects_of st)
        in (True,
            (if length teachersWithoutSubjects > 0
             then [(show_nat (length teachersWithoutSubjects) @
                    '' teachers have no subjects assigned.'', ''warning'')]
             else []) @
            (if length subjectsWithoutTeachers > 0
             then [(show_nat (length subjectsWithoutTeachers) @
                    '' subjects have no teachers available.'', ''warning'')]
             else [])))"

definition initializeTimetable :: "app_state \<Rightarrow> timetable" where
  "initializeTimetable st =
     fold (\<lambda>d tt.
        AList.update d
          (fold (\<lambda>p dd.
             AList.update (p_id p)
               (fold (\<lambda>cls pp.
                  AList.update (c_id cls)
                    \<lparr>day = d, period_id = p_id p, class_id = c_id cls, subject_id = None,
                     teacher_id = None, room_id = None, is_break = (p_type p \<noteq> ''lesson'')\<rparr>
                    pp)
                  (classes st) [])
               dd)
             (periods st) [])
          tt)
       generator_days []"

text \<open>A write to a property of the slot at an address; it throws when there is no slot.\<close>

definition mutate_slot :: "timetable \<Rightarrow> address \<Rightarrow> (slot \<Rightarrow> slot) \<Rightarrow> error + timetable" where
  "mutate_slot tt a f =
     (case get_slot tt a of
        Inr (Some s) \<Rightarrow> Inr (modify_slot tt a f)
      | _ \<Rightarrow> Inl TypeError)"

definition placeFixedElements :: "app_state \<Rightarrow> timetable \<Rightarrow> error + timetable" where
  "placeFixedElements st tt =
     efold (\<lambda>p tt.
        if p_type p \<noteq> ''lesson''
        then efold (\<lambda>d. efold (\<lambda>cls tt. mutate_slot tt (d, p_id p, c_id cls)
                                          (\<lambda>s. s\<lparr>is_break := True\<rparr>))
                              (classes st))
               generator_days tt
        else Inr tt)
       (periods st) tt"

definition createLessonSlots :: "app_state \<Rightarrow> lesson_slot list" where
  "createLessonSlots st =
     concat (map (\<lambda>d. concat (map (\<lambda>p.
        if p_type p = ''lesson''
        then map (\<lambda>cls. \<lparr>l_day = d, l_period_id = p_id p, l_class_id = c_id cls,
                          assigned = False\<rparr>) (classes st)
        else []) (periods st))) generator_days)"

text \<open>\<^verbatim>\<open>levelMap[level] || 1\<close>.\<close>

definition getClassLevelDifficulty :: "string \<Rightarrow> int" where
  "getClassLevelDifficulty lv =
     (if lv = ''S.1'' then 1 else if lv = ''S.2'' then 2 else if lv = ''S.3'' then 3
      else if lv = ''S.4'' then 4 else if lv = ''S.5'' then 5 else if lv = ''S.6'' then 6
      else 1)"

text \<open>
  The teachers whose \<^verbatim>\<open>class_levels\<close> include the level of the class. The level of a
  class that is not found is read, and throws, at the first teacher that has
  \<^verbatim>\<open>class_levels\<close>.
\<close>

definition teachers_for_level :: "app_state \<Rightarrow> school_class option \<Rightarrow> error + teacher list" where
  "teachers_for_level st cls =
     (case cls of
        None \<Rightarrow> if list_ex (\<lambda>t. class_levels t \<noteq> None) (teachers st)
                then Inl TypeError else Inr []
      | Some c \<Rightarrow>
          Inr (filter (\<lambda>t. case class_levels t of
                             None \<Rightarrow> False
                           | Some l \<Rightarrow> List.member l (level c))
                      (teachers st)))"

definition getAvailableTeachersForClass :: "app_state \<Rightarrow> ident \<Rightarrow> error + teacher list" where
  "getAvailableTeachersForClass st classId =
     teachers_for_level st (find (\<lambda>c. c_id c = classId) (classes st))"

text \<open>
  \<^verbatim>\<open>Array.prototype.sort\<close> with a comparator: the sort is stable, and for a comparator
  that orders by a key, as both comparators of the generator do, every stable sort returns
  the same list. \<open>insort_cmp\<close> puts an element in front of the first one that it does not
  follow.
\<close>

fun insort_cmp :: "('a \<Rightarrow> 'a \<Rightarrow> int) \<Rightarrow> 'a \<Rightarrow> 'a list \<Rightarrow> 'a list" where
  "insort_cmp cmp x [] = [x]"
| "insort_cmp cmp x (y # ys) = (if cmp x y \<le> 0 then x # y # ys else y # insort_cmp cmp x ys)"

definition sort_cmp :: "('a \<Rightarrow> 'a \<Rightarrow> int) \<Rightarrow> 'a list \<Rightarrow> 'a list" where
  "sort_cmp cmp xs = foldr (insort_cmp cmp) xs []"

text \<open>
  What the comparator of \<^verbatim>\<open>sortSlotsByDifficulty\<close> computes for a slot: the difficulty
  of the level of its class and the number of teachers for the class. It throws for a
  slot whose class is not found.
\<close>

definition difficulty_key :: "app_state \<Rightarrow> lesson_slot \<Rightarrow> error + (int \<times> int)" where
  "difficulty_key st s =
     (case find (\<lambda>c. c_id c = l_class_id s) (classes st) of
        None \<Rightarrow> Inl TypeError
      | Some c \<Rightarrow>
          (case getAvailableTeachersForClass st (c_id c) of
             Inl e \<Rightarrow> Inl e
           | Inr ts \<Rightarrow> Inr (getClassLevelDifficulty (level c), int (length ts))))"

text \<open>
  The comparator is called only when there are two slots or more, and then on every slot.
\<close>

definition sortSlotsByDifficulty :: "app_state \<Rightarrow> lesson_slot list \<Rightarrow> error + lesson_slot list" where
  "sortSlotsByDifficulty st slots =
     (if length slots \<le> 1 then Inr slots
      else if list_ex (\<lambda>s. case difficulty_key st s of Inl e \<Rightarrow> True | Inr k \<Rightarrow> False) slots
      then Inl TypeError
      else
        Inr (sort_cmp (\<lambda>a b.
               (case (difficulty_key st a, difficulty_key st b) of
                  (Inr (da, ta), Inr (db, tb)) \<Rightarrow>
                    let levelDiff = db - da in if levelDiff \<noteq> 0 then levelDiff else tb - ta
                | _ \<Rightarrow> 0))
             slots))"

text \<open>
  \<^verbatim>\<open>resetSomeSlots\<close>. The literals \<^verbatim>\<open>0.3\<close> and \<^verbatim>\<open>0.4\<close> denote the doubles nearest
  to them; \<^verbatim>\<open>maxAttempts\<close> is 5 at the only call. The slots the function is applied to
  are unassigned already, so the count has no effect on the run.
\<close>

definition resetSomeSlots :: "lesson_slot list \<Rightarrow> nat \<Rightarrow> nat \<Rightarrow> lesson_slot list" where
  "resetSomeSlots slots currentAttempt maxAttempts =
     (let resetPercentage = dadd (round_double 0.3)
                              (dmul (ddiv (real currentAttempt) (real maxAttempts)) (round_double 0.4));
          resetCount = nat \<lfloor>dmul (real (length slots)) resetPercentage\<rfloor>
      in map (\<lambda>s. s\<lparr>assigned := False\<rparr>) (take resetCount slots) @ drop resetCount slots)"

definition initializeTeacherLoad :: "app_state \<Rightarrow> counter" where
  "initializeTeacherLoad st = fold (\<lambda>t l. init_load (t_id t) l) (teachers st) []"

definition initializeClassLoad :: "app_state \<Rightarrow> counter obj" where
  "initializeClassLoad st =
     fold (\<lambda>cls l. AList.update (c_id cls)
                      (fold (\<lambda>d dl. AList.update d (Some 0) dl) generator_days []) l)
          (classes st) []"

definition initializeSubjectFrequency :: "app_state \<Rightarrow> counter obj" where
  "initializeSubjectFrequency st =
     fold (\<lambda>cls l. AList.update (c_id cls)
                      (fold (\<lambda>s sl. init_load (s_id s) sl) (subjects_of st) []) l)
          (classes st) []"

text \<open>\<^verbatim>\<open>counters[k1][k2]++\<close>: it throws when \<^verbatim>\<open>counters[k1]\<close> is undefined.\<close>

definition increment2 :: "ident \<Rightarrow> string \<Rightarrow> counter obj \<Rightarrow> error + counter obj" where
  "increment2 k1 k2 counters =
     (case map_of counters k1 of
        None \<Rightarrow> Inl TypeError
      | Some inner \<Rightarrow> Inr (AList.update k1 (increment_load k2 inner) counters))"

text \<open>
  \<^verbatim>\<open>getNeededSubjects\<close>: \<^verbatim>\<open>target_lessons_per_week || 5\<close> turns a target of zero into
  five, and a count that is missing or \<^verbatim>\<open>NaN\<close> reads as zero. The subjects are sorted
  by what remains of their target, most first.
\<close>

definition getNeededSubjects :: "app_state \<Rightarrow> ident \<Rightarrow> counter obj \<Rightarrow> error + subject list" where
  "getNeededSubjects st classId subjectFrequency =
     (case efold (\<lambda>subj classSubjects.
               (case map_of subjectFrequency classId of
                  None \<Rightarrow> Inl TypeError
                | Some freq \<Rightarrow>
                    let targetLessons = (if target_lessons_per_week subj = 0 then 5
                                         else target_lessons_per_week subj);
                        currentLessons = (case read_counter freq (s_id subj) of
                                            None \<Rightarrow> 0 | Some n \<Rightarrow> int n)
                    in if currentLessons < targetLessons
                       then Inr (classSubjects @ [(subj, targetLessons - currentLessons)])
                       else Inr classSubjects))
             (subjects_of st) [] of
        Inl e \<Rightarrow> Inl e
      | Inr classSubjects \<Rightarrow>
          Inr (map fst (sort_cmp (\<lambda>a b. snd b - snd a) classSubjects)))"

definition isTeacherAvailable :: "ident \<Rightarrow> string \<Rightarrow> ident \<Rightarrow> timetable \<Rightarrow> error + bool" where
  "isTeacherAvailable teacherId d periodId tt =
     (case map_of tt d of
        None \<Rightarrow> Inl TypeError
      | Some dd \<Rightarrow>
          (case map_of dd periodId of
             None \<Rightarrow> Inr True
           | Some pp \<Rightarrow>
               Inr (\<not> list_ex (\<lambda>classId. case map_of pp classId of
                                            None \<Rightarrow> False
                                          | Some s \<Rightarrow> teacher_id s = Some teacherId)
                              (map fst pp))))"

text \<open>
  The nested iteration of \<^verbatim>\<open>findBestAssignment\<close> keeps the best score and the best
  assignment so far; a score that is \<^verbatim>\<open>NaN\<close> is never better.
\<close>

definition findBestAssignment ::
  "app_state \<Rightarrow> lesson_slot \<Rightarrow> timetable \<Rightarrow> counter \<Rightarrow> counter obj \<Rightarrow> counter obj
     \<Rightarrow> error + assignment option" where
  "findBestAssignment st slot tt teacherLoad classLoad subjectFrequency =
     (case getNeededSubjects st (l_class_id slot) subjectFrequency of
        Inl e \<Rightarrow> Inl e
      | Inr neededSubjects \<Rightarrow>
          if neededSubjects = [] then Inr None
          else
            (case teachers_for_level st (find (\<lambda>c. c_id c = l_class_id slot) (classes st)) of
               Inl e \<Rightarrow> Inl e
             | Inr availableTeachers \<Rightarrow>
                 (case efold (\<lambda>subj.
                          efold (\<lambda>t (bestScore, bestAssignment).
                             (case isTeacherAvailable (t_id t) (l_day slot) (l_period_id slot) tt of
                                Inl e \<Rightarrow> Inl e
                              | Inr False \<Rightarrow> Inr (bestScore, bestAssignment)
                              | Inr True \<Rightarrow>
                                  (case calculateAssignmentScore st t subj teacherLoad classLoad
                                          (l_class_id slot) (l_day slot) of
                                     Inl e \<Rightarrow> Inl e
                                   | Inr None \<Rightarrow> Inr (bestScore, bestAssignment)
                                   | Inr (Some score) \<Rightarrow>
                                       if score > bestScore
                                       then Inr (score,
                                                 Some \<lparr>a_day = l_day slot,
                                                       a_period_id = l_period_id slot,
                                                       a_class_id = l_class_id slot,
                                                       a_teacher_id = t_id t,
                                                       a_subject_id = s_id subj\<rparr>)
                                       else Inr (bestScore, bestAssignment))))
                            (filter (\<lambda>t. case subjects t of
                                            None \<Rightarrow> False
                                          | Some l \<Rightarrow> List.member l (s_id subj))
                                    availableTeachers))
                        neededSubjects (- 1, None) of
                    Inl e \<Rightarrow> Inl e
                  | Inr (bestScore, bestAssignment) \<Rightarrow> Inr bestAssignment)))"

text \<open>
  \<^verbatim>\<open>assignLesson\<close> stores a copy of the slot with subject and teacher set. Every
  address that the generator passes holds a slot; for an address without one the source
  would store an object that lacks the other properties, which the model reports as an
  error.
\<close>

definition assignLesson :: "timetable \<Rightarrow> assignment \<Rightarrow> error + timetable" where
  "assignLesson tt a =
     (case get_slot tt (a_day a, a_period_id a, a_class_id a) of
        Inr (Some s) \<Rightarrow>
          set_slot tt (a_day a, a_period_id a, a_class_id a)
            (s\<lparr>subject_id := Some (a_subject_id a), teacher_id := Some (a_teacher_id a),
               is_break := False\<rparr>)
      | _ \<Rightarrow> Inl TypeError)"

text \<open>
  The state of one attempt: the timetable, the three counters, and the slots that could
  not be assigned, in the order in which they were visited.
\<close>

record attempt_state =
  as_tt :: timetable
  as_teacherLoad :: counter
  as_classLoad :: "counter obj"
  as_subjectFrequency :: "counter obj"
  as_unassigned :: "lesson_slot list"

text \<open>The body of the loop over the sorted slots.\<close>

definition assign_slot :: "app_state \<Rightarrow> lesson_slot \<Rightarrow> attempt_state \<Rightarrow> error + attempt_state" where
  "assign_slot st slot s =
     (if assigned slot then Inr s
      else
        (case findBestAssignment st slot (as_tt s) (as_teacherLoad s) (as_classLoad s)
                (as_subjectFrequency s) of
           Inl e \<Rightarrow> Inl e
         | Inr None \<Rightarrow> Inr (s\<lparr>as_unassigned := as_unassigned s @ [slot]\<rparr>)
         | Inr (Some best) \<Rightarrow>
             (case assignLesson (as_tt s) best of
                Inl e \<Rightarrow> Inl e
              | Inr tt' \<Rightarrow>
                  (case increment2 (a_class_id best) (a_day best) (as_classLoad s) of
                     Inl e \<Rightarrow> Inl e
                   | Inr classLoad' \<Rightarrow>
                       (case increment2 (a_class_id best) (a_subject_id best)
                               (as_subjectFrequency s) of
                          Inl e \<Rightarrow> Inl e
                        | Inr subjectFrequency' \<Rightarrow>
                            Inr (s\<lparr>as_tt := tt',
                                   as_teacherLoad :=
                                     increment_load (a_teacher_id best) (as_teacherLoad s),
                                   as_classLoad := classLoad',
                                   as_subjectFrequency := subjectFrequency'\<rparr>))))))"

text \<open>
  The attempts of \<^verbatim>\<open>assignLessons\<close>, with the number of attempts that remain of
  \<^verbatim>\<open>maxAttempts = 5\<close>. When an attempt leaves no slot unassigned the loop ends and
  every slot of \<^verbatim>\<open>lessonSlots\<close> is assigned; otherwise the unassigned slots become
  \<^verbatim>\<open>lessonSlots\<close>.
\<close>

fun attempts ::
  "app_state \<Rightarrow> bool \<Rightarrow> nat \<Rightarrow> lesson_slot list \<Rightarrow> attempt_state
     \<Rightarrow> error + (lesson_slot list \<times> attempt_state)" where
  "attempts st cancelled 0 lessonSlots s = Inr (lessonSlots, s)"
| "attempts st cancelled (Suc remaining) lessonSlots s =
     (if cancelled then Inr (lessonSlots, s)
      else
        (case sortSlotsByDifficulty st lessonSlots of
           Inl e \<Rightarrow> Inl e
         | Inr sortedSlots \<Rightarrow>
             (case efold (assign_slot st) sortedSlots (s\<lparr>as_unassigned := []\<rparr>) of
                Inl e \<Rightarrow> Inl e
              | Inr s' \<Rightarrow>
                  if as_unassigned s' = []
                  then Inr (map (\<lambda>l. l\<lparr>assigned := True\<rparr>) lessonSlots, s')
                  else attempts st cancelled remaining
                         (resetSomeSlots (as_unassigned s') (5 - Suc remaining) 5) s')))"

definition assignLessons ::
  "app_state \<Rightarrow> bool \<Rightarrow> timetable \<Rightarrow> lesson_slot list \<Rightarrow> error + (timetable \<times> notification list)" where
  "assignLessons st cancelled tt lessonSlots =
     (case attempts st cancelled 5 lessonSlots
             \<lparr>as_tt = tt, as_teacherLoad = initializeTeacherLoad st,
              as_classLoad = initializeClassLoad st,
              as_subjectFrequency = initializeSubjectFrequency st, as_unassigned = []\<rparr> of
        Inl e \<Rightarrow> Inl e
      | Inr (lessonSlots', s) \<Rightarrow>
          let finalUnassigned = length (filter (\<lambda>l. \<not> assigned l) lessonSlots')
          in Inr (as_tt s,
                  if finalUnassigned > 0
                  then [(show_nat finalUnassigned @
                         '' lessons could not be assigned. Consider adjusting constraints.'',
                         ''warning'')]
                  else []))"

section \<open>Timetable generator: optimisation passes and \<^verbatim>\<open>generate\<close>\<close>

text \<open>
  \<^verbatim>\<open>calculateTeacherLoads\<close> of the generator. It counts like the one of the constraint
  manager, over the days of the generator, and returns the object \<^verbatim>\<open>loads\<close> itself,
  not the array of its values.
\<close>

definition generator_calculateTeacherLoads :: "app_state \<Rightarrow> timetable \<Rightarrow> error + counter" where
  "generator_calculateTeacherLoads st tt =
     efold (\<lambda>d. efold (\<lambda>p loads.
              if p_type p = ''lesson'' then
                (case period_entries tt d (p_id p) of
                   Inl e \<Rightarrow> Inl e
                 | Inr es \<Rightarrow> Inr (count_loads es loads))
              else Inr loads) (periods st))
           generator_days
           (fold (\<lambda>t l. init_load (t_id t) l) (teachers st) [])"

text \<open>
  \<^verbatim>\<open>teacherLoads.reduce(...)\<close> on that object. A plain object has no method
  \<^verbatim>\<open>reduce\<close>: the property is undefined, or a number when a teacher has the identifier
  \<^verbatim>\<open>reduce\<close>, and calling it throws a type error. The statements after the call are
  never reached.
\<close>

definition reduce_of_object :: "counter \<Rightarrow> error" where
  "reduce_of_object teacherLoads = TypeError"

definition balanceTeacherWorkload :: "app_state \<Rightarrow> bool \<Rightarrow> timetable \<Rightarrow> error + timetable" where
  "balanceTeacherWorkload st cancelled tt =
     (if cancelled then Inr tt
      else (case generator_calculateTeacherLoads st tt of
              Inl e \<Rightarrow> Inl e
            | Inr teacherLoads \<Rightarrow> Inl (reduce_of_object teacherLoads)))"

definition calculateSubjectDistribution :: "app_state \<Rightarrow> ident \<Rightarrow> timetable \<Rightarrow> error + counter" where
  "calculateSubjectDistribution st classId tt =
     efold (\<lambda>d. efold (\<lambda>p distribution.
              if p_type p = ''lesson'' then
                (case get_slot tt (d, p_id p, classId) of
                   Inl e \<Rightarrow> Inl e
                 | Inr None \<Rightarrow> Inl TypeError
                 | Inr (Some s) \<Rightarrow>
                     (case subject_id s of
                        None \<Rightarrow> Inr distribution
                      | Some k \<Rightarrow> if k = [] then Inr distribution
                                  else Inr (increment_load k distribution)))
              else Inr distribution) (periods st))
           generator_days
           (fold (\<lambda>s l. init_load (s_id s) l) (subjects_of st) [])"

text \<open>
  \<^verbatim>\<open>teachers.find\<close> with the predicate of \<^verbatim>\<open>addMissingLessons\<close>, which throws for a
  teacher without \<^verbatim>\<open>subjects\<close> or \<^verbatim>\<open>class_levels\<close> and for a class that is not found.
\<close>

fun find_teacher ::
  "app_state \<Rightarrow> ident \<Rightarrow> ident \<Rightarrow> string \<Rightarrow> ident \<Rightarrow> timetable \<Rightarrow> teacher list
     \<Rightarrow> error + teacher option" where
  "find_teacher st classId subjectId d periodId tt [] = Inr None"
| "find_teacher st classId subjectId d periodId tt (t # ts) =
     (case subjects t of
        None \<Rightarrow> Inl TypeError
      | Some subjs \<Rightarrow>
          if \<not> List.member subjs subjectId then find_teacher st classId subjectId d periodId tt ts
          else
            (case class_levels t of
               None \<Rightarrow> Inl TypeError
             | Some levels \<Rightarrow>
                 (case find (\<lambda>c. c_id c = classId) (classes st) of
                    None \<Rightarrow> Inl TypeError
                  | Some c \<Rightarrow>
                      if \<not> List.member levels (level c)
                      then find_teacher st classId subjectId d periodId tt ts
                      else
                        (case isTeacherAvailableById (Some (t_id t)) d periodId tt (Some classId) of
                           Inl e \<Rightarrow> Inl e
                         | Inr True \<Rightarrow> Inr (Some t)
                         | Inr False \<Rightarrow> find_teacher st classId subjectId d periodId tt ts))))"

text \<open>
  The body of the inner loop of \<^verbatim>\<open>addMissingLessons\<close> over the periods of a day; the
  flag tells that the loop has met its \<^verbatim>\<open>break\<close>.
\<close>

fun add_in_day ::
  "app_state \<Rightarrow> ident \<Rightarrow> ident \<Rightarrow> int \<Rightarrow> string \<Rightarrow> period list \<Rightarrow> int \<times> timetable
     \<Rightarrow> error + (int \<times> timetable)" where
  "add_in_day st classId subjectId missingCount d [] acc = Inr acc"
| "add_in_day st classId subjectId missingCount d (p # ps) (added, tt) =
     (if p_type p \<noteq> ''lesson'' then add_in_day st classId subjectId missingCount d ps (added, tt)
      else if added \<ge> missingCount then Inr (added, tt)
      else
        (case get_slot tt (d, p_id p, classId) of
           Inl e \<Rightarrow> Inl e
         | Inr None \<Rightarrow> Inl TypeError
         | Inr (Some s) \<Rightarrow>
             if \<not> truthy (subject_id s) \<and> \<not> is_break s
             then (case find_teacher st classId subjectId d (p_id p) tt (teachers st) of
                     Inl e \<Rightarrow> Inl e
                   | Inr None \<Rightarrow> add_in_day st classId subjectId missingCount d ps (added, tt)
                   | Inr (Some t) \<Rightarrow>
                       add_in_day st classId subjectId missingCount d ps
                         (added + 1,
                          modify_slot tt (d, p_id p, classId)
                            (\<lambda>s. s\<lparr>subject_id := Some subjectId, teacher_id := Some (t_id t)\<rparr>)))
             else add_in_day st classId subjectId missingCount d ps (added, tt)))"

definition addMissingLessons ::
  "app_state \<Rightarrow> ident \<Rightarrow> ident \<Rightarrow> int \<Rightarrow> timetable \<Rightarrow> error + timetable" where
  "addMissingLessons st classId subjectId missingCount tt =
     (case efold (\<lambda>d. add_in_day st classId subjectId missingCount d (periods st))
             generator_days (0, tt) of
        Inl e \<Rightarrow> Inl e
      | Inr (added, tt') \<Rightarrow> Inr tt')"

text \<open>
  \<^verbatim>\<open>optimizeSubjectDistribution\<close>: for each class the counts are taken once, then the
  subjects are visited in the key order of the count object.
\<close>

definition optimizeSubjectDistribution :: "app_state \<Rightarrow> bool \<Rightarrow> timetable \<Rightarrow> error + timetable" where
  "optimizeSubjectDistribution st cancelled tt =
     (if cancelled then Inr tt
      else
        efold (\<lambda>cls tt.
           (case calculateSubjectDistribution st (c_id cls) tt of
              Inl e \<Rightarrow> Inl e
            | Inr subjectDistribution \<Rightarrow>
                efold (\<lambda>subjectId tt.
                   (case find (\<lambda>s. s_id s = subjectId) (subjects_of st) of
                      None \<Rightarrow> Inl TypeError
                    | Some subj \<Rightarrow>
                        let targetLessons = (if target_lessons_per_week subj = 0 then 5
                                             else target_lessons_per_week subj)
                        in (case read_counter subjectDistribution subjectId of
                              None \<Rightarrow> Inr tt
                            | Some currentLessons \<Rightarrow>
                                if int currentLessons < targetLessons
                                then addMissingLessons st (c_id cls) subjectId
                                       (targetLessons - int currentLessons) tt
                                else Inr tt)))
                  (own_keys subjectDistribution) tt))
          (classes st) tt)"

definition optimizeTimetable :: "app_state \<Rightarrow> bool \<Rightarrow> timetable \<Rightarrow> error + timetable" where
  "optimizeTimetable st cancelled tt =
     (if cancelled then Inr tt
      else
        (case resolveConflicts st cancelled tt of
           Inl e \<Rightarrow> Inl e
         | Inr (conflictsResolved, tt1) \<Rightarrow>
             (case balanceTeacherWorkload st cancelled tt1 of
                Inl e \<Rightarrow> Inl e
              | Inr tt2 \<Rightarrow> optimizeSubjectDistribution st cancelled tt2)))"

text \<open>
  \<^verbatim>\<open>validateTimetable\<close> counts the unassigned lesson slots and then calls
  \<^verbatim>\<open>reduce\<close> on the object of teacher loads, like \<^verbatim>\<open>balanceTeacherWorkload\<close>.
\<close>

definition validateTimetable :: "app_state \<Rightarrow> timetable \<Rightarrow> error + (bool \<times> string list)" where
  "validateTimetable st tt =
     (case efold (\<lambda>d. efold (\<lambda>p unassignedSlots.
               if p_type p = ''lesson'' then
                 efold (\<lambda>cls n.
                    (case get_slot tt (d, p_id p, c_id cls) of
                       Inl e \<Rightarrow> Inl e
                     | Inr None \<Rightarrow> Inl TypeError
                     | Inr (Some s) \<Rightarrow>
                         Inr (if \<not> truthy (subject_id s) \<and> \<not> is_break s then Suc n else n)))
                   (classes st) unassignedSlots
               else Inr unassignedSlots) (periods st))
             generator_days (0::nat) of
        Inl e \<Rightarrow> Inl e
      | Inr unassignedSlots \<Rightarrow>
          (case generator_calculateTeacherLoads st tt of
             Inl e \<Rightarrow> Inl e
           | Inr teacherLoads \<Rightarrow> Inl (reduce_of_object teacherLoads)))"

text \<open>
  \<^verbatim>\<open>generate\<close>: the outcome, a thrown error or the returned timetable, and the
  notifications shown on the way. The \<^verbatim>\<open>catch\<close> block rethrows the error.
\<close>

definition generate :: "app_state \<Rightarrow> bool \<Rightarrow> (error + timetable) \<times> notification list" where
  "generate st isGenerating =
     (if isGenerating then (Inl (Error ''Generation already in progress''), [])
      else
        (case validateData st of
           (False, shown) \<Rightarrow> (Inl (Error ''Invalid data. Please check your setup.''), shown)
         | (True, shown) \<Rightarrow>
             (case placeFixedElements st (initializeTimetable st) of
                Inl e \<Rightarrow> (Inl e, shown)
              | Inr tt \<Rightarrow>
                  (case assignLessons st False tt (createLessonSlots st) of
                     Inl e \<Rightarrow> (Inl e, shown)
                   | Inr (tt1, warnings) \<Rightarrow>
                       (case optimizeTimetable st False tt1 of
                          Inl e \<Rightarrow> (Inl e, shown @ warnings)
                        | Inr tt2 \<Rightarrow>
                            (case validateTimetable st tt2 of
                               Inl e \<Rightarrow> (Inl e, shown @ warnings)
                             | Inr validation \<Rightarrow> (Inr tt2, shown @ warnings)))))))"

section \<open>Teacher exclusivity\<close>

text \<open>
  No teacher is booked for two classes at once: at every day of the generator and every
  lesson period, two non-break slots of configured classes that name the same teacher
  belong to the same class. A slot names a teacher when its \<^verbatim>\<open>teacher_id\<close> is truthy.
\<close>

definition teacher_exclusive :: "app_state \<Rightarrow> timetable \<Rightarrow> bool" where
  "teacher_exclusive st tt =
     (\<forall>d \<in> set generator_days. \<forall>p \<in> set (periods st). \<forall>c1 \<in> set (classes st).
        \<forall>c2 \<in> set (classes st).
          (case (get_slot tt (d, p_id p, c_id c1), get_slot tt (d, p_id p, c_id c2)) of
             (Inr (Some s1), Inr (Some s2)) \<Rightarrow>
               p_type p = ''lesson'' \<and> truthy (teacher_id s1) \<and> \<not> is_break s1 \<and> \<not> is_break s2 \<and>
               teacher_id s1 = teacher_id s2 \<longrightarrow> c_id c1 = c_id c2
           | _ \<Rightarrow> True))"

text \<open>
  Where teacher \<open>k\<close> is booked at a day and period: the configured classes, in their
  order, whose slot there names the teacher and is no break, each with its slot.
\<close>

definition booked :: "timetable \<Rightarrow> string \<Rightarrow> ident \<Rightarrow> school_class list \<Rightarrow> ident \<Rightarrow> (ident \<times> slot) list" where
  "booked tt d pid cs k =
     concat (map (\<lambda>cls. case get_slot tt (d, pid, c_id cls) of
                           Inr (Some s) \<Rightarrow>
                             if teacher_id s = Some k \<and> k \<noteq> [] \<and> \<not> is_break s
                             then [(c_id cls, s)] else []
                         | _ \<Rightarrow> []) cs)"

text \<open>The slots of a day and period, each class once with the slot stored for it.\<close>

definition slots_of :: "timetable \<Rightarrow> string \<Rightarrow> ident \<Rightarrow> (string \<times> slot) list" where
  "slots_of tt d pid = (case period_entries tt d pid of Inl e \<Rightarrow> [] | Inr es \<Rightarrow> es)"

text \<open>
  Teacher \<open>k\<close> is free at a day and period for class \<open>c\<close>: no slot of another class names
  the teacher there.
\<close>

definition teacher_free :: "timetable \<Rightarrow> ident \<Rightarrow> string \<Rightarrow> ident \<Rightarrow> ident \<Rightarrow> bool" where
  "teacher_free tt k d pid c =
     (\<forall>(c', s') \<in> set (slots_of tt d pid). c' \<noteq> c \<longrightarrow> teacher_id s' \<noteq> Some k)"

text \<open>
  An alternative slot for the lesson that slot \<open>s\<close> holds with teacher \<open>k\<close>: a lesson
  period \<open>p\<close> on day \<open>d\<close>, other than the day and period that \<open>s\<close> records, at which the
  slot of the class that \<open>s\<close> records holds no subject and is no break, and at which the
  teacher is free for that class.
\<close>

definition alternative_slot :: "timetable \<Rightarrow> slot \<Rightarrow> ident \<Rightarrow> string \<Rightarrow> period \<Rightarrow> bool" where
  "alternative_slot tt s k d p =
     (p_type p = ''lesson'' \<and> \<not> (d = day s \<and> p_id p = period_id s) \<and>
      (case get_slot tt (d, p_id p, class_id s) of
         Inr (Some s') \<Rightarrow>
           (subject_id s' = None \<or> subject_id s' = Some []) \<and> \<not> is_break s' \<and>
           teacher_free tt k d (p_id p) (class_id s)
       | _ \<Rightarrow> False))"

text \<open>The teachers that the slots of the configured classes name at a day and period.\<close>

definition teachers_at :: "timetable \<Rightarrow> string \<Rightarrow> ident \<Rightarrow> school_class list \<Rightarrow> ident list" where
  "teachers_at tt d pid cs =
     concat (map (\<lambda>cls. case get_slot tt (d, pid, c_id cls) of
                           Inr (Some s) \<Rightarrow> (case teacher_id s of None \<Rightarrow> [] | Some k \<Rightarrow> [k])
                         | _ \<Rightarrow> []) cs)"

text \<open>
  No double booking of the timetable can be repaired the way the resolver repairs: for
  every teacher booked at a lesson period, every class of the booking but the first, in the
  order of the configured classes, has no alternative slot in the week for its lesson.
  A teacher booked for one class only has no such class, so the condition holds of a
  timetable without double bookings.
\<close>

definition no_alternatives :: "app_state \<Rightarrow> timetable \<Rightarrow> bool" where
  "no_alternatives st tt =
     (\<forall>d \<in> set generator_days. \<forall>p \<in> set (periods st). p_type p = ''lesson'' \<longrightarrow>
        (\<forall>k \<in> set (teachers_at tt d (p_id p) (classes st)).
           \<forall>(c, s) \<in> set (tl (booked tt d (p_id p) (classes st) k)).
             \<forall>d' \<in> set generator_days. \<forall>p' \<in> set (periods st). \<not> alternative_slot tt s k d' p'))"

section \<open>Clock times and the overlap of periods\<close>

text \<open>
  The minutes since midnight of a clock time \<^verbatim>\<open>HH:MM\<close> or \<^verbatim>\<open>HH:MM:SS\<close>, written with
  two decimal digits for each part; the seconds do not count.
\<close>

definition minutes_since_midnight :: "string \<Rightarrow> nat option" where
  "minutes_since_midnight s =
     (case s of
        h1 # h2 # c # m1 # m2 # rest \<Rightarrow>
          if c = CHR '':'' \<and> is_digit h1 \<and> is_digit h2 \<and> is_digit m1 \<and> is_digit m2 \<and>
             (case rest of
                [] \<Rightarrow> True
              | [c', s1, s2] \<Rightarrow> c' = CHR '':'' \<and> is_digit s1 \<and> is_digit s2
              | _ \<Rightarrow> False)
          then Some ((10 * digit_val h1 + digit_val h2) * 60 + (10 * digit_val m1 + digit_val m2))
          else None
      | _ \<Rightarrow> None)"

text \<open>
  Two periods overlap, as the specification words it: both are lesson periods and, with
  their times in minutes since midnight, each starts before the other ends.
\<close>

definition specified_overlap :: "period \<Rightarrow> period \<Rightarrow> bool" where
  "specified_overlap p q =
     (p_type p = ''lesson'' \<and> p_type q = ''lesson'' \<and>
      (case (minutes_since_midnight (start_time p), minutes_since_midnight (end_time p),
             minutes_since_midnight (start_time q), minutes_since_midnight (end_time q)) of
         (Some start1, Some end1, Some start2, Some end2) \<Rightarrow> start1 < end2 \<and> start2 < end1
       | _ \<Rightarrow> False))"

text \<open>The pairs of positions \<open>i < j\<close> below \<open>n\<close>, by \<open>i\<close> and then by \<open>j\<close>.\<close>

definition index_pairs :: "nat \<Rightarrow> (nat \<times> nat) list" where
  "index_pairs n = concat (map (\<lambda>i. map (Pair i) [Suc i..<n]) [0..<n])"

section \<open>The preference deduction in closed form\<close>

text \<open>
  What the soft score deducts for teacher preferences, written as sums, for a timetable
  that has a row for every day: a teacher with a \<^verbatim>\<open>preferences\<close> record costs 25 for
  each lesson above \<^verbatim>\<open>max_daily_lessons\<close> on a day and, when \<^verbatim>\<open>morning_preference\<close>
  is set, 5 for each afternoon lesson; a teacher without the record costs nothing.
\<close>

definition daily_lessons :: "app_state \<Rightarrow> timetable \<Rightarrow> ident \<Rightarrow> string \<Rightarrow> int" where
  "daily_lessons st tt teacherId d =
     sum_list (map (\<lambda>p. if p_type p = ''lesson''
                         then count_teacher teacherId (slots_of tt d (p_id p)) else 0)
                   (periods st))"

definition afternoon_lessons :: "app_state \<Rightarrow> string list \<Rightarrow> timetable \<Rightarrow> ident \<Rightarrow> int" where
  "afternoon_lessons st ds tt teacherId =
     sum_list (map (\<lambda>d. sum_list (map (\<lambda>p. if isAfternoonPeriod p
                                           then count_teacher teacherId (slots_of tt d (p_id p))
                                           else 0)
                                     (periods st)))
                   ds)"

definition preference_deduction :: "app_state \<Rightarrow> string list \<Rightarrow> timetable \<Rightarrow> int" where
  "preference_deduction st ds tt =
     sum_list (map (\<lambda>t. case preferences t of
                           None \<Rightarrow> 0
                         | Some prefs \<Rightarrow>
                             5 * (if morning_preference prefs
                                  then afternoon_lessons st ds tt (t_id t) else 0)
                             + 25 * sum_list (map (\<lambda>d. max 0 (daily_lessons st tt (t_id t) d
                                                           - max_daily_lessons (constraints_of st)))
                                                  ds))
                   (teachers st))"

section \<open>Example data\<close>

definition empty_slot :: "string \<Rightarrow> ident \<Rightarrow> ident \<Rightarrow> bool \<Rightarrow> slot" where
  "empty_slot d p c b =
     \<lparr>day = d, period_id = p, class_id = c, subject_id = None, teacher_id = None,
      room_id = None, is_break = b\<rparr>"

definition lesson_slot :: "string \<Rightarrow> ident \<Rightarrow> ident \<Rightarrow> ident \<Rightarrow> ident \<Rightarrow> slot" where
  "lesson_slot d p c s t = (empty_slot d p c False)\<lparr>subject_id := Some s, teacher_id := Some t\<rparr>"

text \<open>One day of two classes: a lesson period, a break, and two more lesson periods.\<close>

definition mv_tt :: timetable where
  "mv_tt =
     [(''Monday'',
        [(''P1'', [(''A'', lesson_slot ''Monday'' ''P1'' ''A'' ''Math'' ''T1''),
                   (''B'', lesson_slot ''Monday'' ''P1'' ''B'' ''Eng'' ''T2'')]),
         (''BR'', [(''A'', empty_slot ''Monday'' ''BR'' ''A'' True),
                   (''B'', empty_slot ''Monday'' ''BR'' ''B'' True)]),
         (''P2'', [(''A'', empty_slot ''Monday'' ''P2'' ''A'' False),
                   (''B'', lesson_slot ''Monday'' ''P2'' ''B'' ''Sci'' ''T3'')]),
         (''P3'', [(''A'', empty_slot ''Monday'' ''P3'' ''A'' False),
                   (''B'', empty_slot ''Monday'' ''P3'' ''B'' False)])])]"

text \<open>\<open>mv_tt\<close> after the lesson of class A has moved from P1 to P2.\<close>

definition mv_tt_moved :: timetable where
  "mv_tt_moved =
     [(''Monday'',
        [(''P1'', [(''A'', empty_slot ''Monday'' ''P1'' ''A'' False),
                   (''B'', lesson_slot ''Monday'' ''P1'' ''B'' ''Eng'' ''T2'')]),
         (''BR'', [(''A'', empty_slot ''Monday'' ''BR'' ''A'' True),
                   (''B'', empty_slot ''Monday'' ''BR'' ''B'' True)]),
         (''P2'', [(''A'', lesson_slot ''Monday'' ''P2'' ''A'' ''Math'' ''T1''),
                   (''B'', lesson_slot ''Monday'' ''P2'' ''B'' ''Sci'' ''T3'')]),
         (''P3'', [(''A'', empty_slot ''Monday'' ''P3'' ''A'' False),
                   (''B'', empty_slot ''Monday'' ''P3'' ''B'' False)])])]"

text \<open>A one-slot timetable whose slot names a teacher but no subject.\<close>

definition stray_slot :: slot where
  "stray_slot = (empty_slot ''Monday'' ''P1'' ''A'' False)\<lparr>teacher_id := Some ''T1''\<rparr>"

definition stray_tt :: timetable where
  "stray_tt = [(''Monday'', [(''P1'', [(''A'', stray_slot)])])]"

definition stray_tt_cleared :: timetable where
  "stray_tt_cleared = [(''Monday'', [(''P1'', [(''A'', empty_slot ''Monday'' ''P1'' ''A'' False)])])]"

text \<open>Teacher T1 is booked for classes A and C in P1; class A is free in P2.\<close>

definition db_tt :: timetable where
  "db_tt =
     [(''Monday'',
        [(''P1'', [(''A'', lesson_slot ''Monday'' ''P1'' ''A'' ''Math'' ''T1''),
                   (''C'', lesson_slot ''Monday'' ''P1'' ''C'' ''Sci'' ''T1'')]),
         (''P2'', [(''A'', empty_slot ''Monday'' ''P2'' ''A'' False),
                   (''C'', lesson_slot ''Monday'' ''P2'' ''C'' ''Eng'' ''T2'')])])]"

definition db_tt_moved :: timetable where
  "db_tt_moved =
     [(''Monday'',
        [(''P1'', [(''A'', empty_slot ''Monday'' ''P1'' ''A'' False),
                   (''C'', lesson_slot ''Monday'' ''P1'' ''C'' ''Sci'' ''T1'')]),
         (''P2'', [(''A'', lesson_slot ''Monday'' ''P2'' ''A'' ''Math'' ''T1''),
                   (''C'', lesson_slot ''Monday'' ''P2'' ''C'' ''Eng'' ''T2'')])])]"


text \<open>
  Class A has a lesson in P1 and, in P2, a slot whose \<^verbatim>\<open>subject_id\<close> is the empty
  string; \<open>blank_tt_moved\<close> is the timetable after the lesson has moved to P2.
\<close>

definition blank_slot :: slot where
  "blank_slot = (empty_slot ''Monday'' ''P2'' ''A'' False)\<lparr>subject_id := Some []\<rparr>"

definition blank_tt :: timetable where
  "blank_tt =
     [(''Monday'',
        [(''P1'', [(''A'', lesson_slot ''Monday'' ''P1'' ''A'' ''Math'' ''T1'')]),
         (''P2'', [(''A'', blank_slot)])])]"

definition blank_tt_moved :: timetable where
  "blank_tt_moved =
     [(''Monday'',
        [(''P1'', [(''A'', empty_slot ''Monday'' ''P1'' ''A'' False)]),
         (''P2'', [(''A'', lesson_slot ''Monday'' ''P2'' ''A'' ''Math'' ''T1'')])])]"
text \<open>
  A school with one lesson period a day, two classes and one configured teacher, for the
  conflict resolver.
\<close>

definition one_period :: "period list" where
  "one_period = [\<lparr>p_id = ''P1'', p_name = ''Period 1'', start_time = ''08:00'',
                   end_time = ''09:00'', p_type = ''lesson''\<rparr>]"

definition cx1_st :: app_state where
  "cx1_st =
     \<lparr>periods = one_period,
      subjects_of = [\<lparr>s_id = ''Math'', s_name = ''Mathematics'', target_lessons_per_week = 5,
                      priority = ''high''\<rparr>],
      classes = [\<lparr>c_id = ''A'', level = ''S.1'', stream = ''East''\<rparr>,
                 \<lparr>c_id = ''B'', level = ''S.1'', stream = ''West''\<rparr>],
      teachers = [\<lparr>t_id = ''T1'', t_name = ''Ada'', subjects = Some [''Math''],
                   class_levels = Some [''S.1''], preferences = None\<rparr>],
      constraints_of = \<lparr>max_daily_lessons = 6, max_weekly_lessons = 30, prefer_morning = True,
                        balance_workload = True\<rparr>,
      days = None\<rparr>"

text \<open>
  Teacher T1 is booked for both classes on Monday, and class B has a lesson in every
  other slot of the week, so that its Monday lesson has nowhere to go.
\<close>

definition cx1_tt :: timetable where
  "cx1_tt =
     (''Monday'', [(''P1'', [(''A'', lesson_slot ''Monday'' ''P1'' ''A'' ''Math'' ''T1''),
                             (''B'', lesson_slot ''Monday'' ''P1'' ''B'' ''Math'' ''T1'')])]) #
     map (\<lambda>d. (d, [(''P1'', [(''A'', empty_slot d ''P1'' ''A'' False),
                              (''B'', lesson_slot d ''P1'' ''B'' ''Eng'' ''T2'')])]))
         (tl generator_days)"

text \<open>The same double booking in an otherwise empty week, before and after the repair.\<close>

definition fix_tt :: timetable where
  "fix_tt =
     (''Monday'', [(''P1'', [(''A'', lesson_slot ''Monday'' ''P1'' ''A'' ''Math'' ''T1''),
                             (''B'', lesson_slot ''Monday'' ''P1'' ''B'' ''Math'' ''T1'')])]) #
     map (\<lambda>d. (d, [(''P1'', [(''A'', empty_slot d ''P1'' ''A'' False),
                              (''B'', empty_slot d ''P1'' ''B'' False)])]))
         (tl generator_days)"

definition fix_tt_resolved :: timetable where
  "fix_tt_resolved =
     (''Monday'', [(''P1'', [(''A'', lesson_slot ''Monday'' ''P1'' ''A'' ''Math'' ''T1''),
                             (''B'', empty_slot ''Monday'' ''P1'' ''B'' False)])]) #
     (''Tuesday'', [(''P1'', [(''A'', empty_slot ''Tuesday'' ''P1'' ''A'' False),
                              (''B'', lesson_slot ''Tuesday'' ''P1'' ''B'' ''Math'' ''T1'')])]) #
     map (\<lambda>d. (d, [(''P1'', [(''A'', empty_slot d ''P1'' ''A'' False),
                              (''B'', empty_slot d ''P1'' ''B'' False)])]))
         (tl (tl generator_days))"


text \<open>
  A timetable on which the resolver does not settle. Teacher T1 is named, without a
  subject, by the slots of class C on Monday and on Tuesday, and has a lesson with class B
  on Monday; the slot of that lesson records class C as its class. In \<open>swing_tt'\<close> the
  lesson is on Tuesday.
\<close>

definition swing_st :: app_state where
  "swing_st = cx1_st\<lparr>classes := [\<lparr>c_id = ''C'', level = ''S.1'', stream = ''East''\<rparr>,
                                  \<lparr>c_id = ''B'', level = ''S.1'', stream = ''West''\<rparr>]\<rparr>"

definition swing_slot :: "string \<Rightarrow> slot" where
  "swing_slot d = lesson_slot d ''P1'' ''C'' ''Math'' ''T1''"

definition swing_row :: "string \<Rightarrow> slot \<Rightarrow> string \<times> slot obj obj" where
  "swing_row d b =
     (d, [(''P1'', [(''C'', (empty_slot d ''P1'' ''C'' False)\<lparr>teacher_id := Some ''T1''\<rparr>),
                    (''B'', b)])])"

definition swing_tt :: timetable where
  "swing_tt =
     swing_row ''Monday'' (swing_slot ''Monday'') #
     swing_row ''Tuesday'' (empty_slot ''Tuesday'' ''P1'' ''B'' False) #
     map (\<lambda>d. (d, [(''P1'', [(''C'', empty_slot d ''P1'' ''C'' False),
                              (''B'', empty_slot d ''P1'' ''B'' False)])]))
         (tl (tl generator_days))"

definition swing_tt' :: timetable where
  "swing_tt' =
     swing_row ''Monday'' (empty_slot ''Monday'' ''P1'' ''B'' False) #
     swing_row ''Tuesday'' (swing_slot ''Tuesday'') #
     map (\<lambda>d. (d, [(''P1'', [(''C'', empty_slot d ''P1'' ''C'' False),
                              (''B'', empty_slot d ''P1'' ''B'' False)])]))
         (tl (tl generator_days))"
text \<open>An afternoon lesson period, and the records of teacher T1 and subject Math.\<close>

definition afternoon_period :: period where
  "afternoon_period = \<lparr>p_id = ''P7'', p_name = ''Period 7'', start_time = ''14:00'',
                        end_time = ''15:00'', p_type = ''lesson''\<rparr>"

definition teacher_T1 :: teacher where
  "teacher_T1 = \<lparr>t_id = ''T1'', t_name = ''Ada'', subjects = Some [''Math''],
                  class_levels = Some [''S.1''], preferences = None\<rparr>"

definition subject_Math :: subject where
  "subject_Math = \<lparr>s_id = ''Math'', s_name = ''Mathematics'', target_lessons_per_week = 5,
                    priority = ''high''\<rparr>"

text \<open>
  An instance of the host function \<^verbatim>\<open>Number\<close> for the examples: it agrees with
  \<^verbatim>\<open>Number\<close> on strings of decimal digits, the empty string included.
\<close>

definition decimal_number :: "string \<Rightarrow> real option" where
  "decimal_number s = (if list_all is_digit s then Some (real (decimal_val s)) else None)"

text \<open>Two lesson periods that overlap, a break inside both, and a later lesson.\<close>

definition overlap_periods :: "period list" where
  "overlap_periods =
     [\<lparr>p_id = ''P1'', p_name = ''Period 1'', start_time = ''08:00'', end_time = ''09:00'',
       p_type = ''lesson''\<rparr>,
      \<lparr>p_id = ''P2'', p_name = ''Period 2'', start_time = ''08:30'', end_time = ''09:30'',
       p_type = ''lesson''\<rparr>,
      \<lparr>p_id = ''BR'', p_name = ''Break'', start_time = ''08:45'', end_time = ''09:15'',
       p_type = ''break''\<rparr>,
      \<lparr>p_id = ''P3'', p_name = ''Period 3'', start_time = ''09:30'', end_time = ''10:30'',
       p_type = ''lesson''\<rparr>]"

text \<open>
  A school for the soft score: one lesson period a day, two classes, two teachers without
  preferences and a subject with five lessons a week. In \<open>score_tt\<close> each class has its
  five lessons, Monday to Friday, each with a teacher of its own.
\<close>

definition score_st :: app_state where
  "score_st =
     \<lparr>periods = one_period,
      subjects_of = [subject_Math],
      classes = [\<lparr>c_id = ''A'', level = ''S.1'', stream = ''East''\<rparr>,
                 \<lparr>c_id = ''B'', level = ''S.1'', stream = ''West''\<rparr>],
      teachers = [teacher_T1,
                  \<lparr>t_id = ''T2'', t_name = ''Ben'', subjects = Some [''Math''],
                   class_levels = Some [''S.1''], preferences = None\<rparr>],
      constraints_of = \<lparr>max_daily_lessons = 6, max_weekly_lessons = 30, prefer_morning = True,
                        balance_workload = True\<rparr>,
      days = Some generator_days\<rparr>"

definition score_tt :: timetable where
  "score_tt =
     map (\<lambda>d. (d, [(''P1'', [(''A'', lesson_slot d ''P1'' ''A'' ''Math'' ''T1''),
                              (''B'', lesson_slot d ''P1'' ''B'' ''Math'' ''T2'')])]))
         (take 5 generator_days) @
     map (\<lambda>d. (d, [(''P1'', [(''A'', empty_slot d ''P1'' ''A'' False),
                              (''B'', empty_slot d ''P1'' ''B'' False)])]))
         (drop 5 generator_days)"

text \<open>
  A school for the preference penalty: one day, two morning lesson periods, one class, no
  subject, at most one lesson a day, and one teacher, with or without a preferences
  record. The teacher has one lesson in \<open>pref_tt1\<close> and two in \<open>pref_tt2\<close>.
\<close>

definition two_periods :: "period list" where
  "two_periods =
     [\<lparr>p_id = ''P1'', p_name = ''Period 1'', start_time = ''08:00'', end_time = ''09:00'',
       p_type = ''lesson''\<rparr>,
      \<lparr>p_id = ''P2'', p_name = ''Period 2'', start_time = ''09:00'', end_time = ''10:00'',
       p_type = ''lesson''\<rparr>]"

definition pref_st :: "teacher_preferences option \<Rightarrow> app_state" where
  "pref_st prefs =
     \<lparr>periods = two_periods,
      subjects_of = [],
      classes = [\<lparr>c_id = ''A'', level = ''S.1'', stream = ''East''\<rparr>],
      teachers = [teacher_T1\<lparr>preferences := prefs\<rparr>],
      constraints_of = \<lparr>max_daily_lessons = 1, max_weekly_lessons = 30, prefer_morning = True,
                        balance_workload = True\<rparr>,
      days = Some [''Monday'']\<rparr>"

definition pref_tt1 :: timetable where
  "pref_tt1 =
     [(''Monday'', [(''P1'', [(''A'', lesson_slot ''Monday'' ''P1'' ''A'' ''Math'' ''T1'')]),
                    (''P2'', [(''A'', empty_slot ''Monday'' ''P2'' ''A'' False)])])]"

definition pref_tt2 :: timetable where
  "pref_tt2 =
     [(''Monday'', [(''P1'', [(''A'', lesson_slot ''Monday'' ''P1'' ''A'' ''Math'' ''T1'')]),
                    (''P2'', [(''A'', lesson_slot ''Monday'' ''P2'' ''A'' ''Math'' ''T1'')])])]"


text \<open>
  A school of seven teachers for the imbalance penalty: on three days of the week class A
  has a lesson with teacher T1, and the other teachers have none. There is no subject.
\<close>

definition uneven_st :: app_state where
  "uneven_st =
     \<lparr>periods = one_period,
      subjects_of = [],
      classes = [\<lparr>c_id = ''A'', level = ''S.1'', stream = ''East''\<rparr>],
      teachers = map (\<lambda>k. teacher_T1\<lparr>t_id := k\<rparr>)
                   [''T1'', ''T2'', ''T3'', ''T4'', ''T5'', ''T6'', ''T7''],
      constraints_of = \<lparr>max_daily_lessons = 6, max_weekly_lessons = 30, prefer_morning = True,
                        balance_workload = True\<rparr>,
      days = Some [''Monday'', ''Tuesday'', ''Wednesday'']\<rparr>"

definition uneven_tt :: timetable where
  "uneven_tt =
     map (\<lambda>d. (d, [(''P1'', [(''A'', lesson_slot d ''P1'' ''A'' ''Math'' ''T1'')])]))
         [''Monday'', ''Tuesday'', ''Wednesday'']"
text \<open>
  What \<^verbatim>\<open>assignLessons\<close> makes of the school \<open>cx1_st\<close>, whose two classes share the
  only teacher: class A has its five lessons from Monday to Friday, class B has two at the
  weekend, and seven lesson slots stay empty.
\<close>

definition cx1_partial :: timetable where
  "cx1_partial =
     map (\<lambda>d. (d, [(''P1'', [(''A'', lesson_slot d ''P1'' ''A'' ''Math'' ''T1''),
                              (''B'', empty_slot d ''P1'' ''B'' False)])]))
         (take 5 generator_days) @
     map (\<lambda>d. (d, [(''P1'', [(''A'', empty_slot d ''P1'' ''A'' False),
                              (''B'', lesson_slot d ''P1'' ''B'' ''Math'' ''T1'')])]))
         (drop 5 generator_days)"

section \<open>Properties of the rounding\<close>

text \<open>A natural number below \<open>2^53\<close> is a double: rounding leaves it as it is.\<close>

lemma bit_length_le: "n < 2 ^ w \<Longrightarrow> bit_length n \<le> w"
proof (induction w arbitrary: n)
  case 0
  then show ?case by (simp add: bit_length.simps)
next
  case (Suc w)
  show ?case
  proof (cases "n = 0")
    case True
    then show ?thesis by (simp add: bit_length.simps)
  next
    case False
    from Suc.prems have "n div 2 < 2 ^ w" by simp
    then have "bit_length (n div 2) \<le> w" by (rule Suc.IH)
    with False show ?thesis by (subst bit_length.simps) simp
  qed
qed

lemma bit_length_pos: "0 < n \<Longrightarrow> 0 < bit_length n"
  by (subst bit_length.simps) simp

lemma round_half_even_of_int: "round_half_even (of_int m) = m"
  by (simp add: round_half_even_def)

lemma round_double_of_nat:
  assumes "n < 2 ^ 53"
  shows "round_double (real n) = real n"
proof (cases "n = 0")
  case True
  then show ?thesis by (simp add: round_double_def)
next
  case False
  define b where "b = bit_length n"
  have b: "0 < b" "b \<le> 53"
    using False assms by (simp_all add: b_def bit_length_pos bit_length_le)
  have e: "binary_exponent \<bar>real n\<bar> = int b - 1"
    using False by (simp add: binary_exponent_def b_def)
  have u: "pow2 (max (int b - 1) (- 1022) - 52) = 1 / 2 ^ (53 - b)"
  proof (cases "b = 53")
    case True
    then show ?thesis by (simp add: pow2_def)
  next
    case False
    with b have "nat (53 - int b) = 53 - b" "\<not> 0 \<le> int b - 53" by auto
    with b show ?thesis by (simp add: pow2_def max_def)
  qed
  have q: "real n / (1 / 2 ^ (53 - b)) = of_int (int n * 2 ^ (53 - b))"
    by simp
  show ?thesis
    using False unfolding round_double_def e u Let_def q round_half_even_of_int
    by simp
qed

lemma round_double_0 [simp]: "round_double 0 = 0"
  by (simp add: round_double_def)

section \<open>Properties of the manual move\<close>

lemmas mv_defs = mv_tt_def mv_tt_moved_def stray_slot_def stray_tt_def stray_tt_cleared_def
  db_tt_def db_tt_moved_def empty_slot_def lesson_slot_def get_slot_def modify_slot_def
  moveLesson_def isTeacherAvailableById_def rejected_def truthy_def clear_ids_def copy_ids_def

lemma map_of_map_entry_apply:
  "map_of (AList.map_entry k f xs) k' =
     (if k' = k then map_option f (map_of xs k) else map_of xs k')"
  by (simp add: map_of_map_entry split: option.splits)

lemma get_slot_modify_slot:
  "get_slot (modify_slot tt a f) b =
     (if b = a then map_sum id (map_option f) (get_slot tt b) else get_slot tt b)"
  by (cases a; cases b)
     (auto simp: get_slot_def modify_slot_def map_of_map_entry_apply split: option.splits)

lemma map_of_eq_Some_fst: "(\<exists>s. map_of pp c = Some s) \<longleftrightarrow> c \<in> fst ` set pp"
  by (metis domIff dom_map_of_conv_image_fst not_Some_eq)

lemma isTeacherAvailableById_iff:
  assumes "map_of tt d = Some dd" "map_of dd p = Some pp"
  shows "isTeacherAvailableById t d p tt ex =
           Inr (\<forall>c s. map_of pp c = Some s \<and> Some c \<noteq> ex \<longrightarrow> teacher_id s \<noteq> t)"
  using assms
  apply (simp add: isTeacherAvailableById_def list_ex_iff)
  apply (auto split: option.splits)
  using map_of_eq_Some_fst apply fastforce
  done

lemma isTeacherAvailableById_get_slot:
  assumes "get_slot tt (d, p, c0) = Inr x"
  shows "isTeacherAvailableById t d p tt ex =
           Inr (\<not> (\<exists>c s. Some c \<noteq> ex \<and> get_slot tt (d, p, c) = Inr (Some s) \<and> teacher_id s = t))"
  using assms
  by (auto simp: get_slot_def isTeacherAvailableById_iff split: option.splits)

text \<open>The decision list of \<^verbatim>\<open>moveLesson\<close> on two addresses that hold slots.\<close>

lemma moveLesson_cases:
  assumes f: "get_slot tt (fd, fp, fc) = Inr (Some fs)"
      and t: "get_slot tt (td, tp, tc) = Inr (Some ts)"
  shows "moveLesson tt (fd, fp, fc) (td, tp, tc) =
     (if is_break ts then Inr (rejected ''Cannot move lesson to break period'', tt)
      else if truthy (subject_id ts) then Inr (rejected ''Target slot is already occupied'', tt)
      else if (\<exists>c s. c \<noteq> fc \<and> get_slot tt (td, tp, c) = Inr (Some s) \<and>
                      teacher_id s = teacher_id fs)
      then Inr (rejected ''Teacher not available in target slot'', tt)
      else Inr (\<lparr>success = True, message = ''Lesson moved successfully''\<rparr>,
                modify_slot (modify_slot tt (td, tp, tc) (copy_ids fs)) (fd, fp, fc) clear_ids))"
proof -
  define taken where
    "taken \<longleftrightarrow> (\<exists>c s. c \<noteq> fc \<and> get_slot tt (td, tp, c) = Inr (Some s) \<and>
                       teacher_id s = teacher_id fs)"
  have av: "isTeacherAvailableById (teacher_id fs) td tp tt (Some fc) = Inr (\<not> taken)"
    unfolding isTeacherAvailableById_get_slot [OF t] taken_def by auto
  have "moveLesson tt (fd, fp, fc) (td, tp, tc) =
     (if is_break ts then Inr (rejected ''Cannot move lesson to break period'', tt)
      else if truthy (subject_id ts) then Inr (rejected ''Target slot is already occupied'', tt)
      else if taken
      then Inr (rejected ''Teacher not available in target slot'', tt)
      else Inr (\<lparr>success = True, message = ''Lesson moved successfully''\<rparr>,
                modify_slot (modify_slot tt (td, tp, tc) (copy_ids fs)) (fd, fp, fc) clear_ids))"
    using f t by (simp add: moveLesson_def av)
  then show ?thesis unfolding taken_def .
qed

lemma moveLesson_accepted:
  assumes f: "get_slot tt (fd, fp, fc) = Inr (Some fs)"
      and t: "get_slot tt (td, tp, tc) = Inr (Some ts)"
      and nb: "\<not> is_break ts"
      and ns: "\<not> truthy (subject_id ts)"
      and fr: "\<And>c s. c \<noteq> fc \<Longrightarrow> get_slot tt (td, tp, c) = Inr (Some s) \<Longrightarrow>
                 teacher_id s \<noteq> teacher_id fs"
  shows "moveLesson tt (fd, fp, fc) (td, tp, tc) =
           Inr (\<lparr>success = True, message = ''Lesson moved successfully''\<rparr>,
                modify_slot (modify_slot tt (td, tp, tc) (copy_ids fs)) (fd, fp, fc) clear_ids)"
proof -
  have "\<not> (\<exists>c s. c \<noteq> fc \<and> get_slot tt (td, tp, c) = Inr (Some s) \<and>
              teacher_id s = teacher_id fs)"
    using fr by blast
  then show ?thesis
    unfolding moveLesson_cases [OF f t] using nb ns by (simp only: if_False)
qed

lemma clear_copy: "clear_ids (copy_ids a b) = clear_ids b"
  by (simp add: clear_ids_def copy_ids_def)

lemma copy_clear_self: "copy_ids a (clear_ids a) = a"
  by (simp add: clear_ids_def copy_ids_def)

lemma copy_copy: "copy_ids (copy_ids a b) c = copy_ids a c"
  by (simp add: copy_ids_def)

lemma clear_ids_empty:
  "subject_id b = None \<Longrightarrow> teacher_id b = None \<Longrightarrow> room_id b = None \<Longrightarrow> clear_ids b = b"
  by (simp add: clear_ids_def)

lemma ids_clear_copy [simp]:
  "is_break (clear_ids s) = is_break s"
  "subject_id (clear_ids s) = None"
  "teacher_id (clear_ids s) = None"
  "teacher_id (copy_ids a b) = teacher_id a"
  by (simp_all add: clear_ids_def copy_ids_def)


text \<open>
  The two generators move alike: they accept the same moves and leave the same timetable;
  only the message of a rejection for a break or occupied target differs.
\<close>

lemma simple_isTeacherAvailableById_eq:
  "simple_isTeacherAvailableById t d p tt ex = isTeacherAvailableById t d p tt ex"
  by (auto simp: simple_isTeacherAvailableById_def isTeacherAvailableById_def list_ex_iff
      split: option.splits)

lemma simple_moveLesson_agrees:
  "map_sum id (\<lambda>(r, tt'). (success r, tt')) (simple_moveLesson tt from to) =
   map_sum id (\<lambda>(r, tt'). (success r, tt')) (moveLesson tt from to)"
  by (auto simp: simple_moveLesson_def moveLesson_def simple_isTeacherAvailableById_eq rejected_def
      Let_def split: sum.splits option.splits)

subsection \<open>C5: when a move is rejected\<close>

text \<open>
  C5 (as amended). On two addresses that hold slots, \<^verbatim>\<open>moveLesson\<close> rejects exactly when
  the target is a break slot, or the \<^verbatim>\<open>subject_id\<close> of the target is a non-empty
  string, or the teacher of the source slot occurs in a slot of the target day and period
  that belongs to a class other than the source class. A rejection is a returned value
  with \<^verbatim>\<open>success = false\<close> and one of three reason strings, never an exception, and the
  timetable is the one passed in.
\<close>

theorem moveLesson_rejection:
  assumes f: "get_slot tt (fd, fp, fc) = Inr (Some fs)"
      and t: "get_slot tt (td, tp, tc) = Inr (Some ts)"
  shows "\<exists>r tt'. moveLesson tt (fd, fp, fc) (td, tp, tc) = Inr (r, tt') \<and>
           (\<not> success r \<longleftrightarrow>
              is_break ts \<or> (\<exists>sid. subject_id ts = Some sid \<and> sid \<noteq> []) \<or>
              (\<exists>c s. c \<noteq> fc \<and> get_slot tt (td, tp, c) = Inr (Some s) \<and>
                     teacher_id s = teacher_id fs)) \<and>
           (\<not> success r \<longrightarrow>
              tt' = tt \<and>
              message r \<in> {''Cannot move lesson to break period'',
                            ''Target slot is already occupied'',
                            ''Teacher not available in target slot''})"
proof -
  have tr: "truthy (subject_id ts) \<longleftrightarrow> (\<exists>sid. subject_id ts = Some sid \<and> sid \<noteq> [])"
    by (cases "subject_id ts") (auto simp: truthy_def)
  show ?thesis
    unfolding moveLesson_cases [OF f t] tr
    by (simp add: rejected_def)
qed

theorem moveLesson_rejection_witness:
  "get_slot mv_tt (''Monday'', ''P1'', ''A'') =
     Inr (Some (lesson_slot ''Monday'' ''P1'' ''A'' ''Math'' ''T1'')) \<and>
   get_slot mv_tt (''Monday'', ''P2'', ''B'') =
     Inr (Some (lesson_slot ''Monday'' ''P2'' ''B'' ''Sci'' ''T3'')) \<and>
   subject_id (lesson_slot ''Monday'' ''P2'' ''B'' ''Sci'' ''T3'') = Some ''Sci'' \<and>
   (\<exists>r tt'. moveLesson mv_tt (''Monday'', ''P1'', ''A'') (''Monday'', ''P2'', ''B'') = Inr (r, tt') \<and>
             \<not> success r \<and> tt' = mv_tt)"
proof -
  have f: "get_slot mv_tt (''Monday'', ''P1'', ''A'') =
             Inr (Some (lesson_slot ''Monday'' ''P1'' ''A'' ''Math'' ''T1''))"
    by (simp add: mv_defs)
  have t: "get_slot mv_tt (''Monday'', ''P2'', ''B'') =
             Inr (Some (lesson_slot ''Monday'' ''P2'' ''B'' ''Sci'' ''T3''))"
    by (simp add: mv_defs)
  have occ: "subject_id (lesson_slot ''Monday'' ''P2'' ''B'' ''Sci'' ''T3'') = Some ''Sci''"
    by (simp add: mv_defs)
  from moveLesson_rejection [OF f t] occ f t show ?thesis
    by fastforce
qed

text \<open>
  The claim as stated fails on a target whose \<^verbatim>\<open>subject_id\<close> is the empty string: the
  target holds a \<^verbatim>\<open>subject_id\<close> that is not null, and the move is accepted and
  overwrites it, because the code tests the truthiness of \<^verbatim>\<open>subject_id\<close>. It also
  fails on a target address that holds no slot: in \<open>db_tt\<close> the teacher of the source
  slot of class A is booked for class C at the target period, and the move to the slot of
  a class Z, which the period does not have, ends with a type error instead of a
  rejection.
\<close>

theorem moveLesson_rejection_counterexample:
  "get_slot blank_tt (''Monday'', ''P2'', ''A'') = Inr (Some blank_slot) \<and>
   \<not> is_break blank_slot \<and>
   subject_id blank_slot = Some [] \<and>
   subject_id blank_slot \<noteq> None \<and>
   moveLesson blank_tt (''Monday'', ''P1'', ''A'') (''Monday'', ''P2'', ''A'') =
     Inr (\<lparr>success = True, message = ''Lesson moved successfully''\<rparr>, blank_tt_moved) \<and>
   get_slot blank_tt_moved (''Monday'', ''P2'', ''A'') =
     Inr (Some (lesson_slot ''Monday'' ''P2'' ''A'' ''Math'' ''T1'')) \<and>
   get_slot db_tt (''Monday'', ''P1'', ''A'') =
     Inr (Some (lesson_slot ''Monday'' ''P1'' ''A'' ''Math'' ''T1'')) \<and>
   get_slot db_tt (''Monday'', ''P1'', ''C'') =
     Inr (Some (lesson_slot ''Monday'' ''P1'' ''C'' ''Sci'' ''T1'')) \<and>
   teacher_id (lesson_slot ''Monday'' ''P1'' ''C'' ''Sci'' ''T1'') =
     teacher_id (lesson_slot ''Monday'' ''P1'' ''A'' ''Math'' ''T1'') \<and>
   moveLesson db_tt (''Monday'', ''P1'', ''A'') (''Monday'', ''P1'', ''Z'') = Inl TypeError"
proof -
  have "get_slot blank_tt (''Monday'', ''P2'', ''A'') = Inr (Some blank_slot)"
    by code_simp
  moreover have "\<not> is_break blank_slot" "subject_id blank_slot = Some []"
    "subject_id blank_slot \<noteq> None"
    by (simp_all add: blank_slot_def empty_slot_def)
  moreover have "moveLesson blank_tt (''Monday'', ''P1'', ''A'') (''Monday'', ''P2'', ''A'') =
     Inr (\<lparr>success = True, message = ''Lesson moved successfully''\<rparr>, blank_tt_moved)"
    by code_simp
  moreover have "get_slot blank_tt_moved (''Monday'', ''P2'', ''A'') =
     Inr (Some (lesson_slot ''Monday'' ''P2'' ''A'' ''Math'' ''T1''))"
    by code_simp
  moreover have "get_slot db_tt (''Monday'', ''P1'', ''A'') =
     Inr (Some (lesson_slot ''Monday'' ''P1'' ''A'' ''Math'' ''T1''))"
    "get_slot db_tt (''Monday'', ''P1'', ''C'') =
     Inr (Some (lesson_slot ''Monday'' ''P1'' ''C'' ''Sci'' ''T1''))"
    by (simp_all add: mv_defs)
  moreover have "teacher_id (lesson_slot ''Monday'' ''P1'' ''C'' ''Sci'' ''T1'') =
     teacher_id (lesson_slot ''Monday'' ''P1'' ''A'' ''Math'' ''T1'')"
    by (simp add: mv_defs)
  moreover have "moveLesson db_tt (''Monday'', ''P1'', ''A'') (''Monday'', ''P1'', ''Z'') =
     Inl TypeError"
    by code_simp
  ultimately show ?thesis by blast
qed

subsection \<open>C2: what a move changes\<close>

text \<open>
  C2 (as amended). On two addresses that hold slots, \<^verbatim>\<open>moveLesson\<close> returns a result
  and a timetable. When the move is accepted the source slot has \<^verbatim>\<open>subject_id\<close>,
  \<^verbatim>\<open>teacher_id\<close> and \<^verbatim>\<open>room_id\<close> null, the target slot, when it is another slot than
  the source, holds the three identifiers the source had, and every other slot is
  unchanged; the remaining fields of both slots stay as they were. When the move is
  rejected the timetable is unchanged. When source and target are the same slot, an
  accepted move clears that slot.
\<close>

theorem moveLesson_frame:
  assumes f: "get_slot tt (fd, fp, fc) = Inr (Some fs)"
      and t: "get_slot tt (td, tp, tc) = Inr (Some ts)"
  shows "\<exists>r tt'. moveLesson tt (fd, fp, fc) (td, tp, tc) = Inr (r, tt') \<and>
           (if success r
            then get_slot tt' (fd, fp, fc) = Inr (Some (clear_ids fs)) \<and>
                 ((td, tp, tc) \<noteq> (fd, fp, fc) \<longrightarrow>
                    get_slot tt' (td, tp, tc) = Inr (Some (copy_ids fs ts))) \<and>
                 (\<forall>a. a \<noteq> (fd, fp, fc) \<and> a \<noteq> (td, tp, tc) \<longrightarrow> get_slot tt' a = get_slot tt a)
            else tt' = tt)"
proof -
  have same: "(td, tp, tc) = (fd, fp, fc) \<Longrightarrow> clear_ids (copy_ids fs fs) = clear_ids fs"
    by (simp add: clear_ids_def copy_ids_def)
  have ts: "(td, tp, tc) = (fd, fp, fc) \<Longrightarrow> ts = fs"
    using f t by simp
  show ?thesis
    unfolding moveLesson_cases [OF f t]
    using f t same ts
    by (auto simp: rejected_def get_slot_modify_slot)
qed

theorem moveLesson_frame_witness:
  "get_slot mv_tt (''Monday'', ''P1'', ''A'') =
     Inr (Some (lesson_slot ''Monday'' ''P1'' ''A'' ''Math'' ''T1'')) \<and>
   get_slot mv_tt (''Monday'', ''P2'', ''A'') = Inr (Some (empty_slot ''Monday'' ''P2'' ''A'' False)) \<and>
   (\<exists>r tt'. moveLesson mv_tt (''Monday'', ''P1'', ''A'') (''Monday'', ''P2'', ''A'') = Inr (r, tt') \<and>
      success r \<and>
      get_slot tt' (''Monday'', ''P1'', ''A'') = Inr (Some (empty_slot ''Monday'' ''P1'' ''A'' False)) \<and>
      get_slot tt' (''Monday'', ''P2'', ''A'') =
        Inr (Some (lesson_slot ''Monday'' ''P2'' ''A'' ''Math'' ''T1'')) \<and>
      get_slot tt' (''Monday'', ''P2'', ''B'') = get_slot mv_tt (''Monday'', ''P2'', ''B''))"
proof -
  have f: "get_slot mv_tt (''Monday'', ''P1'', ''A'') =
             Inr (Some (lesson_slot ''Monday'' ''P1'' ''A'' ''Math'' ''T1''))"
    by (simp add: mv_defs)
  have t: "get_slot mv_tt (''Monday'', ''P2'', ''A'') =
             Inr (Some (empty_slot ''Monday'' ''P2'' ''A'' False))"
    by (simp add: mv_defs)
  have run: "moveLesson mv_tt (''Monday'', ''P1'', ''A'') (''Monday'', ''P2'', ''A'') =
               Inr (\<lparr>success = True, message = ''Lesson moved successfully''\<rparr>, mv_tt_moved)"
    by (simp add: mv_defs)
  have c1: "clear_ids (lesson_slot ''Monday'' ''P1'' ''A'' ''Math'' ''T1'') =
              empty_slot ''Monday'' ''P1'' ''A'' False"
    by (simp add: mv_defs)
  have c2: "copy_ids (lesson_slot ''Monday'' ''P1'' ''A'' ''Math'' ''T1'')
              (empty_slot ''Monday'' ''P2'' ''A'' False) =
            lesson_slot ''Monday'' ''P2'' ''A'' ''Math'' ''T1''"
    by (simp add: mv_defs)
  from moveLesson_frame [OF f t] obtain r tt' where
    r: "moveLesson mv_tt (''Monday'', ''P1'', ''A'') (''Monday'', ''P2'', ''A'') = Inr (r, tt')"
    and eff: "if success r
      then get_slot tt' (''Monday'', ''P1'', ''A'') =
             Inr (Some (clear_ids (lesson_slot ''Monday'' ''P1'' ''A'' ''Math'' ''T1''))) \<and>
           ((''Monday'', ''P2'', ''A'') \<noteq> (''Monday'', ''P1'', ''A'') \<longrightarrow>
              get_slot tt' (''Monday'', ''P2'', ''A'') =
                Inr (Some (copy_ids (lesson_slot ''Monday'' ''P1'' ''A'' ''Math'' ''T1'')
                             (empty_slot ''Monday'' ''P2'' ''A'' False)))) \<and>
           (\<forall>a. a \<noteq> (''Monday'', ''P1'', ''A'') \<and> a \<noteq> (''Monday'', ''P2'', ''A'') \<longrightarrow>
                get_slot tt' a = get_slot mv_tt a)
      else tt' = mv_tt"
    by blast
  have ok: "success r" using r run by auto
  have "get_slot tt' (''Monday'', ''P2'', ''B'') = get_slot mv_tt (''Monday'', ''P2'', ''B'')"
    using eff ok by simp
  moreover have "get_slot tt' (''Monday'', ''P1'', ''A'') =
                   Inr (Some (empty_slot ''Monday'' ''P1'' ''A'' False))"
    using eff ok c1 by simp
  moreover have "get_slot tt' (''Monday'', ''P2'', ''A'') =
                   Inr (Some (lesson_slot ''Monday'' ''P2'' ''A'' ''Math'' ''T1''))"
    using eff ok c2 by simp
  ultimately show ?thesis using f t r ok by blast
qed

text \<open>
  The claim as stated fails when both addresses are the same slot and that slot names a
  teacher without a subject: the move is accepted, the slot is the target and should hold
  the teacher the source had, and it ends with no teacher; the timetable has changed.
\<close>

theorem moveLesson_same_slot_counterexample:
  "get_slot stray_tt (''Monday'', ''P1'', ''A'') = Inr (Some stray_slot) \<and>
   teacher_id stray_slot = Some ''T1'' \<and>
   moveLesson stray_tt (''Monday'', ''P1'', ''A'') (''Monday'', ''P1'', ''A'') =
     Inr (\<lparr>success = True, message = ''Lesson moved successfully''\<rparr>, stray_tt_cleared) \<and>
   get_slot stray_tt_cleared (''Monday'', ''P1'', ''A'') =
     Inr (Some (empty_slot ''Monday'' ''P1'' ''A'' False)) \<and>
   teacher_id (empty_slot ''Monday'' ''P1'' ''A'' False) = None \<and>
   stray_tt_cleared \<noteq> stray_tt"
  by (simp add: mv_defs)


subsection \<open>C10: moving an empty source slot\<close>




subsection \<open>C9: moving a lesson and moving it back\<close>

text \<open>
  C9 (as amended). Let \<^verbatim>\<open>moveLesson\<close> accept the move from A to B, where A is not a
  break slot, B held no subject, teacher or room before the move, no class other than
  the classes of A and B holds the teacher of A at the day and period of A, and the
  teacher of A is not null unless A and B belong to the same class. Then the move from B
  back to A, applied to the resulting timetable, is accepted as well, and afterwards
  every slot of the timetable, the slots at A and B among them, is what it was before
  the first move.
\<close>

theorem moveLesson_round_trip:
  assumes mv: "moveLesson g (fd, fp, fc) (td, tp, tc) = Inr (r1, g1)"
      and ok: "success r1"
      and f: "get_slot g (fd, fp, fc) = Inr (Some sa)"
      and t: "get_slot g (td, tp, tc) = Inr (Some sb)"
      and nb: "\<not> is_break sa"
      and eb: "subject_id sb = None" "teacher_id sb = None" "room_id sb = None"
      and free: "\<forall>c s. c \<noteq> fc \<and> c \<noteq> tc \<and> get_slot g (fd, fp, c) = Inr (Some s)
                   \<longrightarrow> teacher_id s \<noteq> teacher_id sa"
      and tn: "teacher_id sa \<noteq> None \<or> fc = tc"
  shows "\<exists>r2 g2. moveLesson g1 (td, tp, tc) (fd, fp, fc) = Inr (r2, g2) \<and> success r2 \<and>
           get_slot g2 (fd, fp, fc) = Inr (Some sa) \<and>
           get_slot g2 (td, tp, tc) = Inr (Some sb) \<and>
           (\<forall>a. get_slot g2 a = get_slot g a)"
proof -
  have g1: "g1 = modify_slot (modify_slot g (td, tp, tc) (copy_ids sa)) (fd, fp, fc) clear_ids"
    using mv ok unfolding moveLesson_cases [OF f t]
    by (auto simp: rejected_def split: if_splits)
  have at: "\<And>a. get_slot g1 a =
      (if a = (fd, fp, fc) then Inr (Some (clear_ids sa))
       else if a = (td, tp, tc) then Inr (Some (copy_ids sa sb))
       else get_slot g a)"
    using f t eb by (auto simp: g1 get_slot_modify_slot clear_copy clear_ids_empty)
  have f1: "get_slot g1 (fd, fp, fc) = Inr (Some (clear_ids sa))" by (simp add: at)
  show ?thesis
  proof (cases "(td, tp, tc) = (fd, fp, fc)")
    case True
    then have sab: "sb = sa" using f t by simp
    have csa: "clear_ids sa = sa" using eb sab by (simp add: clear_ids_empty)
    have f1': "get_slot g1 (fd, fp, fc) = Inr (Some sa)" using f1 csa by simp
    have nt: "\<And>c s. c \<noteq> fc \<Longrightarrow> get_slot g1 (fd, fp, c) = Inr (Some s) \<Longrightarrow>
                teacher_id s \<noteq> teacher_id sa"
      using free True by (auto simp: at)
    have "moveLesson g1 (fd, fp, fc) (fd, fp, fc) =
            Inr (\<lparr>success = True, message = ''Lesson moved successfully''\<rparr>,
                 modify_slot (modify_slot g1 (fd, fp, fc) (copy_ids sa)) (fd, fp, fc) clear_ids)"
      using nb eb sab by (intro moveLesson_accepted [OF f1' f1' _ _ nt]) (simp_all add: truthy_def)
    moreover have "\<And>a. get_slot (modify_slot (modify_slot g1 (fd, fp, fc) (copy_ids sa))
                              (fd, fp, fc) clear_ids) a = get_slot g a"
      using f True by (simp add: get_slot_modify_slot at clear_copy csa)
    ultimately show ?thesis using True f t by auto
  next
    case False
    have t1: "get_slot g1 (td, tp, tc) = Inr (Some (copy_ids sa sb))"
      using False by (auto simp: at)
    have nt: "\<And>c s. c \<noteq> tc \<Longrightarrow> get_slot g1 (fd, fp, c) = Inr (Some s) \<Longrightarrow>
                 teacher_id s \<noteq> teacher_id (copy_ids sa sb)"
      using free tn False by (auto simp: at split: if_splits)
    have "moveLesson g1 (td, tp, tc) (fd, fp, fc) =
            Inr (\<lparr>success = True, message = ''Lesson moved successfully''\<rparr>,
                 modify_slot (modify_slot g1 (fd, fp, fc) (copy_ids (copy_ids sa sb)))
                   (td, tp, tc) clear_ids)"
      using nb by (intro moveLesson_accepted [OF t1 f1 _ _ nt]) (simp_all add: truthy_def)
    moreover have "get_slot (modify_slot (modify_slot g1 (fd, fp, fc) (copy_ids (copy_ids sa sb)))
                      (td, tp, tc) clear_ids) a = get_slot g a" for a
    proof -
      consider "a = (td, tp, tc)" | "a = (fd, fp, fc)" | "a \<noteq> (td, tp, tc)" "a \<noteq> (fd, fp, fc)"
        by blast
      then show ?thesis
      proof cases
        case 1
        then show ?thesis
          using False t eb by (auto simp: get_slot_modify_slot at clear_copy clear_ids_empty)
      next
        case 2
        then show ?thesis
          using False f by (auto simp: get_slot_modify_slot at copy_copy copy_clear_self)
      next
        case 3
        then show ?thesis
          by (auto simp: get_slot_modify_slot at)
      qed
    qed
    ultimately show ?thesis using f t by auto
  qed
qed

theorem moveLesson_round_trip_witness:
  "moveLesson mv_tt (''Monday'', ''P1'', ''A'') (''Monday'', ''P2'', ''A'') =
     Inr (\<lparr>success = True, message = ''Lesson moved successfully''\<rparr>, mv_tt_moved) \<and>
   get_slot mv_tt (''Monday'', ''P1'', ''A'') =
     Inr (Some (lesson_slot ''Monday'' ''P1'' ''A'' ''Math'' ''T1'')) \<and>
   get_slot mv_tt (''Monday'', ''P2'', ''A'') = Inr (Some (empty_slot ''Monday'' ''P2'' ''A'' False)) \<and>
   (\<exists>r2 g2. moveLesson mv_tt_moved (''Monday'', ''P2'', ''A'') (''Monday'', ''P1'', ''A'') =
               Inr (r2, g2) \<and> success r2 \<and>
             get_slot g2 (''Monday'', ''P1'', ''A'') =
               Inr (Some (lesson_slot ''Monday'' ''P1'' ''A'' ''Math'' ''T1'')) \<and>
             get_slot g2 (''Monday'', ''P2'', ''A'') =
               Inr (Some (empty_slot ''Monday'' ''P2'' ''A'' False)))"
proof -
  have mv: "moveLesson mv_tt (''Monday'', ''P1'', ''A'') (''Monday'', ''P2'', ''A'') =
              Inr (\<lparr>success = True, message = ''Lesson moved successfully''\<rparr>, mv_tt_moved)"
    by (simp add: mv_defs)
  have ok: "success \<lparr>success = True, message = ''Lesson moved successfully''\<rparr>"
    by simp
  have f: "get_slot mv_tt (''Monday'', ''P1'', ''A'') =
             Inr (Some (lesson_slot ''Monday'' ''P1'' ''A'' ''Math'' ''T1''))"
    by (simp add: mv_defs)
  have t: "get_slot mv_tt (''Monday'', ''P2'', ''A'') =
             Inr (Some (empty_slot ''Monday'' ''P2'' ''A'' False))"
    by (simp add: mv_defs)
  have nb: "\<not> is_break (lesson_slot ''Monday'' ''P1'' ''A'' ''Math'' ''T1'')"
    by (simp add: mv_defs)
  have eb: "subject_id (empty_slot ''Monday'' ''P2'' ''A'' False) = None"
    "teacher_id (empty_slot ''Monday'' ''P2'' ''A'' False) = None"
    "room_id (empty_slot ''Monday'' ''P2'' ''A'' False) = None"
    by (simp_all add: mv_defs)
  have free: "\<forall>c s. c \<noteq> ''A'' \<and> c \<noteq> ''A'' \<and> get_slot mv_tt (''Monday'', ''P1'', c) = Inr (Some s)
                \<longrightarrow> teacher_id s \<noteq> teacher_id (lesson_slot ''Monday'' ''P1'' ''A'' ''Math'' ''T1'')"
    by (auto simp: mv_defs split: if_splits)
  have tn: "teacher_id (lesson_slot ''Monday'' ''P1'' ''A'' ''Math'' ''T1'') \<noteq> None \<or> ''A'' = ''A''"
    by simp
  from moveLesson_round_trip [OF mv ok f t nb eb free tn] mv f t show ?thesis
    by blast
qed

text \<open>
  The claim as stated fails in two ways. In \<open>db_tt\<close> teacher T1 is booked twice in P1;
  moving the lesson of class A to P2 is accepted and moving it back is rejected, because
  class C still holds T1 in P1. In \<open>mv_tt\<close> the break slot of class A moves to P2 (an
  empty slot of the same class) and cannot move back, because the first target of the way
  back is a break slot.
\<close>

theorem moveLesson_round_trip_counterexample:
  "moveLesson db_tt (''Monday'', ''P1'', ''A'') (''Monday'', ''P2'', ''A'') =
     Inr (\<lparr>success = True, message = ''Lesson moved successfully''\<rparr>, db_tt_moved) \<and>
   moveLesson db_tt_moved (''Monday'', ''P2'', ''A'') (''Monday'', ''P1'', ''A'') =
     Inr (\<lparr>success = False, message = ''Teacher not available in target slot''\<rparr>, db_tt_moved) \<and>
   moveLesson mv_tt (''Monday'', ''BR'', ''A'') (''Monday'', ''P2'', ''A'') =
     Inr (\<lparr>success = True, message = ''Lesson moved successfully''\<rparr>, mv_tt) \<and>
   moveLesson mv_tt (''Monday'', ''P2'', ''A'') (''Monday'', ''BR'', ''A'') =
     Inr (\<lparr>success = False, message = ''Cannot move lesson to break period''\<rparr>, mv_tt)"
  by (simp add: mv_defs)

section \<open>Properties of the conflict resolver\<close>

lemma relocate_first_False:
  "relocate_first st k tt as = Inr (False, tt') \<Longrightarrow> tt' = tt"
  by (induction as) (auto split: sum.splits option.splits prod.splits)

lemma resolveSpecificConflict_False:
  "resolveSpecificConflict st k tt = Inr (False, tt') \<Longrightarrow> tt' = tt"
  by (simp add: resolveSpecificConflict_def resolveTeacherDoubleBooking_def relocate_first_False)

text \<open>An iteration that counts no repair has left the timetable alone at every conflict.\<close>

lemma resolve_each_count:
  "resolve_each st False ks (n, tt) = Inr (n', tt') \<Longrightarrow>
     n \<le> n' \<and> (n' = n \<longrightarrow> tt' = tt \<and> (\<forall>k \<in> set ks. resolveSpecificConflict st k tt = Inr (False, tt)))"
proof (induction ks arbitrary: n tt)
  case Nil
  then show ?case by simp
next
  case (Cons k ks)
  show ?case
  proof (cases "resolveSpecificConflict st k tt")
    case (Inl e)
    with Cons.prems show ?thesis by simp
  next
    case (Inr r)
    obtain b tt1 where r: "r = (b, tt1)" by (cases r)
    show ?thesis
    proof (cases b)
      case True
      with Cons.prems Inr r have "resolve_each st False ks (Suc n, tt1) = Inr (n', tt')" by simp
      from Cons.IH [OF this] show ?thesis by auto
    next
      case False
      with Inr r have "resolveSpecificConflict st k tt = Inr (False, tt1)" by simp
      then have tt1: "tt1 = tt" by (rule resolveSpecificConflict_False)
      from Cons.prems Inr r False have "resolve_each st False ks (n, tt1) = Inr (n', tt')" by simp
      from Cons.IH [OF this] show ?thesis using Inr r False tt1 by auto
    qed
  qed
qed

text \<open>
  Every iteration but the last repairs at least one conflict, so a run that reports fewer
  repairs than it had iterations left has stopped at a scan without conflicts or at an
  iteration without repair.
\<close>

lemma resolve_loop_settled:
  "resolve_loop st False fuel (n, tt) = Inr (n', tt') \<Longrightarrow> n' < n + fuel \<Longrightarrow>
     (\<exists>cs. findAllConflicts st tt' = Inr cs \<and>
           (\<forall>k \<in> set cs. resolveSpecificConflict st k tt' = Inr (False, tt')))"
proof (induction fuel arbitrary: n tt)
  case 0
  then show ?case by simp
next
  case (Suc fuel)
  show ?case
  proof (cases "findAllConflicts st tt")
    case (Inl e)
    with Suc.prems show ?thesis by simp
  next
    case (Inr cs)
    show ?thesis
    proof (cases "cs = []")
      case True
      with Suc.prems Inr show ?thesis by simp
    next
      case False
      show ?thesis
      proof (cases "resolve_each st False cs (0, tt)")
        case (Inl e)
        with Suc.prems Inr False show ?thesis by simp
      next
        case r: (Inr res)
        obtain m tt1 where res: "res = (m, tt1)" by (cases res)
        note cnt = resolve_each_count [OF r [unfolded res]]
        show ?thesis
        proof (cases "m = 0")
          case True
          with cnt have "tt1 = tt" "\<forall>k \<in> set cs. resolveSpecificConflict st k tt = Inr (False, tt)"
            by auto
          moreover from Suc.prems Inr False r res True have "tt' = tt1" by simp
          ultimately show ?thesis using Inr by simp
        next
          case m: False
          with Suc.prems Inr False r res
          have "resolve_loop st False fuel (n + m, tt1) = Inr (n', tt')" by simp
          moreover have "n' < (n + m) + fuel" using Suc.prems(2) m by simp
          ultimately show ?thesis by (rule Suc.IH)
        qed
      qed
    qed
  qed
qed

lemma booked_Nil [simp]: "booked tt d pid [] k = []"
  by (simp add: booked_def)

lemma booked_Cons:
  "booked tt d pid (cls # cs) k =
     (case get_slot tt (d, pid, c_id cls) of
        Inr (Some s) \<Rightarrow>
          if teacher_id s = Some k \<and> k \<noteq> [] \<and> \<not> is_break s then [(c_id cls, s)] else []
      | _ \<Rightarrow> []) @ booked tt d pid cs k"
  by (simp add: booked_def)

lemma map_of_push_assignment:
  "push_assignment k a ta = Inr ta' \<Longrightarrow>
   map_of ta' k' =
     (if k' = k then Some ((case map_of ta k of None \<Rightarrow> [] | Some l \<Rightarrow> l) @ [a])
      else map_of ta k')"
  by (auto simp: push_assignment_def update_conv' split: option.splits if_splits)

text \<open>The object \<^verbatim>\<open>teacherAssignments\<close> after the scan of the classes.\<close>

lemma scan_groups:
  "efold (collect_assignment tt d pid) cs ta0 = Inr ta \<Longrightarrow>
     map_of ta k =
       (if booked tt d pid cs k = [] then map_of ta0 k
        else Some ((case map_of ta0 k of None \<Rightarrow> [] | Some l \<Rightarrow> l) @ booked tt d pid cs k))"
proof (induction cs arbitrary: ta0)
  case Nil
  then show ?case by simp
next
  case (Cons cls cs)
  from Cons.prems obtain ta1 where
    b: "collect_assignment tt d pid cls ta0 = Inr ta1"
    and r: "efold (collect_assignment tt d pid) cs ta1 = Inr ta"
    by (auto split: sum.splits)
  note ih = Cons.IH [OF r]
  from b obtain s where s: "get_slot tt (d, pid, c_id cls) = Inr (Some s)"
    by (auto simp: collect_assignment_def split: sum.splits option.splits)
  show ?case
  proof (cases "teacher_id s = Some k \<and> k \<noteq> [] \<and> \<not> is_break s")
    case True
    with b s have "push_assignment k (c_id cls, s) ta0 = Inr ta1"
      by (auto simp: collect_assignment_def)
    from map_of_push_assignment [OF this, of k] ih True s show ?thesis
      by (auto simp: booked_Cons split: option.splits)
  next
    case False
    with b s have "map_of ta1 k = map_of ta0 k"
      by (auto simp: collect_assignment_def dest: map_of_push_assignment [where k' = k]
          split: option.splits if_splits)
    with ih False s show ?thesis
      by (auto simp: booked_Cons)
  qed
qed

lemma set_own_keys: "set (own_keys ob) = fst ` set ob"
proof -
  have "set (own_keys ob) = set (map fst (AList.clearjunk ob))"
    by (auto simp: own_keys_def Let_def)
  then show ?thesis by (simp add: dom_clearjunk)
qed

lemma period_conflicts_Nil:
  assumes "period_conflicts st tt d p = Inr []"
  shows "length (booked tt d (p_id p) (classes st) k) \<le> 1"
proof -
  from assms obtain ta where
    ta: "efold (collect_assignment tt d (p_id p)) (classes st) [] = Inr ta"
    and nil: "concat (map (\<lambda>k. case map_of ta k of
                                  None \<Rightarrow> []
                                | Some l \<Rightarrow>
                                    if length l > 1
                                    then [\<lparr>k_teacherId = k, k_day = d, k_periodId = p_id p,
                                           assignments = l\<rparr>]
                                    else [])
                           (own_keys ta)) = []"
    by (auto simp: period_conflicts_def split: sum.splits)
  show ?thesis
  proof (cases "booked tt d (p_id p) (classes st) k = []")
    case True
    then show ?thesis by simp
  next
    case False
    with scan_groups [OF ta, of k] have m: "map_of ta k = Some (booked tt d (p_id p) (classes st) k)"
      by simp
    then have "k \<in> set (own_keys ta)"
      by (metis map_of_eq_Some_fst set_own_keys)
    with nil m show ?thesis by (auto split: if_splits)
  qed
qed

lemma booked_mem:
  assumes "cls \<in> set cs" "get_slot tt (d, pid, c_id cls) = Inr (Some s)"
    "teacher_id s = Some k" "k \<noteq> []" "\<not> is_break s"
  shows "(c_id cls, s) \<in> set (booked tt d pid cs k)"
  using assms by (force simp: booked_def)

lemma two_members_length:
  assumes "x \<in> set xs" "y \<in> set xs" "x \<noteq> y"
  shows "2 \<le> length xs"
proof -
  have "card {x, y} \<le> card (set xs)" using assms by (intro card_mono) auto
  also have "\<dots> \<le> length xs" by (rule card_length)
  finally show ?thesis using assms by simp
qed

lemma period_loop_Nil:
  "efold (\<lambda>p conflicts.
              if p_type p \<noteq> ''lesson'' then Inr conflicts
              else (case period_conflicts st tt d p of
                      Inl e \<Rightarrow> Inl e
                    | Inr cs \<Rightarrow> Inr (conflicts @ cs))) ps acc = Inr r \<Longrightarrow>
   length acc \<le> length r \<and>
   (r = [] \<longrightarrow> (\<forall>p \<in> set ps. p_type p = ''lesson'' \<longrightarrow> period_conflicts st tt d p = Inr []))"
proof (induction ps arbitrary: acc)
  case Nil
  then show ?case by simp
next
  case (Cons p ps)
  show ?case
  proof (cases "p_type p \<noteq> ''lesson''")
    case True
    with Cons.prems Cons.IH [of acc] show ?thesis by simp
  next
    case False
    with Cons.prems obtain cs where
      cs: "period_conflicts st tt d p = Inr cs"
      and r: "efold (\<lambda>p conflicts.
              if p_type p \<noteq> ''lesson'' then Inr conflicts
              else (case period_conflicts st tt d p of
                      Inl e \<Rightarrow> Inl e
                    | Inr cs \<Rightarrow> Inr (conflicts @ cs))) ps (acc @ cs) = Inr r"
      by (auto split: sum.splits)
    from Cons.IH [OF r] cs False show ?thesis by auto
  qed
qed

lemma findAllConflicts_Nil:
  assumes "findAllConflicts st tt = Inr []" "d \<in> set generator_days" "p \<in> set (periods st)"
    "p_type p = ''lesson''"
  shows "period_conflicts st tt d p = Inr []"
proof -
  have "efold (\<lambda>d. efold (\<lambda>p conflicts.
              if p_type p \<noteq> ''lesson'' then Inr conflicts
              else (case period_conflicts st tt d p of
                      Inl e \<Rightarrow> Inl e
                    | Inr cs \<Rightarrow> Inr (conflicts @ cs)))
              (periods st)) ds acc = Inr r \<Longrightarrow>
        length acc \<le> length r \<and>
        (r = [] \<longrightarrow> (\<forall>d \<in> set ds. \<forall>p \<in> set (periods st). p_type p = ''lesson'' \<longrightarrow>
                        period_conflicts st tt d p = Inr []))" for ds acc r
  proof (induction ds arbitrary: acc)
    case Nil
    then show ?case by simp
  next
    case (Cons d ds)
    from Cons.prems obtain acc1 where
      a: "efold (\<lambda>p conflicts.
              if p_type p \<noteq> ''lesson'' then Inr conflicts
              else (case period_conflicts st tt d p of
                      Inl e \<Rightarrow> Inl e
                    | Inr cs \<Rightarrow> Inr (conflicts @ cs))) (periods st) acc = Inr acc1"
      and r: "efold (\<lambda>d. efold (\<lambda>p conflicts.
              if p_type p \<noteq> ''lesson'' then Inr conflicts
              else (case period_conflicts st tt d p of
                      Inl e \<Rightarrow> Inl e
                    | Inr cs \<Rightarrow> Inr (conflicts @ cs)))
              (periods st)) ds acc1 = Inr r"
      by (auto split: sum.splits)
    from period_loop_Nil [OF a] Cons.IH [OF r] show ?case by auto
  qed
  from this [of generator_days "[]" "[]"] assms show ?thesis
    by (auto simp: findAllConflicts_def)
qed

text \<open>A scan that finds no conflict certifies teacher exclusivity.\<close>

lemma findAllConflicts_exclusive:
  assumes "findAllConflicts st tt = Inr []"
  shows "teacher_exclusive st tt"
  unfolding teacher_exclusive_def
proof (intro ballI)
  fix d p c1 c2
  assume d: "d \<in> set generator_days" and p: "p \<in> set (periods st)"
    and c1: "c1 \<in> set (classes st)" and c2: "c2 \<in> set (classes st)"
  show "case (get_slot tt (d, p_id p, c_id c1), get_slot tt (d, p_id p, c_id c2)) of
          (Inr (Some s1), Inr (Some s2)) \<Rightarrow>
             p_type p = ''lesson'' \<and> truthy (teacher_id s1) \<and> \<not> is_break s1 \<and> \<not> is_break s2 \<and>
             teacher_id s1 = teacher_id s2 \<longrightarrow> c_id c1 = c_id c2
        | _ \<Rightarrow> True"
  proof (clarsimp split: sum.splits option.splits)
    fix s1 s2
    assume s1: "get_slot tt (d, p_id p, c_id c1) = Inr (Some s1)"
      and s2: "get_slot tt (d, p_id p, c_id c2) = Inr (Some s2)"
      and l: "p_type p = ''lesson''" and t: "truthy (teacher_id s2)"
      and b: "\<not> is_break s1" "\<not> is_break s2" and e: "teacher_id s1 = teacher_id s2"
    from t obtain k where k: "teacher_id s2 = Some k" "k \<noteq> []"
      by (auto simp: truthy_def split: option.splits)
    show "c_id c1 = c_id c2"
    proof (rule ccontr)
      assume ne: "c_id c1 \<noteq> c_id c2"
      have "(c_id c1, s1) \<in> set (booked tt d (p_id p) (classes st) k)"
        using c1 s1 e k b by (intro booked_mem) auto
      moreover have "(c_id c2, s2) \<in> set (booked tt d (p_id p) (classes st) k)"
        using c2 s2 k b by (intro booked_mem) auto
      ultimately have "2 \<le> length (booked tt d (p_id p) (classes st) k)"
        using ne by (intro two_members_length [of "(c_id c1, s1)" _ "(c_id c2, s2)"]) auto
      moreover have "length (booked tt d (p_id p) (classes st) k) \<le> 1"
        by (rule period_conflicts_Nil [OF findAllConflicts_Nil [OF assms d p l]])
      ultimately show False by simp
    qed
  qed
qed

text \<open>
  Conversely, when the classes have distinct identifiers, a scan that finds a conflict
  refutes teacher exclusivity: the scan and the predicate agree.
\<close>

lemma booked_elem:
  assumes "(c, s) \<in> set (booked tt d pid cs k)"
  shows "\<exists>cls \<in> set cs. c = c_id cls \<and> get_slot tt (d, pid, c_id cls) = Inr (Some s) \<and>
           teacher_id s = Some k \<and> k \<noteq> [] \<and> \<not> is_break s"
  using assms by (auto simp: booked_def split: sum.splits option.splits if_splits)

lemma distinct_pushed:
  "distinct (map c_id cs) \<Longrightarrow> distinct (map fst (booked tt d pid cs k))"
proof (induction cs)
  case Nil
  then show ?case by simp
next
  case (Cons cls cs)
  have "fst ` set (booked tt d pid cs k) \<subseteq> c_id ` set cs"
    using booked_elem by force
  with Cons show ?case
    by (auto simp: booked_Cons split: sum.splits option.splits)
qed

lemma period_conflicts_nonempty:
  assumes "period_conflicts st tt d p = Inr pc" "pc \<noteq> []"
  shows "\<exists>k. 2 \<le> length (booked tt d (p_id p) (classes st) k)"
proof -
  from assms obtain ta where
    ta: "efold (collect_assignment tt d (p_id p)) (classes st) [] = Inr ta"
    and pc: "pc = concat (map (\<lambda>k. case map_of ta k of
                                  None \<Rightarrow> []
                                | Some l \<Rightarrow>
                                    if length l > 1
                                    then [\<lparr>k_teacherId = k, k_day = d, k_periodId = p_id p,
                                           assignments = l\<rparr>]
                                    else [])
                           (own_keys ta))"
    by (auto simp: period_conflicts_def split: sum.splits)
  from pc assms(2) obtain k l where "map_of ta k = Some l" "length l > 1"
    by (auto split: option.splits if_splits)
  with scan_groups [OF ta, of k] show ?thesis
    by (auto split: if_splits intro!: exI [of _ k])
qed

lemma period_loop_nonempty:
  "efold (\<lambda>p conflicts.
              if p_type p \<noteq> ''lesson'' then Inr conflicts
              else (case period_conflicts st tt d p of
                      Inl e \<Rightarrow> Inl e
                    | Inr cs \<Rightarrow> Inr (conflicts @ cs))) ps acc = Inr r \<Longrightarrow>
   r = acc \<or> (\<exists>p \<in> set ps. \<exists>pc. p_type p = ''lesson'' \<and> period_conflicts st tt d p = Inr pc \<and> pc \<noteq> [])"
proof (induction ps arbitrary: acc)
  case Nil
  then show ?case by simp
next
  case (Cons p ps)
  show ?case
  proof (cases "p_type p \<noteq> ''lesson''")
    case True
    with Cons.prems Cons.IH [of acc] show ?thesis by auto
  next
    case False
    with Cons.prems obtain cs where
      cs: "period_conflicts st tt d p = Inr cs"
      and r: "efold (\<lambda>p conflicts.
              if p_type p \<noteq> ''lesson'' then Inr conflicts
              else (case period_conflicts st tt d p of
                      Inl e \<Rightarrow> Inl e
                    | Inr cs \<Rightarrow> Inr (conflicts @ cs))) ps (acc @ cs) = Inr r"
      by (auto split: sum.splits)
    from Cons.IH [OF r] cs False show ?thesis by (cases "cs = []") auto
  qed
qed

lemma findAllConflicts_nonempty:
  assumes "findAllConflicts st tt = Inr cs" "cs \<noteq> []"
  shows "\<exists>d \<in> set generator_days. \<exists>p \<in> set (periods st). \<exists>pc.
           p_type p = ''lesson'' \<and> period_conflicts st tt d p = Inr pc \<and> pc \<noteq> []"
proof -
  have "efold (\<lambda>d. efold (\<lambda>p conflicts.
              if p_type p \<noteq> ''lesson'' then Inr conflicts
              else (case period_conflicts st tt d p of
                      Inl e \<Rightarrow> Inl e
                    | Inr cs \<Rightarrow> Inr (conflicts @ cs)))
              (periods st)) ds acc = Inr r \<Longrightarrow>
        r = acc \<or> (\<exists>d \<in> set ds. \<exists>p \<in> set (periods st). \<exists>pc.
           p_type p = ''lesson'' \<and> period_conflicts st tt d p = Inr pc \<and> pc \<noteq> [])" for ds acc r
  proof (induction ds arbitrary: acc)
    case Nil
    then show ?case by simp
  next
    case (Cons d ds)
    from Cons.prems obtain acc1 where
      a: "efold (\<lambda>p conflicts.
              if p_type p \<noteq> ''lesson'' then Inr conflicts
              else (case period_conflicts st tt d p of
                      Inl e \<Rightarrow> Inl e
                    | Inr cs \<Rightarrow> Inr (conflicts @ cs))) (periods st) acc = Inr acc1"
      and r: "efold (\<lambda>d. efold (\<lambda>p conflicts.
              if p_type p \<noteq> ''lesson'' then Inr conflicts
              else (case period_conflicts st tt d p of
                      Inl e \<Rightarrow> Inl e
                    | Inr cs \<Rightarrow> Inr (conflicts @ cs)))
              (periods st)) ds acc1 = Inr r"
      by (auto split: sum.splits)
    from period_loop_nonempty [OF a] Cons.IH [OF r] show ?case by auto
  qed
  from this [of generator_days "[]" cs] assms show ?thesis
    by (auto simp: findAllConflicts_def)
qed

lemma two_distinct_keys:
  assumes "2 \<le> length xs" "distinct (map fst xs)"
  shows "\<exists>x \<in> set xs. \<exists>y \<in> set xs. fst x \<noteq> fst y"
proof -
  from assms(1) obtain x y zs where "xs = x # y # zs"
    by (cases xs; cases "tl xs") auto
  with assms(2) show ?thesis by auto
qed

lemma findAllConflicts_not_exclusive:
  assumes scan: "findAllConflicts st tt = Inr cs" and ne: "cs \<noteq> []"
      and dist: "distinct (map c_id (classes st))"
  shows "\<not> teacher_exclusive st tt"
proof
  assume ex: "teacher_exclusive st tt"
  from findAllConflicts_nonempty [OF scan ne] obtain d p pc where
    d: "d \<in> set generator_days" and p: "p \<in> set (periods st)" and l: "p_type p = ''lesson''"
    and pc: "period_conflicts st tt d p = Inr pc" "pc \<noteq> []"
    by blast
  from period_conflicts_nonempty [OF pc] obtain k where
    k: "2 \<le> length (booked tt d (p_id p) (classes st) k)" ..
  from two_distinct_keys [OF k distinct_pushed [OF dist]] obtain c1 s1 c2 s2 where
    m1: "(c1, s1) \<in> set (booked tt d (p_id p) (classes st) k)"
    and m2: "(c2, s2) \<in> set (booked tt d (p_id p) (classes st) k)"
    and ne12: "c1 \<noteq> c2"
    by force
  from booked_elem [OF m1] obtain cls1 where
    cls1: "cls1 \<in> set (classes st)" "c1 = c_id cls1"
      "get_slot tt (d, p_id p, c_id cls1) = Inr (Some s1)"
      "teacher_id s1 = Some k" "k \<noteq> []" "\<not> is_break s1"
    by blast
  from booked_elem [OF m2] obtain cls2 where
    cls2: "cls2 \<in> set (classes st)" "c2 = c_id cls2"
      "get_slot tt (d, p_id p, c_id cls2) = Inr (Some s2)"
      "teacher_id s2 = Some k" "\<not> is_break s2"
    by blast
  from ex d p cls1(1) cls2(1) have
    "case (get_slot tt (d, p_id p, c_id cls1), get_slot tt (d, p_id p, c_id cls2)) of
       (Inr (Some s1), Inr (Some s2)) \<Rightarrow>
          p_type p = ''lesson'' \<and> truthy (teacher_id s1) \<and> \<not> is_break s1 \<and> \<not> is_break s2 \<and>
          teacher_id s1 = teacher_id s2 \<longrightarrow> c_id cls1 = c_id cls2
     | _ \<Rightarrow> True"
    unfolding teacher_exclusive_def by blast
  with cls1 cls2 l ne12 show False
    by (simp add: truthy_def)
qed

text \<open>
  Every double booking is found by the scan: a teacher booked for two or more classes at
  a lesson period is a conflict of the list, with the classes in their order.
\<close>

lemma period_conflicts_complete:
  assumes pc: "period_conflicts st tt d p = Inr pc"
      and two: "2 \<le> length (booked tt d (p_id p) (classes st) k)"
  shows "\<lparr>k_teacherId = k, k_day = d, k_periodId = p_id p,
          assignments = booked tt d (p_id p) (classes st) k\<rparr> \<in> set pc"
proof -
  from pc obtain ta where
    ta: "efold (collect_assignment tt d (p_id p)) (classes st) [] = Inr ta"
    and pc': "pc = concat (map (\<lambda>k. case map_of ta k of
                                  None \<Rightarrow> []
                                | Some l \<Rightarrow>
                                    if length l > 1
                                    then [\<lparr>k_teacherId = k, k_day = d, k_periodId = p_id p,
                                           assignments = l\<rparr>]
                                    else [])
                           (own_keys ta))"
    by (auto simp: period_conflicts_def split: sum.splits)
  from two have ne: "booked tt d (p_id p) (classes st) k \<noteq> []" by auto
  with scan_groups [OF ta, of k] have m: "map_of ta k = Some (booked tt d (p_id p) (classes st) k)"
    by simp
  then have "k \<in> set (own_keys ta)"
    by (metis map_of_eq_Some_fst set_own_keys)
  with m two show ?thesis
    unfolding pc' by (auto intro!: bexI [of _ k])
qed

lemma period_loop_subset:
  "efold (\<lambda>p conflicts.
              if p_type p \<noteq> ''lesson'' then Inr conflicts
              else (case period_conflicts st tt d p of
                      Inl e \<Rightarrow> Inl e
                    | Inr cs \<Rightarrow> Inr (conflicts @ cs))) ps acc = Inr r \<Longrightarrow>
   set acc \<subseteq> set r \<and>
   (\<forall>p \<in> set ps. p_type p = ''lesson'' \<longrightarrow>
      (\<exists>pc. period_conflicts st tt d p = Inr pc \<and> set pc \<subseteq> set r))"
proof (induction ps arbitrary: acc)
  case Nil
  then show ?case by simp
next
  case (Cons p ps)
  show ?case
  proof (cases "p_type p \<noteq> ''lesson''")
    case True
    with Cons.prems Cons.IH [of acc] show ?thesis by simp
  next
    case False
    with Cons.prems obtain cs where
      cs: "period_conflicts st tt d p = Inr cs"
      and r: "efold (\<lambda>p conflicts.
              if p_type p \<noteq> ''lesson'' then Inr conflicts
              else (case period_conflicts st tt d p of
                      Inl e \<Rightarrow> Inl e
                    | Inr cs \<Rightarrow> Inr (conflicts @ cs))) ps (acc @ cs) = Inr r"
      by (auto split: sum.splits)
    from Cons.IH [OF r] cs show ?thesis by auto
  qed
qed

lemma findAllConflicts_subset:
  assumes "findAllConflicts st tt = Inr cs" "d \<in> set generator_days" "p \<in> set (periods st)"
    "p_type p = ''lesson''"
  shows "\<exists>pc. period_conflicts st tt d p = Inr pc \<and> set pc \<subseteq> set cs"
proof -
  have "efold (\<lambda>d. efold (\<lambda>p conflicts.
              if p_type p \<noteq> ''lesson'' then Inr conflicts
              else (case period_conflicts st tt d p of
                      Inl e \<Rightarrow> Inl e
                    | Inr cs \<Rightarrow> Inr (conflicts @ cs)))
              (periods st)) ds acc = Inr r \<Longrightarrow>
        set acc \<subseteq> set r \<and>
        (\<forall>d \<in> set ds. \<forall>p \<in> set (periods st). p_type p = ''lesson'' \<longrightarrow>
           (\<exists>pc. period_conflicts st tt d p = Inr pc \<and> set pc \<subseteq> set r))" for ds acc r
  proof (induction ds arbitrary: acc)
    case Nil
    then show ?case by simp
  next
    case (Cons d ds)
    from Cons.prems obtain acc1 where
      a: "efold (\<lambda>p conflicts.
              if p_type p \<noteq> ''lesson'' then Inr conflicts
              else (case period_conflicts st tt d p of
                      Inl e \<Rightarrow> Inl e
                    | Inr cs \<Rightarrow> Inr (conflicts @ cs))) (periods st) acc = Inr acc1"
      and r: "efold (\<lambda>d. efold (\<lambda>p conflicts.
              if p_type p \<noteq> ''lesson'' then Inr conflicts
              else (case period_conflicts st tt d p of
                      Inl e \<Rightarrow> Inl e
                    | Inr cs \<Rightarrow> Inr (conflicts @ cs)))
              (periods st)) ds acc1 = Inr r"
      by (auto split: sum.splits)
    from period_loop_subset [OF a] have
      a1: "set acc \<subseteq> set acc1"
      and a2: "\<And>p. p \<in> set (periods st) \<Longrightarrow> p_type p = ''lesson'' \<Longrightarrow>
                 \<exists>pc. period_conflicts st tt d p = Inr pc \<and> set pc \<subseteq> set acc1"
      by blast+
    from Cons.IH [OF r] have
      r1: "set acc1 \<subseteq> set r"
      and r2: "\<And>d' p. d' \<in> set ds \<Longrightarrow> p \<in> set (periods st) \<Longrightarrow> p_type p = ''lesson'' \<Longrightarrow>
                 \<exists>pc. period_conflicts st tt d' p = Inr pc \<and> set pc \<subseteq> set r"
      by blast+
    have "\<exists>pc. period_conflicts st tt d' p = Inr pc \<and> set pc \<subseteq> set r"
      if "d' \<in> set (d # ds)" "p \<in> set (periods st)" "p_type p = ''lesson''" for d' p
    proof (cases "d' = d")
      case True
      from a2 [OF that(2,3)] obtain pc where
        "period_conflicts st tt d p = Inr pc" "set pc \<subseteq> set acc1"
        by blast
      with r1 True show ?thesis by blast
    next
      case False
      with that(1) have "d' \<in> set ds" by simp
      from r2 [OF this that(2,3)] show ?thesis .
    qed
    with a1 r1 show ?case by blast
  qed
  from this [of generator_days "[]" cs] assms show ?thesis
    by (auto simp: findAllConflicts_def)
qed

lemma findAllConflicts_complete:
  assumes "findAllConflicts st tt = Inr cs" "d \<in> set generator_days" "p \<in> set (periods st)"
    "p_type p = ''lesson''" "2 \<le> length (booked tt d (p_id p) (classes st) k)"
  shows "\<lparr>k_teacherId = k, k_day = d, k_periodId = p_id p,
          assignments = booked tt d (p_id p) (classes st) k\<rparr> \<in> set cs"
proof -
  from findAllConflicts_subset [OF assms(1-4)] obtain pc where
    "period_conflicts st tt d p = Inr pc" "set pc \<subseteq> set cs"
    by blast
  with period_conflicts_complete [OF _ assms(5)] show ?thesis by blast
qed

text \<open>
  The availability test of the code is the condition that the teacher is free, and a
  search that returns \<^verbatim>\<open>null\<close> has met no alternative slot.
\<close>

lemma slots_of_iff:
  assumes "get_slot tt (d, p, c0) = Inr x"
  shows "(c, s) \<in> set (slots_of tt d p) \<longleftrightarrow> get_slot tt (d, p, c) = Inr (Some s)"
proof -
  from assms obtain dd pp where
    dd: "map_of tt d = Some dd" and pp: "map_of dd p = Some pp"
    by (auto simp: get_slot_def split: option.splits)
  have "(c, s) \<in> set (AList.clearjunk pp) \<longleftrightarrow> map_of pp c = Some s"
    using map_of_eq_Some_iff [OF distinct_clearjunk [of pp], of c s]
    by (simp add: map_of_clearjunk)
  then show ?thesis
    by (simp add: slots_of_def period_entries_def get_slot_def dd pp)
qed

lemma teacher_free_iff:
  assumes "get_slot tt (d, p, c0) = Inr x"
  shows "teacher_free tt k d p c \<longleftrightarrow>
           \<not> (\<exists>c' s. c' \<noteq> c \<and> get_slot tt (d, p, c') = Inr (Some s) \<and> teacher_id s = Some k)"
  unfolding teacher_free_def using slots_of_iff [OF assms] by fastforce

lemma isTeacherAvailableById_free:
  assumes "get_slot tt (d, p, c0) = Inr x"
  shows "isTeacherAvailableById (Some k) d p tt (Some c) = Inr (teacher_free tt k d p c)"
  unfolding isTeacherAvailableById_get_slot [OF assms] teacher_free_iff [OF assms] by auto

lemma alternative_search_None:
  "alternative_search s k tt dps = Inr None \<Longrightarrow> (d, p) \<in> set dps \<Longrightarrow>
     \<not> alternative_slot tt s k d p"
proof (induction dps)
  case Nil
  then show ?case by simp
next
  case (Cons dp rest)
  obtain d0 p0 where dp: "dp = (d0, p0)" by (cases dp)
  have "alternative_search s k tt rest = Inr None \<and> \<not> alternative_slot tt s k d0 p0"
  proof (cases "p_type p0 \<noteq> ''lesson'' \<or> (d0 = day s \<and> p_id p0 = period_id s)")
    case True
    with Cons.prems(1) show ?thesis
      by (auto simp: dp alternative_slot_def split: if_splits)
  next
    case False
    then have l: "p_type p0 = ''lesson''" and ns: "\<not> (d0 = day s \<and> p_id p0 = period_id s)"
      by auto
    have "alternative_search s k tt (dp # rest) =
            (case get_slot tt (d0, p_id p0, class_id s) of
               Inl e \<Rightarrow> Inl e
             | Inr None \<Rightarrow> Inl TypeError
             | Inr (Some s') \<Rightarrow>
                 if \<not> truthy (subject_id s') \<and> \<not> is_break s'
                 then (case isTeacherAvailableById (Some k) d0 (p_id p0) tt
                              (Some (class_id s)) of
                         Inl e \<Rightarrow> Inl e
                       | Inr True \<Rightarrow> Inr (Some (d0, p_id p0))
                       | Inr False \<Rightarrow> alternative_search s k tt rest)
                 else alternative_search s k tt rest)"
    proof -
      have c: "(p_type p0 \<noteq> ''lesson'') = False" "(d0 = day s \<and> p_id p0 = period_id s) = False"
        using l ns by simp_all
      show ?thesis by (simp only: dp alternative_search.simps c if_False)
    qed
    with Cons.prems(1) have run:
      "(case get_slot tt (d0, p_id p0, class_id s) of
               Inl e \<Rightarrow> Inl e
             | Inr None \<Rightarrow> Inl TypeError
             | Inr (Some s') \<Rightarrow>
                 if \<not> truthy (subject_id s') \<and> \<not> is_break s'
                 then (case isTeacherAvailableById (Some k) d0 (p_id p0) tt
                              (Some (class_id s)) of
                         Inl e \<Rightarrow> Inl e
                       | Inr True \<Rightarrow> Inr (Some (d0, p_id p0))
                       | Inr False \<Rightarrow> alternative_search s k tt rest)
                 else alternative_search s k tt rest) = Inr None"
      by simp
    show ?thesis
    proof (cases "get_slot tt (d0, p_id p0, class_id s)")
      case (Inl e)
      with run show ?thesis by simp
    next
      case (Inr x)
      show ?thesis
      proof (cases x)
        case None
        with Inr run show ?thesis by simp
      next
        case (Some s')
        note av = isTeacherAvailableById_free [OF Inr, of k "class_id s"]
        show ?thesis
        proof (cases "\<not> truthy (subject_id s') \<and> \<not> is_break s'")
          case open_slot: True
          show ?thesis
          proof (cases "teacher_free tt k d0 (p_id p0) (class_id s)")
            case True
            with Inr Some open_slot av run show ?thesis by simp
          next
            case free: False
            with Inr Some open_slot av run
            have "alternative_search s k tt rest = Inr None" by simp
            with free Inr Some show ?thesis by (simp add: alternative_slot_def)
          qed
        next
          case closed: False
          with Inr Some run
          have "alternative_search s k tt rest = Inr None" by auto
          moreover from closed have "\<not> ((subject_id s' = None \<or> subject_id s' = Some []) \<and>
                                       \<not> is_break s')"
            by (auto simp: truthy_def split: option.splits)
          ultimately show ?thesis using Inr Some by (auto simp: alternative_slot_def)
        qed
      qed
    qed
  qed
  with Cons.IH Cons.prems(2) show ?case by (auto simp: dp)
qed

text \<open>Conversely, the slot that a search returns is an alternative slot.\<close>

lemma alternative_search_Some:
  "alternative_search s k tt dps = Inr (Some (d, pid)) \<Longrightarrow>
     \<exists>p. (d, p) \<in> set dps \<and> p_id p = pid \<and> alternative_slot tt s k d p"
proof (induction dps)
  case Nil
  then show ?case by simp
next
  case (Cons dp rest)
  obtain d0 p0 where dp: "dp = (d0, p0)" by (cases dp)
  have "alternative_search s k tt rest = Inr (Some (d, pid)) \<or>
        (d = d0 \<and> pid = p_id p0 \<and> alternative_slot tt s k d0 p0)"
  proof (cases "p_type p0 \<noteq> ''lesson'' \<or> (d0 = day s \<and> p_id p0 = period_id s)")
    case True
    with Cons.prems show ?thesis
      by (auto simp: dp split: if_splits)
  next
    case False
    then have l: "p_type p0 = ''lesson''" and ns: "\<not> (d0 = day s \<and> p_id p0 = period_id s)"
      by auto
    have "alternative_search s k tt (dp # rest) =
            (case get_slot tt (d0, p_id p0, class_id s) of
               Inl e \<Rightarrow> Inl e
             | Inr None \<Rightarrow> Inl TypeError
             | Inr (Some s') \<Rightarrow>
                 if \<not> truthy (subject_id s') \<and> \<not> is_break s'
                 then (case isTeacherAvailableById (Some k) d0 (p_id p0) tt
                              (Some (class_id s)) of
                         Inl e \<Rightarrow> Inl e
                       | Inr True \<Rightarrow> Inr (Some (d0, p_id p0))
                       | Inr False \<Rightarrow> alternative_search s k tt rest)
                 else alternative_search s k tt rest)"
    proof -
      have c: "(p_type p0 \<noteq> ''lesson'') = False" "(d0 = day s \<and> p_id p0 = period_id s) = False"
        using l ns by simp_all
      show ?thesis by (simp only: dp alternative_search.simps c if_False)
    qed
    with Cons.prems have run:
      "(case get_slot tt (d0, p_id p0, class_id s) of
               Inl e \<Rightarrow> Inl e
             | Inr None \<Rightarrow> Inl TypeError
             | Inr (Some s') \<Rightarrow>
                 if \<not> truthy (subject_id s') \<and> \<not> is_break s'
                 then (case isTeacherAvailableById (Some k) d0 (p_id p0) tt
                              (Some (class_id s)) of
                         Inl e \<Rightarrow> Inl e
                       | Inr True \<Rightarrow> Inr (Some (d0, p_id p0))
                       | Inr False \<Rightarrow> alternative_search s k tt rest)
                 else alternative_search s k tt rest) = Inr (Some (d, pid))"
      by simp
    show ?thesis
    proof (cases "get_slot tt (d0, p_id p0, class_id s)")
      case (Inl e)
      with run show ?thesis by simp
    next
      case (Inr x)
      show ?thesis
      proof (cases x)
        case None
        with Inr run show ?thesis by simp
      next
        case (Some s')
        note av = isTeacherAvailableById_free [OF Inr, of k "class_id s"]
        show ?thesis
        proof (cases "\<not> truthy (subject_id s') \<and> \<not> is_break s'")
          case open_slot: True
          then have e: "subject_id s' = None \<or> subject_id s' = Some []"
            by (auto simp: truthy_def split: option.splits)
          show ?thesis
          proof (cases "teacher_free tt k d0 (p_id p0) (class_id s)")
            case True
            with Inr Some open_slot av run have "d = d0" "pid = p_id p0" by simp_all
            moreover have "alternative_slot tt s k d0 p0"
              using l ns Inr Some e open_slot True by (simp add: alternative_slot_def)
            ultimately show ?thesis by simp
          next
            case False
            with Inr Some open_slot av run show ?thesis by simp
          qed
        next
          case False
          with Inr Some run show ?thesis by auto
        qed
      qed
    qed
  qed
  with Cons.IH show ?case by (auto simp: dp)
qed

lemma relocate_first_None:
  "relocate_first st k tt as = Inr (False, tt') \<Longrightarrow> (c, s) \<in> set as \<Longrightarrow>
     findAlternativeSlot st s (k_teacherId k) tt = Inr None"
proof (induction as)
  case Nil
  then show ?case by simp
next
  case (Cons a as)
  obtain c0 s0 where a: "a = (c0, s0)" by (cases a)
  show ?case
  proof (cases "findAlternativeSlot st s0 (k_teacherId k) tt")
    case (Inl e)
    with Cons.prems(1) show ?thesis by (simp add: a)
  next
    case (Inr x)
    show ?thesis
    proof (cases x)
      case None
      with Inr Cons.prems(1) have "relocate_first st k tt as = Inr (False, tt')"
        by (simp add: a)
      with Cons.IH Cons.prems(2) Inr None show ?thesis by (auto simp: a)
    next
      case (Some dp)
      with Inr Cons.prems(1) show ?thesis
        by (cases dp) (auto simp: a split: sum.splits)
    qed
  qed
qed

text \<open>
  When, at a scan, the resolver can repair none of the conflicts, no double booking of
  the timetable has an alternative slot for a class other than its first.
\<close>

lemma unrepaired_no_alternatives:
  assumes scan: "findAllConflicts st tt = Inr cs"
      and un: "\<forall>k \<in> set cs. resolveSpecificConflict st k tt = Inr (False, tt)"
  shows "no_alternatives st tt"
  unfolding no_alternatives_def
proof (intro ballI impI, clarify)
  fix d p k c s d' p'
  assume d: "d \<in> set generator_days" and p: "p \<in> set (periods st)"
    and l: "p_type p = ''lesson''"
    and cs: "(c, s) \<in> set (tl (booked tt d (p_id p) (classes st) k))"
    and d': "d' \<in> set generator_days" and p': "p' \<in> set (periods st)"
    and alt: "alternative_slot tt s k d' p'"
  let ?b = "booked tt d (p_id p) (classes st) k"
  let ?k = "\<lparr>k_teacherId = k, k_day = d, k_periodId = p_id p, assignments = ?b\<rparr>"
  from cs have "2 \<le> length ?b" by (cases ?b; cases "tl ?b") auto
  from findAllConflicts_complete [OF scan d p l this] un
  have "resolveSpecificConflict st ?k tt = Inr (False, tt)" by blast
  then have "relocate_first st ?k tt (tl ?b) = Inr (False, tt)"
    by (simp add: resolveSpecificConflict_def resolveTeacherDoubleBooking_def)
  from relocate_first_None [OF this cs]
  have "alternative_search s k tt (List.product generator_days (periods st)) = Inr None"
    by (simp add: findAlternativeSlot_def)
  from alternative_search_None [OF this, of d' p'] d' p' alt show False by simp
qed

text \<open>
  A run whose result would have been the same with one iteration less has stopped at a
  scan without conflicts or at an iteration without repair.
\<close>

lemma resolve_loop_stable:
  "resolve_loop st False (Suc fuel) (n, tt) = Inr (n', tt') \<Longrightarrow>
   resolve_loop st False fuel (n, tt) = Inr (n', tt') \<Longrightarrow>
     (\<exists>cs. findAllConflicts st tt' = Inr cs \<and>
           (\<forall>k \<in> set cs. resolveSpecificConflict st k tt' = Inr (False, tt')))"
proof (induction fuel arbitrary: n tt)
  case 0
  then have eq: "n' = n" "tt' = tt" by simp_all
  show ?case
  proof (cases "findAllConflicts st tt")
    case (Inl e)
    with 0 show ?thesis by simp
  next
    case (Inr cs)
    show ?thesis
    proof (cases "cs = []")
      case True
      with Inr eq show ?thesis by simp
    next
      case False
      show ?thesis
      proof (cases "resolve_each st False cs (0, tt)")
        case (Inl e)
        with 0 Inr False show ?thesis by simp
      next
        case r: (Inr res)
        obtain m tt1 where res: "res = (m, tt1)" by (cases res)
        note cnt = resolve_each_count [OF r [unfolded res]]
        from 0(1) Inr False r res eq have "m = 0" by (auto split: if_splits)
        with cnt have "\<forall>k \<in> set cs. resolveSpecificConflict st k tt = Inr (False, tt)"
          by auto
        with Inr eq show ?thesis by simp
      qed
    qed
  qed
next
  case (Suc fuel)
  show ?case
  proof (cases "findAllConflicts st tt")
    case (Inl e)
    with Suc.prems show ?thesis by simp
  next
    case (Inr cs)
    show ?thesis
    proof (cases "cs = []")
      case True
      with Suc.prems Inr show ?thesis by simp
    next
      case False
      show ?thesis
      proof (cases "resolve_each st False cs (0, tt)")
        case (Inl e)
        with Suc.prems Inr False show ?thesis by simp
      next
        case r: (Inr res)
        obtain m tt1 where res: "res = (m, tt1)" by (cases res)
        note cnt = resolve_each_count [OF r [unfolded res]]
        show ?thesis
        proof (cases "m = 0")
          case True
          with cnt have "tt1 = tt" "\<forall>k \<in> set cs. resolveSpecificConflict st k tt = Inr (False, tt)"
            by auto
          moreover from Suc.prems(1) Inr False r res True have "tt' = tt1" by simp
          ultimately show ?thesis using Inr by simp
        next
          case m: False
          with Suc.prems Inr False r res
          have "resolve_loop st False (Suc fuel) (n + m, tt1) = Inr (n', tt')"
            "resolve_loop st False fuel (n + m, tt1) = Inr (n', tt')"
            by simp_all
          then show ?thesis by (rule Suc.IH)
        qed
      qed
    qed
  qed
qed

subsection \<open>C1: teacher exclusivity after the resolver\<close>

text \<open>
  C1 (as amended). Let \<^verbatim>\<open>resolveConflicts\<close> run without cancellation and return. Then
  one of three holds of the timetable it leaves.
  \<^item> A scan finds no conflict, and the timetable satisfies teacher exclusivity at every
    lesson period of every day, over the non-break slots of the configured classes.
  \<^item> A scan still finds double bookings, and none of them can be repaired: for every
    teacher booked at a lesson period, every class of the booking other than the first in
    the order of the configured classes has no alternative slot, that is, no other lesson
    period of the week at which the slot of the class is empty and no break and the
    teacher is free for the class. The first class of a booking is never moved, whether or
    not it has an alternative slot. When the classes have distinct identifiers, teacher
    exclusivity does not hold.
  \<^item> The resolver has used all of its 100 iterations, each with at least one repair: it
    reports 100 repairs or more and would not have returned this result within 99
    iterations. The timetable has not been scanned since the last repair.
\<close>

theorem resolveConflicts_settles:
  assumes run: "resolveConflicts st False tt = Inr (n, tt')"
  shows "(findAllConflicts st tt' = Inr [] \<and> teacher_exclusive st tt') \<or>
         ((\<exists>cs. findAllConflicts st tt' = Inr cs \<and> cs \<noteq> []) \<and> no_alternatives st tt' \<and>
          (distinct (map c_id (classes st)) \<longrightarrow> \<not> teacher_exclusive st tt')) \<or>
         (100 \<le> n \<and> resolve_loop st False 99 (0, tt) \<noteq> Inr (n, tt'))"
proof -
  from run have loop: "resolve_loop st False 100 (0, tt) = Inr (n, tt')"
    by (simp add: resolveConflicts_def)
  have settled: "(findAllConflicts st tt' = Inr [] \<and> teacher_exclusive st tt') \<or>
         ((\<exists>cs. findAllConflicts st tt' = Inr cs \<and> cs \<noteq> []) \<and> no_alternatives st tt' \<and>
          (distinct (map c_id (classes st)) \<longrightarrow> \<not> teacher_exclusive st tt'))"
    if "\<exists>cs. findAllConflicts st tt' = Inr cs \<and>
              (\<forall>k \<in> set cs. resolveSpecificConflict st k tt' = Inr (False, tt'))"
  proof -
    from that obtain cs where
      cs: "findAllConflicts st tt' = Inr cs"
      and un: "\<forall>k \<in> set cs. resolveSpecificConflict st k tt' = Inr (False, tt')"
      by blast
    show ?thesis
    proof (cases "cs = []")
      case True
      with cs have "teacher_exclusive st tt'" by (simp add: findAllConflicts_exclusive)
      with cs True show ?thesis by simp
    next
      case False
      have "no_alternatives st tt'" using cs un by (rule unrepaired_no_alternatives)
      moreover have "distinct (map c_id (classes st)) \<longrightarrow> \<not> teacher_exclusive st tt'"
        using findAllConflicts_not_exclusive [OF cs False] by blast
      ultimately show ?thesis using cs False by blast
    qed
  qed
  show ?thesis
  proof (cases "n < 100")
    case True
    from resolve_loop_settled [OF loop] True
    have "\<exists>cs. findAllConflicts st tt' = Inr cs \<and>
               (\<forall>k \<in> set cs. resolveSpecificConflict st k tt' = Inr (False, tt'))"
      by simp
    from settled [OF this] show ?thesis by blast
  next
    case False
    show ?thesis
    proof (cases "resolve_loop st False 99 (0, tt) = Inr (n, tt')")
      case True
      have "resolve_loop st False (Suc 99) (0, tt) = Inr (n, tt')"
        using loop by simp
      from settled [OF resolve_loop_stable [OF this True]] show ?thesis by blast
    next
      case ne: False
      with False show ?thesis by simp
    qed
  qed
qed

theorem resolveConflicts_settles_witness:
  "resolveConflicts cx1_st False fix_tt = Inr (1, fix_tt_resolved) \<and>
   findAllConflicts cx1_st fix_tt_resolved = Inr [] \<and>
   teacher_exclusive cx1_st fix_tt_resolved"
proof -
  have run: "resolveConflicts cx1_st False fix_tt = Inr (1, fix_tt_resolved)"
    by code_simp
  have scan: "findAllConflicts cx1_st fix_tt_resolved = Inr []"
    by code_simp
  from resolveConflicts_settles [OF run] scan
  have "teacher_exclusive cx1_st fix_tt_resolved"
    by auto
  with run scan show ?thesis by blast
qed

text \<open>
  The claim as stated fails where a double booking cannot be relocated. In \<open>cx1_tt\<close>
  teacher T1 is booked for classes A and B on Monday and class B, the second class of the
  booking, has no free slot in the week: the resolver repairs nothing and returns the
  timetable as it was, with T1 in both classes on Monday. Class A has a free slot on
  Tuesday, but the lesson of the first class is never moved.
\<close>

theorem resolveConflicts_counterexample:
  "resolveConflicts cx1_st False cx1_tt = Inr (0, cx1_tt) \<and>
   get_slot cx1_tt (''Monday'', ''P1'', ''A'') =
     Inr (Some (lesson_slot ''Monday'' ''P1'' ''A'' ''Math'' ''T1'')) \<and>
   get_slot cx1_tt (''Monday'', ''P1'', ''B'') =
     Inr (Some (lesson_slot ''Monday'' ''P1'' ''B'' ''Math'' ''T1'')) \<and>
   \<not> teacher_exclusive cx1_st cx1_tt"
proof -
  have "resolveConflicts cx1_st False cx1_tt = Inr (0, cx1_tt)"
    by code_simp
  moreover have "get_slot cx1_tt (''Monday'', ''P1'', ''A'') =
     Inr (Some (lesson_slot ''Monday'' ''P1'' ''A'' ''Math'' ''T1''))"
    by code_simp
  moreover have "get_slot cx1_tt (''Monday'', ''P1'', ''B'') =
     Inr (Some (lesson_slot ''Monday'' ''P1'' ''B'' ''Math'' ''T1''))"
    by code_simp
  moreover have "\<not> teacher_exclusive cx1_st cx1_tt"
    by code_simp
  ultimately show ?thesis by blast
qed

text \<open>
  The third case occurs. On \<open>swing_tt\<close> the scan finds teacher T1 booked for classes C
  and B on Monday. The slot of class B records class C, so the search looks at the slots
  of class C, finds the one of Tuesday without a subject, and the lesson is written into
  the Tuesday slot of class B, where it is the same double booking again; the next
  iteration moves it back. Every iteration counts one repair, and after 100 iterations the
  resolver returns the timetable it was given. A timetable in which every slot records the
  class it is stored for loses one double booking with every repair, and reaches the
  limit only from a hundred double bookings or more.
\<close>

lemma swing_step:
  "resolve_loop swing_st False (Suc (Suc fuel)) (n, swing_tt) =
   resolve_loop swing_st False fuel (n + 2, swing_tt)"
proof -
  let ?c = "(empty_slot ''Monday'' ''P1'' ''C'' False)\<lparr>teacher_id := Some ''T1''\<rparr>"
  let ?c' = "(empty_slot ''Tuesday'' ''P1'' ''C'' False)\<lparr>teacher_id := Some ''T1''\<rparr>"
  let ?k = "\<lparr>k_teacherId = ''T1'', k_day = ''Monday'', k_periodId = ''P1'',
             assignments = [(''C'', ?c), (''B'', swing_slot ''Monday'')]\<rparr>"
  let ?k' = "\<lparr>k_teacherId = ''T1'', k_day = ''Tuesday'', k_periodId = ''P1'',
              assignments = [(''C'', ?c'), (''B'', swing_slot ''Tuesday'')]\<rparr>"
  have scan: "findAllConflicts swing_st swing_tt = Inr [?k]"
    by code_simp
  have repair: "resolve_each swing_st False [?k] (0, swing_tt) = Inr (1, swing_tt')"
    by code_simp
  have scan': "findAllConflicts swing_st swing_tt' = Inr [?k']"
    by code_simp
  have repair': "resolve_each swing_st False [?k'] (0, swing_tt') = Inr (1, swing_tt)"
    by code_simp
  have "resolve_loop swing_st False (Suc (Suc fuel)) (n, swing_tt) =
          resolve_loop swing_st False (Suc fuel) (n + 1, swing_tt')"
    by (simp add: scan repair del: resolve_each.simps)
  also have "\<dots> = resolve_loop swing_st False fuel (n + 2, swing_tt)"
    by (simp add: scan' repair' del: resolve_each.simps)
  finally show ?thesis .
qed

lemma swing_loop:
  "resolve_loop swing_st False (2 * j) (n, swing_tt) = Inr (n + 2 * j, swing_tt)"
proof (induction j arbitrary: n)
  case 0
  show ?case by simp
next
  case (Suc j)
  have "resolve_loop swing_st False (2 * Suc j) (n, swing_tt) =
          resolve_loop swing_st False (Suc (Suc (2 * j))) (n, swing_tt)"
    by (simp del: resolve_loop.simps)
  also have "\<dots> = resolve_loop swing_st False (2 * j) (n + 2, swing_tt)"
    by (rule swing_step)
  also have "\<dots> = Inr (n + 2 * Suc j, swing_tt)"
    by (simp add: Suc.IH del: resolve_loop.simps)
  finally show ?case .
qed

lemma resolveConflicts_limit:
  "resolveConflicts swing_st False swing_tt = Inr (100, swing_tt) \<and>
   \<not> teacher_exclusive swing_st swing_tt \<and>
   alternative_slot swing_tt (swing_slot ''Monday'') ''T1'' ''Tuesday'' (hd one_period) \<and>
   \<not> no_alternatives swing_st swing_tt"
proof -
  have "resolveConflicts swing_st False swing_tt = Inr (100, swing_tt)"
    using swing_loop [of 50 0] by (simp add: resolveConflicts_def)
  moreover have "\<not> teacher_exclusive swing_st swing_tt"
    by code_simp
  moreover have "alternative_slot swing_tt (swing_slot ''Monday'') ''T1'' ''Tuesday'' (hd one_period)"
    by code_simp
  moreover have "\<not> no_alternatives swing_st swing_tt"
    by code_simp
  ultimately show ?thesis by blast
qed

section \<open>Properties of the assignment score\<close>

text \<open>
  The score that \<^verbatim>\<open>calculateAssignmentScore\<close> returns is the specified one for a
  morning period; for any other period it still contains the morning bonus.
\<close>

lemma calculateAssignmentScore_specified:
  assumes "map_of classLoad classId = Some dayLoad"
    "read_counter teacherLoad (t_id t) = Some tload" "read_counter dayLoad d = Some cload"
  shows "calculateAssignmentScore st t subj teacherLoad classLoad classId d =
           Inr (Some (max 0 (100 - 2 * real tload - 1.5 * real cload + priorityWeight (priority subj)
                             + (if prefer_morning (constraints_of st) \<and> priority subj = ''high''
                                then 5 else 0))))"
  using assms by (simp add: calculateAssignmentScore_def Let_def algebra_simps)

subsection \<open>C3: the morning bonus\<close>

text \<open>
  C3. The claim asks for the bonus of 5 only when the period of the slot starts before
  12:00. \<^verbatim>\<open>calculateAssignmentScore\<close> does not look at the period: with
  \<^verbatim>\<open>prefer_morning\<close> enabled, for the high-priority subject Math, an unloaded teacher
  and an unloaded class it returns 115 for a slot of the period that starts at 14:00,
  where the specified score is 110.
\<close>

theorem calculateAssignmentScore_afternoon:
  "calculateAssignmentScore cx1_st teacher_T1 subject_Math [(''T1'', Some 0)]
     [(''A'', [(''Monday'', Some 0)])] ''A'' ''Monday'' = Inr (Some 115) \<and>
   prefer_morning (constraints_of cx1_st) \<and>
   \<not> isMorningPeriod afternoon_period \<and>
   specified_score (prefer_morning (constraints_of cx1_st)) (priority subject_Math)
     afternoon_period 0 0 = 110"
proof -
  have m: "\<not> isMorningPeriod afternoon_period"
    by code_simp
  have "calculateAssignmentScore cx1_st teacher_T1 subject_Math [(''T1'', Some 0)]
          [(''A'', [(''Monday'', Some 0)])] ''A'' ''Monday'' = Inr (Some 115)"
    by (simp add: calculateAssignmentScore_def read_counter_def cx1_st_def teacher_T1_def
        subject_Math_def priorityWeight_def)
  moreover have "specified_score (prefer_morning (constraints_of cx1_st)) (priority subject_Math)
     afternoon_period 0 0 = 110"
    using m by (simp add: specified_score_def cx1_st_def subject_Math_def priorityWeight_def)
  moreover have "prefer_morning (constraints_of cx1_st)"
    by (simp add: cx1_st_def)
  ultimately show ?thesis using m by blast
qed

section \<open>Properties of the period validator\<close>

lemma digit_val_le: "is_digit c \<Longrightarrow> digit_val c \<le> 9"
  by (auto simp: is_digit_def digit_val_def)

lemma is_digit_not_colon: "is_digit c \<Longrightarrow> c \<noteq> CHR '':''"
  by (auto simp: is_digit_def)

text \<open>
  What \<^verbatim>\<open>Number\<close> is assumed to do: it reads two decimal digits as the number they
  write. On a clock time \<^verbatim>\<open>timeToMinutes\<close> then returns the minutes since midnight.
\<close>

lemma two_digit_minutes:
  assumes "is_digit h1" "is_digit h2" "is_digit m1" "is_digit m2"
  shows "dadd (dmul (real (10 * digit_val h1 + digit_val h2)) 60)
              (real (10 * digit_val m1 + digit_val m2)) =
         real ((10 * digit_val h1 + digit_val h2) * 60 + (10 * digit_val m1 + digit_val m2))"
proof -
  let ?h = "10 * digit_val h1 + digit_val h2" and ?m = "10 * digit_val m1 + digit_val m2"
  have b: "?h \<le> 99" "?m \<le> 99"
    using assms digit_val_le [of h1] digit_val_le [of h2] digit_val_le [of m1] digit_val_le [of m2]
    by simp_all
  then have "?h * 60 < 2 ^ 53" "?h * 60 + ?m < 2 ^ 53" by simp_all
  then have "round_double (real (?h * 60)) = real (?h * 60)"
    "round_double (real (?h * 60 + ?m)) = real (?h * 60 + ?m)"
    by (simp_all only: round_double_of_nat)
  then show ?thesis by (simp add: dadd_def dmul_def)
qed

lemma timeToMinutes_clock:
  assumes num: "\<forall>a b. is_digit a \<and> is_digit b \<longrightarrow>
                  num [a, b] = Some (real (10 * digit_val a + digit_val b))"
      and m: "minutes_since_midnight s = Some m"
  shows "timeToMinutes num s = Some (real m)"
proof -
  from m obtain h1 h2 m1 m2 rest where
    s: "s = h1 # h2 # CHR '':'' # m1 # m2 # rest"
    and d: "is_digit h1" "is_digit h2" "is_digit m1" "is_digit m2"
    and rest: "rest = [] \<or> (\<exists>s1 s2. rest = [CHR '':'', s1, s2] \<and> is_digit s1 \<and> is_digit s2)"
    and val: "m = (10 * digit_val h1 + digit_val h2) * 60 + (10 * digit_val m1 + digit_val m2)"
    by (auto simp: minutes_since_midnight_def split: list.splits if_splits)
  from d have nc: "h1 \<noteq> CHR '':''" "h2 \<noteq> CHR '':''" "m1 \<noteq> CHR '':''" "m2 \<noteq> CHR '':''"
    by (simp_all add: is_digit_not_colon)
  from rest have "\<exists>more. split_on CHR '':'' s = [h1, h2] # [m1, m2] # more"
  proof
    assume "rest = []"
    then show ?thesis using nc by (simp add: s)
  next
    assume "\<exists>s1 s2. rest = [CHR '':'', s1, s2] \<and> is_digit s1 \<and> is_digit s2"
    then obtain s1 s2 where "rest = [CHR '':'', s1, s2]" "is_digit s1" "is_digit s2" by blast
    then show ?thesis using nc is_digit_not_colon [of s1] is_digit_not_colon [of s2]
      by (simp add: s)
  qed
  then obtain more where sp: "split_on CHR '':'' s = [h1, h2] # [m1, m2] # more" ..
  from num d have n: "num [h1, h2] = Some (real (10 * digit_val h1 + digit_val h2))"
    "num [m1, m2] = Some (real (10 * digit_val m1 + digit_val m2))"
    by simp_all
  show ?thesis
    unfolding timeToMinutes_def sp val
    by (simp add: n two_digit_minutes [OF d] del: of_nat_add of_nat_mult)
qed

lemma js_less_Some [simp]: "js_less (Some x) (Some y) \<longleftrightarrow> x < y"
  by (simp add: js_less_def)

text \<open>On periods whose times are clock times the code's test is the specified one.\<close>

lemma doPeriodsOverlap_specified:
  assumes num: "\<forall>a b. is_digit a \<and> is_digit b \<longrightarrow>
                  num [a, b] = Some (real (10 * digit_val a + digit_val b))"
      and p: "p_type p = ''lesson'' \<longrightarrow>
                minutes_since_midnight (start_time p) \<noteq> None \<and>
                minutes_since_midnight (end_time p) \<noteq> None"
      and q: "p_type q = ''lesson'' \<longrightarrow>
                minutes_since_midnight (start_time q) \<noteq> None \<and>
                minutes_since_midnight (end_time q) \<noteq> None"
  shows "doPeriodsOverlap num p q = specified_overlap p q"
proof (cases "p_type p = ''lesson'' \<and> p_type q = ''lesson''")
  case False
  then show ?thesis by (auto simp: doPeriodsOverlap_def specified_overlap_def)
next
  case True
  with p q obtain s1 e1 s2 e2 where
    t: "minutes_since_midnight (start_time p) = Some s1"
       "minutes_since_midnight (end_time p) = Some e1"
       "minutes_since_midnight (start_time q) = Some s2"
       "minutes_since_midnight (end_time q) = Some e2"
    by auto
  show ?thesis
    using True
    by (simp add: doPeriodsOverlap_def specified_overlap_def t
        timeToMinutes_clock [OF num t(1)] timeToMinutes_clock [OF num t(2)]
        timeToMinutes_clock [OF num t(3)] timeToMinutes_clock [OF num t(4)])
qed

lemma concat_map_if: "concat (map (\<lambda>j. if P j then [f j] else []) xs) = map f (filter P xs)"
  by (induction xs) simp_all

lemma overlap_pairs_filter:
  assumes "\<And>i j. i < length ps \<Longrightarrow> j < length ps \<Longrightarrow>
             doPeriodsOverlap num (ps ! i) (ps ! j) = S (ps ! i) (ps ! j)"
  shows "overlap_pairs num ps =
           filter (\<lambda>(i, j). S (ps ! i) (ps ! j)) (index_pairs (length ps))"
proof -
  have "concat (map (\<lambda>j. if doPeriodsOverlap num (ps ! i) (ps ! j) then [(i, j)] else [])
                    [Suc i..<length ps]) =
        filter (\<lambda>(i, j). S (ps ! i) (ps ! j)) (map (Pair i) [Suc i..<length ps])"
    if "i < length ps" for i
  proof -
    have "filter (\<lambda>j. doPeriodsOverlap num (ps ! i) (ps ! j)) [Suc i..<length ps] =
          filter (\<lambda>j. S (ps ! i) (ps ! j)) [Suc i..<length ps]"
      using that assms by (intro filter_cong) auto
    then show ?thesis
      by (simp add: concat_map_if filter_map comp_def)
  qed
  then have m: "map (\<lambda>i. concat (map (\<lambda>j. if doPeriodsOverlap num (ps ! i) (ps ! j) then [(i, j)] else [])
                    [Suc i..<length ps])) [0..<length ps] =
        map (\<lambda>i. filter (\<lambda>(i, j). S (ps ! i) (ps ! j)) (map (Pair i) [Suc i..<length ps]))
            [0..<length ps]"
    by (intro map_cong) auto
  have "filter (\<lambda>(i, j). S (ps ! i) (ps ! j)) (index_pairs (length ps)) =
        concat (map (\<lambda>i. filter (\<lambda>(i, j). S (ps ! i) (ps ! j)) (map (Pair i) [Suc i..<length ps]))
                    [0..<length ps])"
    by (simp add: index_pairs_def filter_concat comp_def)
  then show ?thesis
    unfolding overlap_pairs_def by (simp only: m)
qed

subsection \<open>C8: which pairs of periods are flagged\<close>

text \<open>
  C8. Let the times of the lesson periods be clock times, \<^verbatim>\<open>HH:MM\<close> or
  \<^verbatim>\<open>HH:MM:SS\<close>, and let \<^verbatim>\<open>Number\<close> read two decimal digits as the number they write.
  Then \<^verbatim>\<open>validatePeriodConstraints\<close> returns one error for each pair of positions
  \<open>i < j\<close> of the list of periods, in the order of the pairs, whose periods overlap as
  specified: both have the type lesson and, with the times in minutes since midnight,
  \<open>start1 < end2\<close> and \<open>start2 < end1\<close>. No other pair is flagged; in particular no pair
  with a break or lunch period.
\<close>

theorem validatePeriodConstraints_flags:
  assumes num: "\<forall>a b. is_digit a \<and> is_digit b \<longrightarrow>
                  num [a, b] = Some (real (10 * digit_val a + digit_val b))"
      and times: "\<forall>p \<in> set (periods st). p_type p = ''lesson'' \<longrightarrow>
                    minutes_since_midnight (start_time p) \<noteq> None \<and>
                    minutes_since_midnight (end_time p) \<noteq> None"
  shows "validatePeriodConstraints num st =
           map (\<lambda>(i, j). ''Periods '' @ p_name (periods st ! i) @ '' and '' @
                          p_name (periods st ! j) @ '' overlap'')
               (filter (\<lambda>(i, j). specified_overlap (periods st ! i) (periods st ! j))
                       (index_pairs (length (periods st))))"
proof -
  have "doPeriodsOverlap num (periods st ! i) (periods st ! j) =
          specified_overlap (periods st ! i) (periods st ! j)"
    if "i < length (periods st)" "j < length (periods st)" for i j
    using that times by (intro doPeriodsOverlap_specified [OF num]) auto
  then have "overlap_pairs num (periods st) =
               filter (\<lambda>(i, j). specified_overlap (periods st ! i) (periods st ! j))
                      (index_pairs (length (periods st)))"
    by (rule overlap_pairs_filter)
  then show ?thesis by (simp add: validatePeriodConstraints_def)
qed

theorem validatePeriodConstraints_flags_witness:
  "decimal_number ''08'' = Some 8 \<and> decimal_number ''30'' = Some 30 \<and>
   minutes_since_midnight ''08:00'' = Some 480 \<and> minutes_since_midnight ''09:00'' = Some 540 \<and>
   minutes_since_midnight ''08:30'' = Some 510 \<and> minutes_since_midnight ''09:30'' = Some 570 \<and>
   minutes_since_midnight ''10:30'' = Some 630 \<and>
   index_pairs 4 = [(0, 1), (0, 2), (0, 3), (1, 2), (1, 3), (2, 3)] \<and>
   specified_overlap (overlap_periods ! 0) (overlap_periods ! 1) \<and>
   \<not> specified_overlap (overlap_periods ! 0) (overlap_periods ! 2) \<and>
   \<not> specified_overlap (overlap_periods ! 1) (overlap_periods ! 3) \<and>
   validatePeriodConstraints decimal_number (cx1_st\<lparr>periods := overlap_periods\<rparr>) =
     [''Periods Period 1 and Period 2 overlap'']"
proof -
  have num: "\<forall>a b. is_digit a \<and> is_digit b \<longrightarrow>
               decimal_number [a, b] = Some (real (10 * digit_val a + digit_val b))"
    by (simp add: decimal_number_def decimal_val_def)
  have n: "decimal_number ''08'' = Some 8" "decimal_number ''30'' = Some 30"
    by (simp_all add: decimal_number_def decimal_val_def digit_val_def is_digit_def)
  have m: "minutes_since_midnight ''08:00'' = Some 480"
    "minutes_since_midnight ''09:00'' = Some 540"
    "minutes_since_midnight ''08:30'' = Some 510"
    "minutes_since_midnight ''09:30'' = Some 570"
    "minutes_since_midnight ''10:30'' = Some 630"
    "minutes_since_midnight ''08:45'' = Some 525"
    "minutes_since_midnight ''09:15'' = Some 555"
    by (simp_all add: minutes_since_midnight_def digit_val_def is_digit_def)
  have p: "periods (cx1_st\<lparr>periods := overlap_periods\<rparr>) = overlap_periods"
    by simp
  have times: "\<forall>p \<in> set (periods (cx1_st\<lparr>periods := overlap_periods\<rparr>)). p_type p = ''lesson'' \<longrightarrow>
                 minutes_since_midnight (start_time p) \<noteq> None \<and>
                 minutes_since_midnight (end_time p) \<noteq> None"
    unfolding p by (simp add: overlap_periods_def m)
  have ip: "index_pairs 4 = [(0, 1), (0, 2), (0, 3), (1, 2), (1, 3), (2, 3)]"
    by (simp add: index_pairs_def upt_rec numeral_eq_Suc)
  have len: "length overlap_periods = 4"
    by (simp add: overlap_periods_def)
  have o: "specified_overlap (overlap_periods ! 0) (overlap_periods ! 1)"
    "\<not> specified_overlap (overlap_periods ! 0) (overlap_periods ! 2)"
    "\<not> specified_overlap (overlap_periods ! 0) (overlap_periods ! 3)"
    "\<not> specified_overlap (overlap_periods ! 1) (overlap_periods ! 2)"
    "\<not> specified_overlap (overlap_periods ! 1) (overlap_periods ! 3)"
    "\<not> specified_overlap (overlap_periods ! 2) (overlap_periods ! 3)"
    by (simp_all add: overlap_periods_def specified_overlap_def m)
  have "validatePeriodConstraints decimal_number (cx1_st\<lparr>periods := overlap_periods\<rparr>) =
          [''Periods Period 1 and Period 2 overlap'']"
    unfolding validatePeriodConstraints_flags [OF num times] p len ip
    using o by (simp add: overlap_periods_def)
  with n m ip o show ?thesis by blast
qed

section \<open>Properties of the soft-score calculator\<close>

subsection \<open>C6: the score of a timetable without penalties\<close>

text \<open>
  C6. When the frequency penalty, the preference penalty and the imbalance penalty of a
  timetable are all zero, \<^verbatim>\<open>calculateSoftConstraintScores\<close> returns exactly 1050: the
  running score 1000 exceeds 950, the bonus of 50 is added, and the final clamp at zero
  leaves 1050; no ceiling is applied.
\<close>

theorem calculateSoftConstraintScores_no_penalty:
  assumes "calculateSubjectFrequencyPenalty st tt = Inr 0"
      and "calculateTeacherPreferencePenalty st tt = Inr 0"
      and "calculateWorkloadImbalancePenalty st tt = Inr (Some 0)"
  shows "calculateSoftConstraintScores st tt = Inr (Some 1050)"
proof -
  have "round_double 1000 = 1000" "round_double 1050 = 1050"
    using round_double_of_nat [of 1000] round_double_of_nat [of 1050] by simp_all
  with assms show ?thesis
    by (simp add: calculateSoftConstraintScores_def dsub_def dmul_def dadd_def)
qed

theorem calculateSoftConstraintScores_no_penalty_witness:
  "calculateSubjectFrequencyPenalty score_st score_tt = Inr 0 \<and>
   calculateTeacherPreferencePenalty score_st score_tt = Inr 0 \<and>
   calculateWorkloadImbalancePenalty score_st score_tt = Inr (Some 0) \<and>
   calculateSoftConstraintScores score_st score_tt = Inr (Some 1050)"
proof -
  have f: "calculateSubjectFrequencyPenalty score_st score_tt = Inr 0"
    by code_simp
  have p: "calculateTeacherPreferencePenalty score_st score_tt = Inr 0"
    by code_simp
  have i: "calculateWorkloadImbalancePenalty score_st score_tt = Inr (Some 0)"
    by code_simp
  from calculateSoftConstraintScores_no_penalty [OF f p i] f p i show ?thesis
    by blast
qed

subsection \<open>C7: the preference penalty\<close>

lemma efold_sum:
  fixes g :: "'a \<Rightarrow> int"
  assumes "\<And>x acc. x \<in> set xs \<Longrightarrow> f x acc = Inr (acc + g x)"
  shows "efold f xs a = Inr (a + sum_list (map g xs))"
  using assms by (induction xs arbitrary: a) (simp_all add: add.assoc)

lemma period_entries_slots_of:
  "map_of tt d \<noteq> None \<Longrightarrow> period_entries tt d pid = Inr (slots_of tt d pid)"
  by (auto simp: period_entries_def slots_of_def split: option.splits)

lemma countTeacherDailyLessons_sum:
  assumes "map_of tt d \<noteq> None"
  shows "countTeacherDailyLessons st teacherId d tt = Inr (daily_lessons st tt teacherId d)"
  unfolding countTeacherDailyLessons_def daily_lessons_def
  by (subst efold_sum [where g = "\<lambda>p. if p_type p = ''lesson''
        then count_teacher teacherId (slots_of tt d (p_id p)) else 0"])
     (simp_all add: period_entries_slots_of [OF assms])

lemma countAfternoonLessons_sum:
  assumes ds: "days st = Some ds" and rows: "\<forall>d \<in> set ds. map_of tt d \<noteq> None"
  shows "countAfternoonLessons st teacherId tt = Inr (afternoon_lessons st ds tt teacherId)"
proof -
  have inner: "efold (\<lambda>p count.
                   if isAfternoonPeriod p then
                     (case period_entries tt d (p_id p) of
                        Inl e \<Rightarrow> Inl e
                      | Inr es \<Rightarrow> Inr (count + count_teacher teacherId es))
                   else Inr count) (periods st) acc =
        Inr (acc + sum_list (map (\<lambda>p. if isAfternoonPeriod p
                                       then count_teacher teacherId (slots_of tt d (p_id p))
                                       else 0) (periods st)))"
    if "d \<in> set ds" for d acc
    using that rows
    by (intro efold_sum) (simp_all add: period_entries_slots_of)
  show ?thesis
    unfolding countAfternoonLessons_def afternoon_lessons_def ds
    by (simp, intro efold_sum [where a = 0, simplified]) (simp add: inner)
qed

lemma excess_sum:
  assumes rows: "\<forall>d \<in> set ds. map_of tt d \<noteq> None"
  shows "efold (\<lambda>d pen.
            (case countTeacherDailyLessons st teacherId d tt of
               Inl e \<Rightarrow> Inl e
             | Inr dailyLessons \<Rightarrow>
                 Inr (if dailyLessons > m then pen + (dailyLessons - m) * 5 else pen)))
           ds a =
         Inr (a + sum_list (map (\<lambda>d. 5 * max 0 (daily_lessons st tt teacherId d - m)) ds))"
  using rows by (intro efold_sum) (auto simp: countTeacherDailyLessons_sum max_def)

lemma calculateTeacherPreferencePenalty_sum:
  assumes ds: "days st = Some ds" and rows: "\<forall>d \<in> set ds. map_of tt d \<noteq> None"
  shows "calculateTeacherPreferencePenalty st tt =
           Inr (sum_list (map (\<lambda>t. case preferences t of
                   None \<Rightarrow> 0
                 | Some prefs \<Rightarrow>
                     (if morning_preference prefs then afternoon_lessons st ds tt (t_id t) else 0)
                     + sum_list (map (\<lambda>d. 5 * max 0 (daily_lessons st tt (t_id t) d
                                                  - max_daily_lessons (constraints_of st))) ds))
                 (teachers st)))"
  unfolding calculateTeacherPreferencePenalty_def
  by (intro efold_sum [where a = 0, simplified])
     (auto simp: ds countAfternoonLessons_sum [OF ds rows] excess_sum [OF rows]
           split: option.splits)

lemma sum_list_mult_const_int: "(c::int) * sum_list (map g xs) = sum_list (map (\<lambda>x. c * g x) xs)"
  by (induction xs) (simp_all add: algebra_simps)

lemma preference_deduction_penalty:
  assumes ds: "days st = Some ds" and rows: "\<forall>d \<in> set ds. map_of tt d \<noteq> None"
  shows "\<exists>pen. calculateTeacherPreferencePenalty st tt = Inr pen \<and>
               pen * 5 = preference_deduction st ds tt"
proof -
  have eq: "5 * (case preferences t of
               None \<Rightarrow> 0
             | Some prefs \<Rightarrow>
                 (if morning_preference prefs then afternoon_lessons st ds tt (t_id t) else 0)
                 + sum_list (map (\<lambda>d. 5 * max 0 (daily_lessons st tt (t_id t) d
                                              - max_daily_lessons (constraints_of st))) ds)) =
        (case preferences t of
           None \<Rightarrow> 0
         | Some prefs \<Rightarrow>
             5 * (if morning_preference prefs then afternoon_lessons st ds tt (t_id t) else 0)
             + 25 * sum_list (map (\<lambda>d. max 0 (daily_lessons st tt (t_id t) d
                                           - max_daily_lessons (constraints_of st))) ds))" for t
    by (simp add: sum_list_mult_const_int algebra_simps split: option.splits)
  have "5 * sum_list (map (\<lambda>t. case preferences t of
                   None \<Rightarrow> 0
                 | Some prefs \<Rightarrow>
                     (if morning_preference prefs then afternoon_lessons st ds tt (t_id t) else 0)
                     + sum_list (map (\<lambda>d. 5 * max 0 (daily_lessons st tt (t_id t) d
                                                  - max_daily_lessons (constraints_of st))) ds))
                 (teachers st)) = preference_deduction st ds tt"
    unfolding preference_deduction_def sum_list_mult_const_int [of 5] by (simp only: eq)
  then show ?thesis
    unfolding calculateTeacherPreferencePenalty_sum [OF ds rows]
    by (simp add: mult.commute)
qed

text \<open>
  C7 (as amended). For a timetable that has a row for every day of the state, five times
  the preference penalty is the preference deduction: every lesson by which the daily
  lesson count of a teacher exceeds \<^verbatim>\<open>max_daily_lessons\<close> costs 25 (5 inside the
  penalty, times the penalty weight 5) and every afternoon lesson of a teacher with
  \<^verbatim>\<open>morning_preference\<close> costs 5, where afternoon means that the start time of the
  period, compared as a string, is not below 12:00; both only for teachers that have a
  \<^verbatim>\<open>preferences\<close> record: a teacher without one costs nothing. The soft score is
  1000 minus ten times the frequency penalty, minus this deduction, minus three times the
  imbalance penalty, each step in double precision, then raised by 50 when above 950 and
  clamped at zero.
\<close>

theorem calculateSoftConstraintScores_preference:
  assumes ds: "days st = Some ds"
      and rows: "\<forall>d \<in> set ds. map_of tt d \<noteq> None"
      and f: "calculateSubjectFrequencyPenalty st tt = Inr frequency"
      and i: "calculateWorkloadImbalancePenalty st tt = Inr (Some imbalance)"
  shows "\<exists>pen. calculateTeacherPreferencePenalty st tt = Inr pen \<and>
           pen * 5 = preference_deduction st ds tt \<and>
           calculateSoftConstraintScores st tt =
             Inr (Some (max 0
               (let running =
                      dsub (dsub (dsub 1000 (dmul (real_of_int frequency) 10))
                                 (round_double (real_of_int (preference_deduction st ds tt))))
                           (dmul imbalance 3)
                in if running > 950 then dadd running 50 else running)))"
proof -
  from preference_deduction_penalty [OF ds rows] obtain pen where
    pen: "calculateTeacherPreferencePenalty st tt = Inr pen"
    and ded: "pen * 5 = preference_deduction st ds tt"
    by blast
  have "real_of_int pen * 5 = real_of_int (preference_deduction st ds tt)"
    using ded by (metis of_int_mult of_int_numeral)
  then have "dmul (real_of_int pen) 5 = round_double (real_of_int (preference_deduction st ds tt))"
    by (simp add: dmul_def)
  then have "calculateSoftConstraintScores st tt =
             Inr (Some (max 0
               (let running =
                      dsub (dsub (dsub 1000 (dmul (real_of_int frequency) 10))
                                 (round_double (real_of_int (preference_deduction st ds tt))))
                           (dmul imbalance 3)
                in if running > 950 then dadd running 50 else running)))"
    by (simp add: calculateSoftConstraintScores_def f i pen Let_def)
  with pen ded show ?thesis by blast
qed

theorem calculateSoftConstraintScores_preference_witness:
  "days (pref_st (Some \<lparr>morning_preference = False\<rparr>)) = Some [''Monday''] \<and>
   calculateSubjectFrequencyPenalty (pref_st (Some \<lparr>morning_preference = False\<rparr>)) pref_tt2 = Inr 0 \<and>
   calculateWorkloadImbalancePenalty (pref_st (Some \<lparr>morning_preference = False\<rparr>)) pref_tt2 =
     Inr (Some 0) \<and>
   calculateTeacherPreferencePenalty (pref_st (Some \<lparr>morning_preference = False\<rparr>)) pref_tt2 = Inr 5 \<and>
   preference_deduction (pref_st (Some \<lparr>morning_preference = False\<rparr>)) [''Monday''] pref_tt2 = 25 \<and>
   calculateSoftConstraintScores (pref_st (Some \<lparr>morning_preference = False\<rparr>)) pref_tt2 =
     Inr (Some 1025)"
proof -
  let ?st = "pref_st (Some \<lparr>morning_preference = False\<rparr>)"
  have ds: "days ?st = Some [''Monday'']"
    by (simp add: pref_st_def)
  have rows: "\<forall>d \<in> set [''Monday'']. map_of pref_tt2 d \<noteq> None"
    by (simp add: pref_tt2_def)
  have f: "calculateSubjectFrequencyPenalty ?st pref_tt2 = Inr 0"
    by code_simp
  have i: "calculateWorkloadImbalancePenalty ?st pref_tt2 = Inr (Some 0)"
    by code_simp
  have d: "preference_deduction ?st [''Monday''] pref_tt2 = 25"
    by code_simp
  have r: "round_double 1000 = 1000" "round_double 25 = 25" "round_double 975 = 975"
    "round_double 1025 = 1025"
    using round_double_of_nat [of 1000] round_double_of_nat [of 25] round_double_of_nat [of 975]
      round_double_of_nat [of 1025]
    by simp_all
  from calculateSoftConstraintScores_preference [OF ds rows f i] obtain pen where
    pen: "calculateTeacherPreferencePenalty ?st pref_tt2 = Inr pen"
    and ded: "pen * 5 = preference_deduction ?st [''Monday''] pref_tt2"
    and sc: "calculateSoftConstraintScores ?st pref_tt2 =
             Inr (Some (max 0
               (let running =
                      dsub (dsub (dsub 1000 (dmul (real_of_int 0) 10))
                                 (round_double (real_of_int (preference_deduction ?st [''Monday''] pref_tt2))))
                           (dmul 0 3)
                in if running > 950 then dadd running 50 else running)))"
    by blast
  from ded d have "pen = 5" by simp
  with pen have p: "calculateTeacherPreferencePenalty ?st pref_tt2 = Inr 5" by simp
  have "calculateSoftConstraintScores ?st pref_tt2 = Inr (Some 1025)"
    unfolding sc d by (simp add: dsub_def dmul_def dadd_def r)
  with ds f i p d show ?thesis by blast
qed

text \<open>
  The claim as stated fails twice. With at most one lesson a day, the teacher's second
  lesson on Monday lowers the score from 1050 to 1025, by 25 and not by 5. And when the
  teacher has no \<^verbatim>\<open>preferences\<close> record, the same second lesson lowers nothing.
\<close>

theorem calculateSoftConstraintScores_preference_counterexample:
  "max_daily_lessons (constraints_of (pref_st (Some \<lparr>morning_preference = False\<rparr>))) = 1 \<and>
   countTeacherDailyLessons (pref_st (Some \<lparr>morning_preference = False\<rparr>)) ''T1'' ''Monday''
     pref_tt1 = Inr 1 \<and>
   countTeacherDailyLessons (pref_st (Some \<lparr>morning_preference = False\<rparr>)) ''T1'' ''Monday''
     pref_tt2 = Inr 2 \<and>
   calculateSoftConstraintScores (pref_st (Some \<lparr>morning_preference = False\<rparr>)) pref_tt1 =
     Inr (Some 1050) \<and>
   calculateSoftConstraintScores (pref_st (Some \<lparr>morning_preference = False\<rparr>)) pref_tt2 =
     Inr (Some 1025) \<and>
   countTeacherDailyLessons (pref_st None) ''T1'' ''Monday'' pref_tt2 = Inr 2 \<and>
   calculateSoftConstraintScores (pref_st None) pref_tt2 = Inr (Some 1050)"
proof -
  let ?st = "pref_st (Some \<lparr>morning_preference = False\<rparr>)"
  have "max_daily_lessons (constraints_of ?st) = 1"
    by (simp add: pref_st_def)
  moreover have "countTeacherDailyLessons ?st ''T1'' ''Monday'' pref_tt1 = Inr 1"
    by code_simp
  moreover have "countTeacherDailyLessons ?st ''T1'' ''Monday'' pref_tt2 = Inr 2"
    by code_simp
  moreover have "calculateSoftConstraintScores ?st pref_tt1 = Inr (Some 1050)"
    by code_simp
  moreover have "calculateSoftConstraintScores ?st pref_tt2 = Inr (Some 1025)"
    by code_simp
  moreover have "countTeacherDailyLessons (pref_st None) ''T1'' ''Monday'' pref_tt2 = Inr 2"
    by code_simp
  moreover have "calculateSoftConstraintScores (pref_st None) pref_tt2 = Inr (Some 1050)"
    by code_simp
  ultimately show ?thesis by blast
qed


text \<open>
  The rounding shows in the score. Of seven teachers one has three lessons and the others
  none; the exact value of the score would be \<open>7242 / 7\<close>, whose nearest double is
  1034.5714285714287, and the score computed in double precision is 1034.5714285714284.
\<close>

lemma calculateSoftConstraintScores_rounded:
  "calculateSoftConstraintScores uneven_st uneven_tt =
     Inr (Some (1137523315479113 / 1099511627776))"
  by code_simp
section \<open>Properties of \<^verbatim>\<open>generate\<close>\<close>

text \<open>
  A run that is not cancelled never gets past \<^verbatim>\<open>balanceTeacherWorkload\<close>: whatever
  the assignment engine has produced, \<^verbatim>\<open>generate\<close> ends with an exception.
\<close>

lemma balanceTeacherWorkload_throws:
  "\<exists>e. balanceTeacherWorkload st False tt = Inl e"
  by (simp add: balanceTeacherWorkload_def split: sum.splits)

lemma optimizeTimetable_throws:
  "\<exists>e. optimizeTimetable st False tt = Inl e"
proof (cases "resolveConflicts st False tt")
  case (Inl e)
  then show ?thesis by (simp add: optimizeTimetable_def)
next
  case (Inr r)
  obtain n tt1 where r: "r = (n, tt1)" by (cases r)
  from balanceTeacherWorkload_throws [of st tt1] obtain e where
    "balanceTeacherWorkload st False tt1 = Inl e" ..
  with Inr r show ?thesis by (simp add: optimizeTimetable_def)
qed

lemma generate_throws: "\<exists>e. fst (generate st isGenerating) = Inl e"
proof (cases isGenerating)
  case True
  then show ?thesis by (simp add: generate_def)
next
  case False
  obtain v shown where v: "validateData st = (v, shown)" by (cases "validateData st")
  show ?thesis
  proof (cases v)
    case f: False
    with False v show ?thesis by (simp add: generate_def)
  next
    case True
    show ?thesis
    proof (cases "placeFixedElements st (initializeTimetable st)")
      case (Inl e)
      with False v True show ?thesis by (simp add: generate_def)
    next
      case p: (Inr tt)
      show ?thesis
      proof (cases "assignLessons st False tt (createLessonSlots st)")
        case (Inl e)
        with False v True p show ?thesis by (simp add: generate_def)
      next
        case a: (Inr r)
        obtain tt1 w where r: "r = (tt1, w)" by (cases r)
        from optimizeTimetable_throws [of st tt1] obtain e where
          "optimizeTimetable st False tt1 = Inl e" ..
        with False v True p a r show ?thesis by (simp add: generate_def)
      qed
    qed
  qed
qed

text \<open>The slots that \<^verbatim>\<open>resetSomeSlots\<close> receives are unassigned, and it returns them as they are.\<close>

lemma resetSomeSlots_unassigned:
  "\<forall>l \<in> set slots. \<not> assigned l \<Longrightarrow> resetSomeSlots slots currentAttempt maxAttempts = slots"
proof -
  assume a: "\<forall>l \<in> set slots. \<not> assigned l"
  have "map (\<lambda>s. s\<lparr>assigned := False\<rparr>) (take n slots) = take n slots" for n
    using a by (intro map_idI) (auto dest: in_set_takeD)
  then show ?thesis by (simp add: resetSomeSlots_def Let_def)
qed

subsection \<open>C4: unassigned slots and the outcome of \<^verbatim>\<open>generate\<close>\<close>

text \<open>
  C4. The claim asks that a run which leaves lesson slots unassigned reports their number
  as a warning and still returns the partial timetable. For the school \<open>cx1_st\<close> the
  data are valid, \<^verbatim>\<open>assignLessons\<close> produces the partial timetable \<open>cx1_partial\<close> and
  the warning for its seven unassigned slots, and then \<^verbatim>\<open>generate\<close> does not return
  the timetable: \<^verbatim>\<open>balanceTeacherWorkload\<close> throws a type error on it, which
  \<^verbatim>\<open>generate\<close> rethrows.
\<close>

theorem generate_unassigned_throws:
  "validateData cx1_st = (True, []) \<and>
   placeFixedElements cx1_st (initializeTimetable cx1_st) = Inr (initializeTimetable cx1_st) \<and>
   assignLessons cx1_st False (initializeTimetable cx1_st) (createLessonSlots cx1_st) =
     Inr (cx1_partial,
          [(''7 lessons could not be assigned. Consider adjusting constraints.'', ''warning'')]) \<and>
   balanceTeacherWorkload cx1_st False cx1_partial = Inl TypeError \<and>
   generate cx1_st False =
     (Inl TypeError,
      [(''7 lessons could not be assigned. Consider adjusting constraints.'', ''warning'')])"
proof -
  have "validateData cx1_st = (True, [])"
    by code_simp
  moreover have "placeFixedElements cx1_st (initializeTimetable cx1_st) =
                   Inr (initializeTimetable cx1_st)"
    by code_simp
  moreover have "assignLessons cx1_st False (initializeTimetable cx1_st) (createLessonSlots cx1_st) =
     Inr (cx1_partial,
          [(''7 lessons could not be assigned. Consider adjusting constraints.'', ''warning'')])"
    by code_simp
  moreover have "balanceTeacherWorkload cx1_st False cx1_partial = Inl TypeError"
    by code_simp
  moreover have "generate cx1_st False =
     (Inl TypeError,
      [(''7 lessons could not be assigned. Consider adjusting constraints.'', ''warning'')])"
    by code_simp
  ultimately show ?thesis by blast
qed


end
